theory Spec2Isabelle
  imports Complex_Main
begin

section \<open>The training script \<^verbatim>\<open>src/train.py\<close>\<close>

text \<open>
  The script sequences calls into a numeric framework and into modules of the repository
  that are not part of the source at hand (the network, the loss, the Dice coefficient,
  the metric tracker, the summary logger, the data set). The embedding keeps the control
  flow, the state and the failure points of \<^verbatim>\<open>main\<close>, \<^verbatim>\<open>train\<close>,
  \<^verbatim>\<open>validation\<close> and \<^verbatim>\<open>save_checkpoint\<close> and takes the numeric collaborators as
  parameters. Every call that changes state outside the function, prints, or reaches a
  collaborator is recorded when it returns, in program order, in a trace carried by the
  run state.

  Conventions. Python floats are modelled by \<^typ>\<open>real\<close>: rounding, infinities, NaN and the
  difference between the \<^verbatim>\<open>float\<close> and \<^verbatim>\<open>double\<close> casts are outside the model.
  A batched tensor is the list of its samples, each a flat list of values, so that
  \<^verbatim>\<open>t.size(0)\<close> is the length of the list. Collaborators are total functions: a call
  into the framework returns, with one exception, \<^verbatim>\<open>loss.backward()\<close>, which raises
  for a loss that carries no gradient history. Device placement (\<^verbatim>\<open>cuda\<close>), the
  progress bar and the wall clock do not influence the control flow and are left out,
  except that the two elapsed-time messages are kept as events without their numbers.
\<close>

subsection \<open>Data\<close>

type_synonym tensor = "real list list"

datatype error = ZeroDivisionError | NameError | UnpicklingError | RuntimeError

record batch =
  sat_img :: tensor
  map_img :: tensor

text \<open>\<^verbatim>\<open>inputs.size(0)\<close>\<close>

definition size0 :: "tensor \<Rightarrow> nat" where
  "size0 t = length t"

text \<open>\<^verbatim>\<open>(prob_map > 0.3).float()\<close>, elementwise.\<close>

definition threshold :: "tensor \<Rightarrow> tensor" where
  "threshold prob_map = map (map (\<lambda>p. if 3 / 10 < p then 1 else 0)) prob_map"

text \<open>
  The SGD optimizer as far as its \<^verbatim>\<open>state_dict\<close> goes: the learning rate and momentum of
  its single parameter group and the per-parameter momentum buffers. The remaining
  hyper-parameters of the group are constants of the script.
\<close>

record 'o optimizer =
  lr :: real
  momentum :: real
  buffers :: 'o

text \<open>The step-decay schedule object: it keeps its base rate and an epoch counter.\<close>

record scheduler =
  base_lr :: real
  step_size :: int
  gamma :: real
  last_epoch :: int

text \<open>The dictionary handed to \<^verbatim>\<open>save_checkpoint\<close> at lines 99 to 105.\<close>

record ('w, 'o) checkpoint =
  epoch :: int
  arch :: string
  state_dict :: 'w
  best_loss :: real
  optimizer :: "'o optimizer"

datatype ('w, 'o) stored = CheckpointFile "('w, 'o) checkpoint" | OtherFile

type_synonym ('w, 'o) filesystem = "string \<Rightarrow> ('w, 'o) stored option"

datatype msg =
    LoadingCheckpoint string
  | LoadedCheckpoint string int
  | NoCheckpointFound string
  | EpochHeader int int
  | Dashes
  | TrainingLoss real real
  | ValidationLoss real real
  | Blank
  | CurrentElapsed
  | TrainingComplete

datatype ('w, 'o) event =
    Print msg
  | SchedulerStep real
  | ModelEval
  | ZeroGrad
  | Forward bool tensor tensor
  | Criterion tensor tensor real
  | Backward real
  | OptimizerStep
  | ScalarSummary string string real real
  | HistoSummaries string real
  | ImageSummary string string real
  | TorchLoad string
  | TorchSave string "('w, 'o) checkpoint"
  | CopyFile string string

text \<open>
  The collaborators. \<open>forward w training x\<close> is \<^verbatim>\<open>model(inputs)\<close> for parameters \<open>w\<close>
  in training or evaluation mode; \<open>criterion\<close> is \<^verbatim>\<open>metrics.BCEDiceLoss()\<close>;
  \<open>dice_coeff\<close> is \<^verbatim>\<open>metrics.dice_coeff\<close>; \<open>zero_grad\<close>, \<open>backward\<close> and \<open>sgd_step\<close> are
  \<^verbatim>\<open>optimizer.zero_grad()\<close>, \<^verbatim>\<open>loss.backward()\<close> where it returns (it adds the gradient
  of the loss of this batch to the stored gradients) and \<^verbatim>\<open>optimizer.step()\<close>.

  \<open>loss_requires_grad a b\<close> is the \<^verbatim>\<open>requires_grad\<close> flag of \<^verbatim>\<open>criterion(outputs, labels)\<close>
  for arguments whose flags are \<open>a\<close> and \<open>b\<close>. The framework sets the flag of a result
  when an argument of the operation has it, so a loss computed from its two arguments
  alone has the flag \<open>a \<or> b\<close>; a criterion with trainable parameters of its own has it
  always. \<^verbatim>\<open>metrics.BCEDiceLoss\<close> is not part of the source at hand, so the flag is a
  parameter.
\<close>

record ('w, 'g, 'o) collab =
  init_weights :: 'w
  init_grads :: 'g
  init_buffers :: 'o
  forward :: "'w \<Rightarrow> bool \<Rightarrow> tensor \<Rightarrow> tensor"
  criterion :: "tensor \<Rightarrow> tensor \<Rightarrow> real"
  loss_requires_grad :: "bool \<Rightarrow> bool \<Rightarrow> bool"
  dice_coeff :: "tensor \<Rightarrow> tensor \<Rightarrow> real"
  zero_grad :: "'g \<Rightarrow> 'g"
  backward :: "'w \<Rightarrow> bool \<Rightarrow> tensor \<Rightarrow> tensor \<Rightarrow> tensor \<Rightarrow> 'g \<Rightarrow> 'g"
  sgd_step :: "'o optimizer \<Rightarrow> 'w \<Rightarrow> 'g \<Rightarrow> 'w \<times> 'o"

text \<open>Everything the script mutates.\<close>

record ('w, 'g, 'o) run =
  weights :: 'w
  grads :: 'g
  opt :: "'o optimizer"
  training :: bool
  sched :: scheduler
  fs :: "('w, 'o) filesystem"
  trace :: "('w, 'o) event list"

definition emit :: "('w, 'o) event list \<Rightarrow> ('w, 'g, 'o) run \<Rightarrow> ('w, 'g, 'o) run" where
  "emit es s = s\<lparr>trace := trace s @ es\<rparr>"

subsection \<open>The metric tracker and the logger\<close>

text \<open>
  Modelled from the spec: \<^verbatim>\<open>metrics.MetricTracker\<close> is not part of the source at hand.
  Its state is a sum and a count; \<open>update\<close> adds value times weight to the sum and the
  weight to the count; the average is sum over count, guarded to zero for a count of zero.
\<close>

record tracker =
  msum :: real
  mcount :: nat

definition MetricTracker :: tracker where
  "MetricTracker = \<lparr>msum = 0, mcount = 0\<rparr>"

definition update :: "tracker \<Rightarrow> real \<Rightarrow> nat \<Rightarrow> tracker" where
  "update t v n = \<lparr>msum = msum t + v * real n, mcount = mcount t + n\<rparr>"

definition avg :: "tracker \<Rightarrow> real" where
  "avg t = (if mcount t = 0 then 0 else msum t / real (mcount t))"

text \<open>
  Modelled from the spec: \<^verbatim>\<open>logger.Logger\<close> is not part of the source at hand. The script
  reads its \<^verbatim>\<open>print_freq\<close> attribute and calls its three summary methods, which are
  recorded as events tagged with the logger's directory.
\<close>

record logger =
  log_dir :: string
  print_freq :: int

subsection \<open>The learning-rate schedule\<close>

text \<open>
  \<^verbatim>\<open>optim.lr_scheduler.StepLR\<close> belongs to the framework. The script's use of
  \<^verbatim>\<open>Variable\<close>, \<^verbatim>\<open>volatile\<close> and \<^verbatim>\<open>loss.data[0]\<close> fixes the framework generation, whose
  scheduler sets the rate to \<open>base_lr * gamma ** (last_epoch // step_size)\<close> on every
  step, performs one step for epoch 0 on construction and then puts the counter back to
  \<open>-1\<close>.
\<close>

definition py_pow :: "real \<Rightarrow> int \<Rightarrow> real" where
  "py_pow x n = (if 0 \<le> n then x ^ nat n else 1 / x ^ nat (- n))"

definition get_lr :: "scheduler \<Rightarrow> real" where
  "get_lr sch = base_lr sch * py_pow (gamma sch) (last_epoch sch div step_size sch)"

definition scheduler_step :: "scheduler \<Rightarrow> 'o optimizer \<Rightarrow> scheduler \<times> 'o optimizer" where
  "scheduler_step sch ob =
     (let sch' = sch\<lparr>last_epoch := last_epoch sch + 1\<rparr>
      in (sch', ob\<lparr>lr := get_lr sch'\<rparr>))"

definition StepLR :: "'o optimizer \<Rightarrow> int \<Rightarrow> real \<Rightarrow> scheduler \<times> 'o optimizer" where
  "StepLR ob st g =
     (let sch0 = \<lparr>base_lr = lr ob, step_size = st, gamma = g, last_epoch = 0\<rparr>
      in (sch0\<lparr>last_epoch := - 1\<rparr>, ob\<lparr>lr := get_lr sch0\<rparr>))"

subsection \<open>The training pass\<close>

text \<open>
  Line 159. \<^verbatim>\<open>outputs\<close> is the result of the comparison of line 154, which has no
  gradient history whatever \<^verbatim>\<open>prob_map\<close> has, and the cast keeps that; the labels come
  from the loader and have none. \<^verbatim>\<open>loss.backward()\<close> raises \<^verbatim>\<open>RuntimeError\<close> for a
  loss whose \<^verbatim>\<open>requires_grad\<close> flag is not set.
\<close>

definition loss_has_grad :: "('w, 'g, 'o) collab \<Rightarrow> bool" where
  "loss_has_grad T = loss_requires_grad T False False"

text \<open>
  Lines 137 to 163: one batch of \<^verbatim>\<open>train\<close>, up to the two tracker updates, or up to
  the error that \<^verbatim>\<open>loss.backward()\<close> raises.
\<close>

definition train_batch ::
  "('w, 'g, 'o) collab \<Rightarrow> batch \<Rightarrow> tracker \<Rightarrow> tracker \<Rightarrow> ('w, 'g, 'o) run
     \<Rightarrow> (error + tracker \<times> tracker) \<times> ('w, 'g, 'o) run" where
  "train_batch T data train_acc train_loss s =
     (let inputs = sat_img data;
          labels = map_img data;
          s1 = emit [ZeroGrad] (s\<lparr>grads := zero_grad T (grads s)\<rparr>);
          prob_map = forward T (weights s1) (training s1) inputs;
          outputs = threshold prob_map;
          loss = criterion T outputs labels;
          s2 = emit [Forward (training s1) inputs prob_map, Criterion outputs labels loss] s1
      in if \<not> loss_has_grad T then (Inl RuntimeError, s2)
         else
           let s3 = emit [Backward loss]
                      (s2\<lparr>grads := backward T (weights s2) (training s2) inputs outputs labels
                                      (grads s2)\<rparr>);
               (w', b') = sgd_step T (opt s3) (weights s3) (grads s3);
               s4 = emit [OptimizerStep] (s3\<lparr>weights := w', opt := (opt s3)\<lparr>buffers := b'\<rparr>\<rparr>)
           in (Inr (update train_acc (dice_coeff T inputs labels) (size0 inputs),
                    update train_loss loss (size0 inputs)),
               s4))"

text \<open>Lines 168 to 192: the summaries of one log point of the training pass.\<close>

definition train_log ::
  "logger \<Rightarrow> int \<Rightarrow> int \<Rightarrow> int \<Rightarrow> tracker \<Rightarrow> tracker \<Rightarrow> ('w, 'g, 'o) run
     \<Rightarrow> ('w, 'g, 'o) run" where
  "train_log lg epoch_num log_iter idx train_acc train_loss s =
     (let step = real_of_int (epoch_num * print_freq lg)
                   + real_of_int idx / real_of_int log_iter
      in emit [ScalarSummary (log_dir lg) ''loss'' (avg train_loss) step,
               ScalarSummary (log_dir lg) ''accuracy'' (avg train_acc) step,
               HistoSummaries (log_dir lg) step,
               ImageSummary (log_dir lg) ''target_images'' step,
               ImageSummary (log_dir lg) ''pred_images'' step] s)"

text \<open>
  Lines 136 to 192: the loop over the batches. An error raised in a batch ends the pass;
  \<^verbatim>\<open>idx % log_iter\<close> raises when \<^verbatim>\<open>log_iter\<close> is zero, after the batch has been
  trained on.
\<close>

fun train_loop ::
  "('w, 'g, 'o) collab \<Rightarrow> logger \<Rightarrow> int \<Rightarrow> int \<Rightarrow> int \<Rightarrow> batch list \<Rightarrow> tracker \<Rightarrow> tracker
     \<Rightarrow> ('w, 'g, 'o) run \<Rightarrow> (error + tracker \<times> tracker) \<times> ('w, 'g, 'o) run" where
  "train_loop T lg epoch_num log_iter idx [] train_acc train_loss s =
     (Inr (train_acc, train_loss), s)"
| "train_loop T lg epoch_num log_iter idx (data # rest) train_acc train_loss s =
     (case train_batch T data train_acc train_loss s of
        (Inl err, s') \<Rightarrow> (Inl err, s')
      | (Inr (acc', loss'), s') \<Rightarrow>
          if log_iter = 0 then (Inl ZeroDivisionError, s')
          else if idx mod log_iter = 0
          then train_loop T lg epoch_num log_iter (idx + 1) rest acc' loss'
                 (train_log lg epoch_num log_iter idx acc' loss' s')
          else train_loop T lg epoch_num log_iter (idx + 1) rest acc' loss' s')"

record train_metrics =
  train_loss :: real
  train_acc :: real

text \<open>
  \<^verbatim>\<open>train\<close>, lines 114 to 197. \<^verbatim>\<open>len(train_loader)//logger.print_freq\<close> raises for a
  \<^verbatim>\<open>print_freq\<close> of zero, before the scheduler is stepped.
\<close>

definition train ::
  "('w, 'g, 'o) collab \<Rightarrow> batch list \<Rightarrow> logger \<Rightarrow> int \<Rightarrow> ('w, 'g, 'o) run
     \<Rightarrow> (error + train_metrics) \<times> ('w, 'g, 'o) run" where
  "train T train_loader lg epoch_num s =
     (if print_freq lg = 0 then (Inl ZeroDivisionError, s)
      else
        let log_iter = int (length train_loader) div print_freq lg;
            (sch', opt') = scheduler_step (sched s) (opt s);
            s1 = emit [SchedulerStep (lr opt')] (s\<lparr>sched := sch', opt := opt'\<rparr>)
        in case train_loop T lg epoch_num log_iter 0 train_loader MetricTracker MetricTracker s1 of
             (Inl e, s2) \<Rightarrow> (Inl e, s2)
           | (Inr (acc, loss), s2) \<Rightarrow>
               (Inr \<lparr>train_loss = avg loss, train_acc = avg acc\<rparr>,
                emit [Print (TrainingLoss (avg loss) (avg acc)), Print Blank] s2))"

subsection \<open>The validation pass\<close>

text \<open>Lines 224 to 243: one batch of \<^verbatim>\<open>validation\<close>.\<close>

definition validation_batch ::
  "('w, 'g, 'o) collab \<Rightarrow> batch \<Rightarrow> tracker \<Rightarrow> tracker \<Rightarrow> ('w, 'g, 'o) run
     \<Rightarrow> tracker \<times> tracker \<times> ('w, 'g, 'o) run" where
  "validation_batch T data valid_acc valid_loss s =
     (let inputs = sat_img data;
          labels = map_img data;
          prob_map = forward T (weights s) (training s) inputs;
          outputs = threshold prob_map;
          loss = criterion T outputs labels;
          s1 = emit [Forward (training s) inputs prob_map, Criterion outputs labels loss] s
      in (update valid_acc (dice_coeff T inputs labels) (size0 inputs),
          update valid_loss loss (size0 inputs),
          s1))"

text \<open>Lines 248 to 266.\<close>

definition validation_log ::
  "logger \<Rightarrow> int \<Rightarrow> int \<Rightarrow> int \<Rightarrow> tracker \<Rightarrow> tracker \<Rightarrow> ('w, 'g, 'o) run
     \<Rightarrow> ('w, 'g, 'o) run" where
  "validation_log lg epoch_num log_iter idx valid_acc valid_loss s =
     (let step = real_of_int (epoch_num * print_freq lg)
                   + real_of_int idx / real_of_int log_iter
      in emit [ScalarSummary (log_dir lg) ''loss'' (avg valid_loss) step,
               ScalarSummary (log_dir lg) ''accuracy'' (avg valid_acc) step,
               ImageSummary (log_dir lg) ''target_images'' step,
               ImageSummary (log_dir lg) ''pred_images'' step] s)"

fun validation_loop ::
  "('w, 'g, 'o) collab \<Rightarrow> logger \<Rightarrow> int \<Rightarrow> int \<Rightarrow> int \<Rightarrow> batch list \<Rightarrow> tracker \<Rightarrow> tracker
     \<Rightarrow> ('w, 'g, 'o) run \<Rightarrow> (error + tracker \<times> tracker) \<times> ('w, 'g, 'o) run" where
  "validation_loop T lg epoch_num log_iter idx [] valid_acc valid_loss s =
     (Inr (valid_acc, valid_loss), s)"
| "validation_loop T lg epoch_num log_iter idx (data # rest) valid_acc valid_loss s =
     (case validation_batch T data valid_acc valid_loss s of
        (acc', loss', s') \<Rightarrow>
          if log_iter = 0 then (Inl ZeroDivisionError, s')
          else if idx mod log_iter = 0
          then validation_loop T lg epoch_num log_iter (idx + 1) rest acc' loss'
                 (validation_log lg epoch_num log_iter idx acc' loss' s')
          else validation_loop T lg epoch_num log_iter (idx + 1) rest acc' loss' s')"

record valid_metrics =
  valid_loss :: real
  valid_acc :: real

text \<open>\<^verbatim>\<open>validation\<close>, lines 200 to 271.\<close>

definition validation ::
  "('w, 'g, 'o) collab \<Rightarrow> batch list \<Rightarrow> logger \<Rightarrow> int \<Rightarrow> ('w, 'g, 'o) run
     \<Rightarrow> (error + valid_metrics) \<times> ('w, 'g, 'o) run" where
  "validation T valid_loader lg epoch_num s =
     (if print_freq lg = 0 then (Inl ZeroDivisionError, s)
      else
        let log_iter = int (length valid_loader) div print_freq lg;
            s1 = emit [ModelEval] (s\<lparr>training := False\<rparr>)
        in case validation_loop T lg epoch_num log_iter 0 valid_loader MetricTracker MetricTracker s1 of
             (Inl e, s2) \<Rightarrow> (Inl e, s2)
           | (Inr (acc, loss), s2) \<Rightarrow>
               (Inr \<lparr>valid_loss = avg loss, valid_acc = avg acc\<rparr>,
                emit [Print (ValidationLoss (avg loss) (avg acc)), Print Blank] s2))"

subsection \<open>Checkpoints\<close>

definition checkpoint_path :: string where
  "checkpoint_path = ''../checkpoints/checkpoint.pth.tar''"

definition best_path :: string where
  "best_path = ''../checkpoints/model_best.pth.tar''"

text \<open>\<^verbatim>\<open>shutil.copyfile(src, dst)\<close>; the source exists wherever the script calls it.\<close>

definition copyfile :: "string \<Rightarrow> string \<Rightarrow> ('w, 'o) filesystem \<Rightarrow> ('w, 'o) filesystem" where
  "copyfile src dst f = f(dst := f src)"

text \<open>\<^verbatim>\<open>save_checkpoint\<close>, lines 275 to 284, with the default file name.\<close>

definition save_checkpoint ::
  "('w, 'o) checkpoint \<Rightarrow> bool \<Rightarrow> ('w, 'g, 'o) run \<Rightarrow> ('w, 'g, 'o) run" where
  "save_checkpoint state is_best s =
     (let s1 = emit [TorchSave checkpoint_path state]
                 (s\<lparr>fs := (fs s)(checkpoint_path \<mapsto> CheckpointFile state)\<rparr>)
      in if is_best
         then emit [CopyFile checkpoint_path best_path]
                (s1\<lparr>fs := copyfile checkpoint_path best_path (fs s1)\<rparr>)
         else s1)"

subsection \<open>The entry point\<close>

text \<open>Lines 36 to 52: model, optimizer, schedule and starting parameters of a fresh run.\<close>

definition fresh_run ::
  "('w, 'g, 'o) collab \<Rightarrow> real \<Rightarrow> real \<Rightarrow> ('w, 'o) filesystem \<Rightarrow> ('w, 'g, 'o) run" where
  "fresh_run T learning_rate mom f =
     (let optimizer0 = \<lparr>lr = learning_rate, momentum = mom, buffers = init_buffers T\<rparr>;
          (lr_scheduler, optimizer1) = StepLR optimizer0 15 (1 / 10)
      in \<lparr>weights = init_weights T, grads = init_grads T, opt = optimizer1, training = True,
          sched = lr_scheduler, fs = f, trace = []\<rparr>)"

text \<open>
  Lines 51 to 66. The result is the start epoch and the best loss, or the error raised,
  together with the run state. A file that is no checkpoint makes \<^verbatim>\<open>torch.load\<close>
  raise. The message of line 66 reads the module global \<^verbatim>\<open>args\<close>, which exists only
  when the module runs as a script; \<open>args\<close> is its \<^verbatim>\<open>resume\<close> attribute then, and
  \<open>None\<close> otherwise.
\<close>

definition resume_from ::
  "string option \<Rightarrow> string \<Rightarrow> ('w, 'g, 'o) run \<Rightarrow> (error + int \<times> real) \<times> ('w, 'g, 'o) run" where
  "resume_from args resume s =
     (let best_loss0 = 999; start_epoch = 0
      in if resume \<noteq> []
         then (case fs s resume of
                 Some (CheckpointFile checkpoint) \<Rightarrow>
                   (Inr (epoch checkpoint, best_loss checkpoint),
                    emit [Print (LoadingCheckpoint resume), TorchLoad resume,
                          Print (LoadedCheckpoint resume (epoch checkpoint))]
                      (s\<lparr>weights := state_dict checkpoint, opt := optimizer checkpoint\<rparr>))
               | Some OtherFile \<Rightarrow>
                   (Inl UnpicklingError,
                    emit [Print (LoadingCheckpoint resume), TorchLoad resume] s)
               | None \<Rightarrow>
                   (case args of
                      None \<Rightarrow> (Inl NameError, s)
                    | Some args_resume \<Rightarrow>
                        (Inr (start_epoch, best_loss0),
                         emit [Print (NoCheckpointFound args_resume)] s)))
         else (Inr (start_epoch, best_loss0), s))"

text \<open>\<^verbatim>\<open>range(a, b)\<close>\<close>

definition py_range :: "int \<Rightarrow> int \<Rightarrow> int list" where
  "py_range a b = [a..b - 1]"

text \<open>
  Lines 89 to 108: the epoch loop, over the epochs still to run. The training loader
  shuffles and crops at random, so the batches it yields are a function of the epoch; the
  validation loader yields the same batches every time.
\<close>

fun epoch_loop ::
  "('w, 'g, 'o) collab \<Rightarrow> (int \<Rightarrow> batch list) \<Rightarrow> batch list \<Rightarrow> logger \<Rightarrow> logger \<Rightarrow> int
     \<Rightarrow> int list \<Rightarrow> real \<Rightarrow> ('w, 'g, 'o) run \<Rightarrow> error option \<times> real \<times> ('w, 'g, 'o) run" where
  "epoch_loop T train_dataloader val_dataloader train_logger val_logger num_epochs [] best s =
     (None, best, s)"
| "epoch_loop T train_dataloader val_dataloader train_logger val_logger num_epochs (ep # rest) best s =
     (let s1 = emit [Print (EpochHeader ep (num_epochs - 1)), Print Dashes] s
      in case train T (train_dataloader ep) train_logger ep s1 of
           (Inl e, s2) \<Rightarrow> (Some e, best, s2)
         | (Inr tm, s2) \<Rightarrow>
             (case validation T val_dataloader val_logger ep s2 of
                (Inl e, s3) \<Rightarrow> (Some e, best, s3)
              | (Inr vm, s3) \<Rightarrow>
                  let is_best = valid_loss vm < best;
                      best' = min (valid_loss vm) best;
                      s4 = save_checkpoint
                             \<lparr>epoch = ep, arch = ''UNet'', state_dict = weights s3,
                              best_loss = best', optimizer = opt s3\<rparr> is_best s3;
                      s5 = emit [Print CurrentElapsed] s4
                  in epoch_loop T train_dataloader val_dataloader train_logger val_logger
                       num_epochs rest best' s5))"

text \<open>
  \<^verbatim>\<open>main\<close>, lines 22 to 111. The data sets and loaders are given; \<open>run_id\<close> only names
  the two log directories.
\<close>

definition loggers :: "string \<Rightarrow> int \<Rightarrow> logger \<times> logger" where
  "loggers run_id pfreq =
     (\<lparr>log_dir = ''../logs/run_'' @ run_id @ ''/training'', print_freq = pfreq\<rparr>,
      \<lparr>log_dir = ''../logs/run_'' @ run_id @ ''/validation'', print_freq = pfreq\<rparr>)"

definition main ::
  "('w, 'g, 'o) collab \<Rightarrow> string option \<Rightarrow> int \<Rightarrow> real \<Rightarrow> real \<Rightarrow> int \<Rightarrow> string \<Rightarrow> string
     \<Rightarrow> (int \<Rightarrow> batch list) \<Rightarrow> batch list \<Rightarrow> ('w, 'o) filesystem
     \<Rightarrow> error option \<times> ('w, 'g, 'o) run" where
  "main T args num_epochs learning_rate mom pfreq run_id resume
        train_dataloader val_dataloader f =
     (case resume_from args resume (fresh_run T learning_rate mom f) of
        (Inl e, s) \<Rightarrow> (Some e, s)
      | (Inr (start_epoch, best), s) \<Rightarrow>
          (case epoch_loop T train_dataloader val_dataloader
                  (fst (loggers run_id pfreq)) (snd (loggers run_id pfreq))
                  num_epochs (py_range start_epoch num_epochs) best s of
             (Some e, b, s') \<Rightarrow> (Some e, s')
           | (None, b, s') \<Rightarrow> (None, emit [Print TrainingComplete] s')))"

text \<open>
  Lines 287 to 311: run as a script, the module global \<^verbatim>\<open>args\<close> is the parsed command
  line and \<^verbatim>\<open>main\<close> receives its fields.
\<close>

definition script ::
  "('w, 'g, 'o) collab \<Rightarrow> int \<Rightarrow> real \<Rightarrow> real \<Rightarrow> int \<Rightarrow> string \<Rightarrow> string
     \<Rightarrow> (int \<Rightarrow> batch list) \<Rightarrow> batch list \<Rightarrow> ('w, 'o) filesystem
     \<Rightarrow> error option \<times> ('w, 'g, 'o) run" where
  "script T epochs learning_rate mom pfreq run_id resume train_dataloader val_dataloader f =
     main T (Some resume) epochs learning_rate mom pfreq run_id resume
       train_dataloader val_dataloader f"

section \<open>Vocabulary for the properties\<close>

subsection \<open>Kinds of events\<close>

text \<open>
  The calls into the model, the loss and the optimizer that a batch makes, and the calls
  into the summary logger.
\<close>

fun is_compute :: "('w,'o) event \<Rightarrow> bool" where
  "is_compute ZeroGrad = True"
| "is_compute (Forward m x p) = True"
| "is_compute (Criterion out y l) = True"
| "is_compute (Backward l) = True"
| "is_compute OptimizerStep = True"
| "is_compute _ = False"

fun is_summary :: "('w,'o) event \<Rightarrow> bool" where
  "is_summary (ScalarSummary d t v st) = True"
| "is_summary (HistoSummaries d st) = True"
| "is_summary (ImageSummary d t st) = True"
| "is_summary _ = False"

subsection \<open>What one batch and one pass add to the trace\<close>

text \<open>
  The framework calls of one training batch \<open>b\<close> whose forward call returned the
  probability map \<open>p\<close> in mode \<open>m\<close> (lines 150 to 160); those of a training batch
  that ends where \<^verbatim>\<open>loss.backward()\<close> raises (lines 150 to 156); those a training
  batch makes with the collaborators \<open>T\<close>; and those of one validation batch (lines 237 to
  240).
\<close>

definition train_block :: "('w,'g,'o) collab \<Rightarrow> bool \<Rightarrow> batch \<Rightarrow> tensor \<Rightarrow> ('w,'o) event list" where
  "train_block T m b p =
     [ZeroGrad, Forward m (sat_img b) p,
      Criterion (threshold p) (map_img b) (criterion T (threshold p) (map_img b)),
      Backward (criterion T (threshold p) (map_img b)), OptimizerStep]"

definition cut_block :: "('w,'g,'o) collab \<Rightarrow> bool \<Rightarrow> batch \<Rightarrow> tensor \<Rightarrow> ('w,'o) event list" where
  "cut_block T m b p =
     [ZeroGrad, Forward m (sat_img b) p,
      Criterion (threshold p) (map_img b) (criterion T (threshold p) (map_img b))]"

definition batch_calls :: "('w,'g,'o) collab \<Rightarrow> bool \<Rightarrow> batch \<Rightarrow> tensor \<Rightarrow> ('w,'o) event list" where
  "batch_calls T m b p = (if loss_has_grad T then train_block T m b p else cut_block T m b p)"

definition val_block :: "('w,'g,'o) collab \<Rightarrow> bool \<Rightarrow> batch \<Rightarrow> tensor \<Rightarrow> ('w,'o) event list" where
  "val_block T m b p =
     [Forward m (sat_img b) p,
      Criterion (threshold p) (map_img b) (criterion T (threshold p) (map_img b))]"

text \<open>Each of the probability maps \<open>ps\<close> is what the model returns on the inputs of its batch.\<close>

definition forward_outputs ::
  "('w,'g,'o) collab \<Rightarrow> bool \<Rightarrow> batch list \<Rightarrow> tensor list \<Rightarrow> bool" where
  "forward_outputs T m bs ps \<longleftrightarrow>
     list_all2 (\<lambda>b p. \<exists>w. p = forward T w m (sat_img b)) (take (length ps) bs) ps"

text \<open>
  The updates the accuracy tracker and the loss tracker receive in a pass over the batches
  \<open>bs\<close> with the probability maps \<open>ps\<close> (lines 162, 163, 242 and 243), as pairs of
  value and weight, and the tracker that has received a list of updates.
\<close>

definition dice_updates :: "('w,'g,'o) collab \<Rightarrow> batch list \<Rightarrow> (real \<times> nat) list" where
  "dice_updates T bs = map (\<lambda>b. (dice_coeff T (sat_img b) (map_img b), size0 (sat_img b))) bs"

definition loss_updates :: "('w,'g,'o) collab \<Rightarrow> batch list \<Rightarrow> tensor list \<Rightarrow> (real \<times> nat) list" where
  "loss_updates T bs ps = map2 (\<lambda>b p. (criterion T (threshold p) (map_img b), size0 (sat_img b))) bs ps"

definition tracked :: "tracker \<Rightarrow> (real \<times> nat) list \<Rightarrow> tracker" where
  "tracked t us = foldl (\<lambda>t (v, n). update t v n) t us"

text \<open>The schedule after one more \<^verbatim>\<open>scheduler.step()\<close>.\<close>

definition stepped :: "scheduler \<Rightarrow> scheduler" where
  "stepped sch = sch\<lparr>last_epoch := last_epoch sch + 1\<rparr>"

text \<open>
  What a training pass that got past the computation of its cadence has done when it
  ends with result \<open>r\<close> in state \<open>s'\<close>: it has stepped the schedule, then added the
  events \<open>new\<close> of its batches, whose forward calls returned \<open>ps\<close>, then the closing
  messages \<open>fin\<close>. It ends in an error in its first batch or not at all: at
  \<^verbatim>\<open>loss.backward()\<close> when the loss has no gradient history, at the modulo when the
  cadence is zero. Likewise for a validation pass, which first switches the mode.
\<close>

definition train_effect ::
  "('w,'g,'o) collab \<Rightarrow> batch list \<Rightarrow> logger \<Rightarrow> ('w,'g,'o) run \<Rightarrow> error + train_metrics
     \<Rightarrow> ('w,'g,'o) run \<Rightarrow> ('w,'o) event list \<Rightarrow> tensor list \<Rightarrow> ('w,'o) event list \<Rightarrow> bool" where
  "train_effect T bs lg s r s' new ps fin \<longleftrightarrow>
     trace s' = trace s @ SchedulerStep (get_lr (stepped (sched s))) # new @ fin
     \<and> length ps \<le> length bs
     \<and> filter is_compute new = concat (map2 (batch_calls T (training s)) bs ps)
     \<and> (\<forall>ev \<in> set new. is_compute ev \<or> is_summary ev)
     \<and> fs s' = fs s \<and> training s' = training s \<and> sched s' = stepped (sched s)
     \<and> lr (opt s') = get_lr (stepped (sched s)) \<and> momentum (opt s') = momentum (opt s)
     \<and> (\<forall>m. r = Inr m \<longrightarrow>
           length ps = length bs
           \<and> (bs \<noteq> [] \<longrightarrow> int (length bs) div print_freq lg \<noteq> 0 \<and> loss_has_grad T)
           \<and> fin = [Print (TrainingLoss (train_loss m) (train_acc m)), Print Blank]
           \<and> train_acc m = avg (tracked MetricTracker (dice_updates T bs))
           \<and> train_loss m = avg (tracked MetricTracker (loss_updates T bs ps)))
     \<and> (\<forall>err. r = Inl err \<longrightarrow>
           length ps = 1 \<and> fin = []
           \<and> (if loss_has_grad T
                then err = ZeroDivisionError \<and> int (length bs) div print_freq lg = 0
                else err = RuntimeError \<and> weights s' = weights s))
     \<and> forward_outputs T (training s) bs ps"

definition validation_effect ::
  "('w,'g,'o) collab \<Rightarrow> batch list \<Rightarrow> logger \<Rightarrow> ('w,'g,'o) run \<Rightarrow> error + valid_metrics
     \<Rightarrow> ('w,'g,'o) run \<Rightarrow> ('w,'o) event list \<Rightarrow> tensor list \<Rightarrow> ('w,'o) event list \<Rightarrow> bool" where
  "validation_effect T bs lg s r s' new ps fin \<longleftrightarrow>
     trace s' = trace s @ ModelEval # new @ fin
     \<and> length ps \<le> length bs
     \<and> filter is_compute new = concat (map2 (val_block T False) bs ps)
     \<and> (\<forall>ev \<in> set new. is_compute ev \<or> is_summary ev)
     \<and> fs s' = fs s \<and> training s' = False \<and> sched s' = sched s
     \<and> opt s' = opt s \<and> weights s' = weights s \<and> grads s' = grads s
     \<and> (\<forall>m. r = Inr m \<longrightarrow>
           length ps = length bs \<and> (bs \<noteq> [] \<longrightarrow> int (length bs) div print_freq lg \<noteq> 0)
           \<and> fin = [Print (ValidationLoss (valid_loss m) (valid_acc m)), Print Blank]
           \<and> valid_acc m = avg (tracked MetricTracker (dice_updates T bs))
           \<and> valid_loss m = avg (tracked MetricTracker (loss_updates T bs ps)))
     \<and> (\<forall>err. r = Inl err \<longrightarrow>
           err = ZeroDivisionError \<and> int (length bs) div print_freq lg = 0
           \<and> length ps = 1 \<and> fin = [])
     \<and> forward_outputs T False bs ps"

subsection \<open>Observations on a trace\<close>

text \<open>
  The validation losses printed, the checkpoints handed to \<^verbatim>\<open>torch.save\<close>, the file
  writes, the rates set by the scheduler steps and the modes of the forward calls, each
  in the order of occurrence; and the events by which the trace of a later state extends
  that of an earlier one.
\<close>

fun val_loss_of :: "('w,'o) event \<Rightarrow> real list" where
  "val_loss_of (Print (ValidationLoss l a)) = [l]"
| "val_loss_of _ = []"

definition val_losses :: "('w,'o) event list \<Rightarrow> real list" where
  "val_losses tr = concat (map val_loss_of tr)"

fun saved_of :: "('w,'o) event \<Rightarrow> ('w,'o) checkpoint list" where
  "saved_of (TorchSave p c) = [c]"
| "saved_of _ = []"

definition saved :: "('w,'o) event list \<Rightarrow> ('w,'o) checkpoint list" where
  "saved tr = concat (map saved_of tr)"

fun is_file_write :: "('w,'o) event \<Rightarrow> bool" where
  "is_file_write (TorchSave p c) = True"
| "is_file_write (CopyFile a b) = True"
| "is_file_write _ = False"

fun sched_lr_of :: "('w,'o) event \<Rightarrow> real list" where
  "sched_lr_of (SchedulerStep r) = [r]"
| "sched_lr_of _ = []"

definition sched_lrs :: "('w,'o) event list \<Rightarrow> real list" where
  "sched_lrs tr = concat (map sched_lr_of tr)"

fun forward_mode_of :: "('w,'o) event \<Rightarrow> bool list" where
  "forward_mode_of (Forward m x p) = [m]"
| "forward_mode_of _ = []"

definition forward_modes :: "('w,'o) event list \<Rightarrow> bool list" where
  "forward_modes tr = concat (map forward_mode_of tr)"

definition since :: "('w,'g,'o) run \<Rightarrow> ('w,'g,'o) run \<Rightarrow> ('w,'o) event list" where
  "since s s' = drop (length (trace s)) (trace s')"

subsection \<open>The best-loss rule\<close>

text \<open>
  The best loss the epoch loop holds before its \<open>k\<close>-th epoch, for the losses \<open>ls\<close> of the
  epochs it has run and the value \<open>seed\<close> it started from; whether epoch \<open>k\<close> improves
  on it; and the file operations of a sequence of epochs that saved the checkpoints
  \<open>cs\<close>, copying to the best location where the flag says so.
\<close>

definition running_best :: "real \<Rightarrow> real list \<Rightarrow> nat \<Rightarrow> real" where
  "running_best seed ls k = fold min (take k ls) seed"

definition improved :: "real \<Rightarrow> real list \<Rightarrow> nat \<Rightarrow> bool" where
  "improved seed ls k \<longleftrightarrow> ls ! k < running_best seed ls k"

definition checkpoint_io :: "('w,'o) checkpoint list \<Rightarrow> bool list \<Rightarrow> ('w,'o) event list" where
  "checkpoint_io cs flags =
     concat (map2 (\<lambda>c b. TorchSave checkpoint_path c #
                            (if b then [CopyFile checkpoint_path best_path] else [])) cs flags)"

text \<open>
  What a run of the epoch loop over the epochs \<open>es\<close>, started with best loss \<open>best\<close> and
  files \<open>f\<close>, has done when it ends with result \<open>r\<close>, best loss \<open>best'\<close> and files
  \<open>f'\<close>, having printed the validation losses \<open>ls\<close>, saved the checkpoints \<open>cs\<close> and
  performed the file operations \<open>io\<close>.
\<close>

definition epochs_effect ::
  "int list \<Rightarrow> real \<Rightarrow> ('w,'o) filesystem \<Rightarrow> error option \<Rightarrow> real \<Rightarrow> ('w,'o) filesystem
     \<Rightarrow> real list \<Rightarrow> ('w,'o) checkpoint list \<Rightarrow> ('w,'o) event list \<Rightarrow> bool" where
  "epochs_effect es best f r best' f' ls cs io \<longleftrightarrow>
     length cs = length ls \<and> length ls \<le> length es \<and> (r = None \<longrightarrow> length ls = length es)
     \<and> map epoch cs = take (length ls) es
     \<and> (\<forall>c \<in> set cs. arch c = ''UNet'')
     \<and> (\<forall>k < length ls. best_loss (cs ! k) = running_best best ls (Suc k))
     \<and> io = checkpoint_io cs (map (improved best ls) [0..<length ls])
     \<and> best' = running_best best ls (length ls)
     \<and> f' checkpoint_path = (if cs = [] then f checkpoint_path else Some (CheckpointFile (last cs)))
     \<and> (\<forall>p. p \<noteq> checkpoint_path \<and> p \<noteq> best_path \<longrightarrow> f' p = f p)
     \<and> (\<forall>k < length ls. improved best ls k \<and> (\<forall>j. k < j \<and> j < length ls \<longrightarrow> \<not> improved best ls j)
            \<longrightarrow> f' best_path = Some (CheckpointFile (cs ! k)))
     \<and> ((\<forall>k < length ls. \<not> improved best ls k) \<longrightarrow> f' best_path = f best_path)"

text \<open>
  The rule in the words of claim C1: the loss of epoch \<open>k\<close> is strictly lower than the loss
  of every earlier epoch.
\<close>

definition improves_on_all_prior :: "real list \<Rightarrow> nat \<Rightarrow> bool" where
  "improves_on_all_prior ls k \<longleftrightarrow> (\<forall>j < k. ls ! k < ls ! j)"

subsection \<open>Loaders on which the passes return\<close>

text \<open>
  A \<open>print_freq\<close> and a loader for which neither the integer division nor the modulo of
  a pass raises.
\<close>

definition loader_ok :: "int \<Rightarrow> batch list \<Rightarrow> bool" where
  "loader_ok pfreq bs \<longleftrightarrow> pfreq \<noteq> 0 \<and> (bs = [] \<or> int (length bs) div pfreq \<noteq> 0)"

subsection \<open>Runs that differ in what was printed before\<close>

text \<open>A run state whose trace has extra events in front.\<close>

definition with_prefix :: "('w,'o) event list \<Rightarrow> ('w,'g,'o) run \<Rightarrow> ('w,'g,'o) run" where
  "with_prefix p s = s\<lparr>trace := p @ trace s\<rparr>"

subsection \<open>Small concrete collaborators, loaders and files\<close>

text \<open>
  A model whose only parameter counts the optimizer steps taken, whose output has as many
  pixels as that count, and a loss that looks the pixel count up in a table and brings a
  gradient history of its own; and the same with a loss that is computed from its two
  arguments alone.
\<close>

definition toy :: "(nat \<Rightarrow> real) \<Rightarrow> (nat, unit, unit) collab" where
  "toy tab = \<lparr>init_weights = 0, init_grads = (), init_buffers = (),
          forward = (\<lambda>w m x. [replicate w 1]),
          criterion = (\<lambda>out y. tab (length (concat out))),
          loss_requires_grad = (\<lambda>a b. True),
          dice_coeff = (\<lambda>x y. 0),
          zero_grad = (\<lambda>g. g),
          backward = (\<lambda>w m x out y g. g),
          sgd_step = (\<lambda>ob w g. (Suc w, ()))\<rparr>"

definition plain_toy :: "(nat \<Rightarrow> real) \<Rightarrow> (nat, unit, unit) collab" where
  "plain_toy tab = (toy tab)\<lparr>loss_requires_grad := (\<lambda>a b. a \<or> b)\<rparr>"

text \<open>The table that yields the validation losses 0.5, 0.3, 0.4 and 0.2 in the first four epochs.\<close>

definition example_losses :: "nat \<Rightarrow> real" where
  "example_losses n = (if n = 1 then 1 / 2 else if n = 2 then 3 / 10
                       else if n = 3 then 2 / 5 else 1 / 5)"

text \<open>A loader of one batch of one sample, an empty file system, and one with a checkpoint.\<close>

definition one_batch :: "batch list" where
  "one_batch = [\<lparr>sat_img = [[0]], map_img = [[0]]\<rparr>]"

definition no_files :: "(nat, unit) filesystem" where
  "no_files = (\<lambda>p. None)"

definition sample_checkpoint :: "(nat, unit) checkpoint" where
  "sample_checkpoint = \<lparr>epoch = 15, arch = ''UNet'', state_dict = 7, best_loss = 1 / 4,
                         optimizer = \<lparr>lr = 1 / 1000, momentum = 9 / 10, buffers = ()\<rparr>\<rparr>"

definition one_file :: "(nat, unit) filesystem" where
  "one_file = (\<lambda>p. if p = ''run.pth.tar'' then Some (CheckpointFile sample_checkpoint) else None)"

text \<open>A loader of two batches of two samples and one sample, and a logger.\<close>

definition two_batches :: "batch list" where
  "two_batches = [\<lparr>sat_img = [[0], [1]], map_img = [[0], [1]]\<rparr>,
                  \<lparr>sat_img = [[1]], map_img = [[0]]\<rparr>]"

definition plain_logger :: "int \<Rightarrow> logger" where
  "plain_logger pfreq = \<lparr>log_dir = ''../logs/run_0/training'', print_freq = pfreq\<rparr>"

section \<open>What the passes and the epoch loop do\<close>

lemma train_batch_facts:
  assumes "train_batch T b a l s = (r, s')"
  shows "trace s' = trace s @ batch_calls T (training s) b (forward T (weights s) (training s) (sat_img b))"
    and "fs s' = fs s" and "training s' = training s" and "sched s' = sched s"
    and "lr (opt s') = lr (opt s)" and "momentum (opt s') = momentum (opt s)"
    and "loss_has_grad T \<Longrightarrow>
           r = Inr (update a (dice_coeff T (sat_img b) (map_img b)) (size0 (sat_img b)),
                    update l (criterion T (threshold (forward T (weights s) (training s) (sat_img b))) (map_img b)) (size0 (sat_img b)))"
    and "\<not> loss_has_grad T \<Longrightarrow> r = Inl RuntimeError \<and> weights s' = weights s"
  using assms
  by (auto simp: train_batch_def batch_calls_def train_block_def cut_block_def emit_def Let_def
           split: prod.splits if_splits)

lemma train_log_facts:
  "fs (train_log lg e li i a l s) = fs s"
  "training (train_log lg e li i a l s) = training s"
  "sched (train_log lg e li i a l s) = sched s"
  "opt (train_log lg e li i a l s) = opt s"
  "weights (train_log lg e li i a l s) = weights s"
  "grads (train_log lg e li i a l s) = grads s"
  "\<exists>new. trace (train_log lg e li i a l s) = trace s @ new \<and> (\<forall>e \<in> set new. is_summary e)"
  by (simp_all add: train_log_def emit_def Let_def)

lemma batch_calls_compute:
  "filter is_compute (batch_calls T m b p) = batch_calls T m b p"
  "\<forall>ev \<in> set (batch_calls T m b p). is_compute ev \<or> is_summary ev"
  by (simp_all add: batch_calls_def train_block_def cut_block_def)

lemma train_loop_spec:
  "train_loop T lg e li i bs a l s = (r, s') \<Longrightarrow>
     \<exists>new ps. trace s' = trace s @ new
       \<and> length ps \<le> length bs
       \<and> filter is_compute new = concat (map2 (batch_calls T (training s)) bs ps)
       \<and> (\<forall>ev \<in> set new. is_compute ev \<or> is_summary ev)
       \<and> fs s' = fs s \<and> training s' = training s \<and> sched s' = sched s
       \<and> lr (opt s') = lr (opt s) \<and> momentum (opt s') = momentum (opt s)
       \<and> (case r of
             Inr (a', l') \<Rightarrow> length ps = length bs \<and> (bs \<noteq> [] \<longrightarrow> li \<noteq> 0 \<and> loss_has_grad T)
                \<and> a' = tracked a (dice_updates T bs) \<and> l' = tracked l (loss_updates T bs ps)
           | Inl err \<Rightarrow> length ps = 1
                \<and> (if loss_has_grad T then err = ZeroDivisionError \<and> li = 0
                    else err = RuntimeError \<and> weights s' = weights s))
       \<and> forward_outputs T (training s) bs ps"
proof (induction bs arbitrary: i a l s)
  case Nil
  then show ?case by (auto simp: tracked_def dice_updates_def loss_updates_def forward_outputs_def)
next
  case (Cons b bs)
  obtain r1 s1 where tb: "train_batch T b a l s = (r1, s1)" by (metis prod.exhaust)
  note f = train_batch_facts[OF tb]
  let ?p = "forward T (weights s) (training s) (sat_img b)"
  show ?case
  proof (cases "loss_has_grad T")
    case False
    with f(8) have r1: "r1 = Inl RuntimeError" and w: "weights s1 = weights s" by simp_all
    with Cons.prems tb have "r = Inl RuntimeError" "s' = s1" by auto
    with f(1-6) w False show ?thesis
      apply (rule_tac x="batch_calls T (training s) b ?p" in exI)
      apply (rule_tac x="[?p]" in exI)
      apply (auto simp: batch_calls_compute forward_outputs_def)
      done
  next
    case grad: True
    define a1 where "a1 = update a (dice_coeff T (sat_img b) (map_img b)) (size0 (sat_img b))"
    define l1 where "l1 = update l (criterion T (threshold ?p) (map_img b)) (size0 (sat_img b))"
    from f(7)[OF grad] have r1: "r1 = Inr (a1, l1)" by (simp add: a1_def l1_def)
    show ?thesis
    proof (cases "li = 0")
      case True
      with Cons.prems tb r1 have "r = Inl ZeroDivisionError" "s' = s1" by auto
      with f(1-6) True grad show ?thesis
        apply (rule_tac x="batch_calls T (training s) b ?p" in exI)
        apply (rule_tac x="[?p]" in exI)
        apply (auto simp: batch_calls_compute forward_outputs_def)
        done
    next
      case False
      define s2 where "s2 = (if i mod li = 0 then train_log lg e li i a1 l1 s1 else s1)"
      from Cons.prems tb r1 False
      have rec: "train_loop T lg e li (i + 1) bs a1 l1 s2 = (r, s')"
        by (simp add: s2_def split: if_splits)
      have "\<exists>lnew. trace s2 = trace s1 @ lnew \<and> (\<forall>ev \<in> set lnew. is_summary ev)"
      proof (cases "i mod li = 0")
        case True
        then show ?thesis using train_log_facts(7)[of lg e li i a1 l1 s1] by (simp add: s2_def)
      next
        case False
        then show ?thesis by (simp add: s2_def)
      qed
      then obtain lnew where lnew: "trace s2 = trace s1 @ lnew" "\<forall>ev \<in> set lnew. is_summary ev"
        by blast
      have s2: "fs s2 = fs s1" "training s2 = training s1" "sched s2 = sched s1" "opt s2 = opt s1"
        by (simp_all add: s2_def train_log_facts)
      from Cons.IH[OF rec] obtain new ps where
        IH: "trace s' = trace s2 @ new" "length ps \<le> length bs"
          "filter is_compute new = concat (map2 (batch_calls T (training s2)) bs ps)"
          "\<forall>ev \<in> set new. is_compute ev \<or> is_summary ev"
          "fs s' = fs s2" "training s' = training s2" "sched s' = sched s2"
          "lr (opt s') = lr (opt s2)" "momentum (opt s') = momentum (opt s2)"
          "(case r of
               Inr (a', l') \<Rightarrow> length ps = length bs \<and> (bs \<noteq> [] \<longrightarrow> li \<noteq> 0 \<and> loss_has_grad T)
                  \<and> a' = tracked a1 (dice_updates T bs) \<and> l' = tracked l1 (loss_updates T bs ps)
             | Inl err \<Rightarrow> length ps = 1
                  \<and> (if loss_has_grad T then err = ZeroDivisionError \<and> li = 0
                      else err = RuntimeError \<and> weights s' = weights s2))"
          "forward_outputs T (training s2) bs ps"
        by blast
      have nosum: "filter is_compute lnew = []"
        using lnew(2) by (induction lnew) (auto elim: is_summary.elims)
      let ?new = "batch_calls T (training s) b ?p @ lnew @ new"
      have 1: "trace s' = trace s @ ?new" using IH(1) lnew(1) f(1) by simp
      have 2: "filter is_compute ?new = concat (map2 (batch_calls T (training s)) (b # bs) (?p # ps))"
        using IH(3) nosum s2 f(3) by (simp add: batch_calls_compute)
      have 3: "\<forall>ev \<in> set ?new. is_compute ev \<or> is_summary ev"
        using IH(4) lnew(2) batch_calls_compute(2)[of T "training s" b ?p] by auto
      have 4: "(case r of
               Inr (a', l') \<Rightarrow> length (?p # ps) = length (b # bs)
                  \<and> (b # bs \<noteq> [] \<longrightarrow> li \<noteq> 0 \<and> loss_has_grad T)
                  \<and> a' = tracked a (dice_updates T (b # bs)) \<and> l' = tracked l (loss_updates T (b # bs) (?p # ps))
             | Inl err \<Rightarrow> length (?p # ps) = 1
                  \<and> (if loss_has_grad T then err = ZeroDivisionError \<and> li = 0
                      else err = RuntimeError \<and> weights s' = weights s))"
        using IH(10) False grad
        by (auto simp: tracked_def dice_updates_def loss_updates_def a1_def l1_def split: sum.splits)
      have 5: "forward_outputs T (training s) (b # bs) (?p # ps)"
        using IH(11) s2 f(3) by (auto simp: forward_outputs_def)
      show ?thesis
        apply (rule exI[of _ ?new])
        apply (rule exI[of _ "?p # ps"])
        using 1 2 3 4 5 IH(2,5-9) s2 f(2-6) by simp
    qed
  qed
qed

lemma validation_batch_facts:
  assumes "validation_batch T b a l s = (a', l', s')"
  shows "trace s' = trace s @ val_block T (training s) b (forward T (weights s) (training s) (sat_img b))"
    and "fs s' = fs s" and "training s' = training s" and "sched s' = sched s"
    and "opt s' = opt s" and "weights s' = weights s" and "grads s' = grads s"
    and "a' = update a (dice_coeff T (sat_img b) (map_img b)) (size0 (sat_img b))"
    and "l' = update l (criterion T (threshold (forward T (weights s) (training s) (sat_img b))) (map_img b)) (size0 (sat_img b))"
  using assms
  by (auto simp: validation_batch_def val_block_def emit_def Let_def)

lemma validation_log_facts:
  "fs (validation_log lg e li i a l s) = fs s"
  "training (validation_log lg e li i a l s) = training s"
  "sched (validation_log lg e li i a l s) = sched s"
  "opt (validation_log lg e li i a l s) = opt s"
  "weights (validation_log lg e li i a l s) = weights s"
  "grads (validation_log lg e li i a l s) = grads s"
  "\<exists>new. trace (validation_log lg e li i a l s) = trace s @ new \<and> (\<forall>e \<in> set new. is_summary e)"
  by (simp_all add: validation_log_def emit_def Let_def)

lemma validation_loop_spec:
  "validation_loop T lg e li i bs a l s = (r, s') \<Longrightarrow>
     \<exists>new ps. trace s' = trace s @ new
       \<and> length ps \<le> length bs
       \<and> filter is_compute new = concat (map2 (val_block T (training s)) bs ps)
       \<and> (\<forall>ev \<in> set new. is_compute ev \<or> is_summary ev)
       \<and> fs s' = fs s \<and> training s' = training s \<and> sched s' = sched s
       \<and> opt s' = opt s \<and> weights s' = weights s \<and> grads s' = grads s
       \<and> (case r of
             Inr (a', l') \<Rightarrow> length ps = length bs \<and> (bs \<noteq> [] \<longrightarrow> li \<noteq> 0)
                \<and> a' = tracked a (dice_updates T bs) \<and> l' = tracked l (loss_updates T bs ps)
           | Inl err \<Rightarrow> err = ZeroDivisionError \<and> li = 0 \<and> length ps = 1)
       \<and> forward_outputs T (training s) bs ps"
proof (induction bs arbitrary: i a l s)
  case Nil
  then show ?case by (auto simp: tracked_def dice_updates_def loss_updates_def forward_outputs_def)
next
  case (Cons b bs)
  obtain a1 l1 s1 where tb: "validation_batch T b a l s = (a1, l1, s1)" by (metis prod_cases3)
  note f = validation_batch_facts[OF tb]
  let ?p = "forward T (weights s) (training s) (sat_img b)"
  show ?case
  proof (cases "li = 0")
    case True
    with Cons.prems tb have "r = Inl ZeroDivisionError" "s' = s1" by auto
    with f True show ?thesis
      apply (rule_tac x="val_block T (training s) b ?p" in exI)
      apply (rule_tac x="[?p]" in exI)
      apply (auto simp: val_block_def forward_outputs_def)
      done
  next
    case False
    define s2 where "s2 = (if i mod li = 0 then validation_log lg e li i a1 l1 s1 else s1)"
    from Cons.prems tb False
    have rec: "validation_loop T lg e li (i + 1) bs a1 l1 s2 = (r, s')"
      by (simp add: s2_def split: if_splits)
    have "\<exists>lnew. trace s2 = trace s1 @ lnew \<and> (\<forall>ev \<in> set lnew. is_summary ev)"
    proof (cases "i mod li = 0")
      case True
      then show ?thesis using validation_log_facts(7)[of lg e li i a1 l1 s1] by (simp add: s2_def)
    next
      case False
      then show ?thesis by (simp add: s2_def)
    qed
    then obtain lnew where lnew: "trace s2 = trace s1 @ lnew" "\<forall>ev \<in> set lnew. is_summary ev"
      by blast
    have s2: "fs s2 = fs s1" "training s2 = training s1" "sched s2 = sched s1" "opt s2 = opt s1"
       "weights s2 = weights s1" "grads s2 = grads s1"
      by (simp_all add: s2_def validation_log_facts)
    from Cons.IH[OF rec] obtain new ps where
      IH: "trace s' = trace s2 @ new" "length ps \<le> length bs"
        "filter is_compute new = concat (map2 (val_block T (training s2)) bs ps)"
        "\<forall>ev \<in> set new. is_compute ev \<or> is_summary ev"
        "fs s' = fs s2" "training s' = training s2" "sched s' = sched s2"
        "opt s' = opt s2" "weights s' = weights s2" "grads s' = grads s2"
        "(case r of
             Inr (a', l') \<Rightarrow> length ps = length bs \<and> (bs \<noteq> [] \<longrightarrow> li \<noteq> 0)
                \<and> a' = tracked a1 (dice_updates T bs) \<and> l' = tracked l1 (loss_updates T bs ps)
           | Inl err \<Rightarrow> err = ZeroDivisionError \<and> li = 0 \<and> length ps = 1)"
        "forward_outputs T (training s2) bs ps"
      by blast
    have nosum: "filter is_compute lnew = []"
      using lnew(2) by (induction lnew) (auto elim: is_summary.elims)
    let ?new = "val_block T (training s) b ?p @ lnew @ new"
    have 1: "trace s' = trace s @ ?new" using IH(1) lnew(1) f(1) by simp
    have 2: "filter is_compute ?new = concat (map2 (val_block T (training s)) (b # bs) (?p # ps))"
      using IH(3) nosum s2 f by (simp add: val_block_def)
    have 3: "\<forall>ev \<in> set ?new. is_compute ev \<or> is_summary ev"
      using IH(4) lnew(2) by (auto simp: val_block_def)
    have 4: "(case r of
             Inr (a', l') \<Rightarrow> length (?p # ps) = length (b # bs) \<and> (b # bs \<noteq> [] \<longrightarrow> li \<noteq> 0)
                \<and> a' = tracked a (dice_updates T (b # bs)) \<and> l' = tracked l (loss_updates T (b # bs) (?p # ps))
           | Inl err \<Rightarrow> err = ZeroDivisionError \<and> li = 0 \<and> length (?p # ps) = 1)"
      using IH(11) False f(8,9)
      by (auto simp: tracked_def dice_updates_def loss_updates_def split: sum.splits)
    have 5: "forward_outputs T (training s) (b # bs) (?p # ps)"
      using IH(12) s2 f(3) by (auto simp: forward_outputs_def)
    show ?thesis
      apply (rule exI[of _ ?new])
      apply (rule exI[of _ "?p # ps"])
      using 1 2 3 4 5 IH(2,5-10) s2 f(2-7) by simp
  qed
qed

lemma train_spec:
  assumes "train T bs lg e s = (r, s')"
  shows "(print_freq lg = 0 \<and> r = Inl ZeroDivisionError \<and> s' = s) \<or>
     (print_freq lg \<noteq> 0 \<and> (\<exists>new ps fin. train_effect T bs lg s r s' new ps fin))"
proof (cases "print_freq lg = 0")
  case True
  with assms show ?thesis by (simp add: train_def)
next
  case False
  define s1 where "s1 = emit [SchedulerStep (get_lr (stepped (sched s)))]
                          (s\<lparr>sched := stepped (sched s), opt := (opt s)\<lparr>lr := get_lr (stepped (sched s))\<rparr>\<rparr>)"
  obtain r1 s2 where lp: "train_loop T lg e (int (length bs) div print_freq lg) 0 bs MetricTracker MetricTracker s1 = (r1, s2)"
    by (metis prod.exhaust)
  have s1: "trace s1 = trace s @ [SchedulerStep (get_lr (stepped (sched s)))]" "fs s1 = fs s"
    "training s1 = training s" "sched s1 = stepped (sched s)" "lr (opt s1) = get_lr (stepped (sched s))"
    "momentum (opt s1) = momentum (opt s)" "weights s1 = weights s"
    by (simp_all add: s1_def emit_def)
  from train_loop_spec[OF lp] obtain new ps where
    L: "trace s2 = trace s1 @ new" "length ps \<le> length bs"
       "filter is_compute new = concat (map2 (batch_calls T (training s1)) bs ps)"
       "\<forall>ev \<in> set new. is_compute ev \<or> is_summary ev"
       "fs s2 = fs s1" "training s2 = training s1" "sched s2 = sched s1"
       "lr (opt s2) = lr (opt s1)" "momentum (opt s2) = momentum (opt s1)"
       "(case r1 of
             Inr (a', l') \<Rightarrow> length ps = length bs
                \<and> (bs \<noteq> [] \<longrightarrow> int (length bs) div print_freq lg \<noteq> 0 \<and> loss_has_grad T)
                \<and> a' = tracked MetricTracker (dice_updates T bs) \<and> l' = tracked MetricTracker (loss_updates T bs ps)
           | Inl err \<Rightarrow> length ps = 1
                \<and> (if loss_has_grad T
                    then err = ZeroDivisionError \<and> int (length bs) div print_freq lg = 0
                    else err = RuntimeError \<and> weights s2 = weights s1))"
       "forward_outputs T (training s1) bs ps"
    by blast
  have unf: "train T bs lg e s = (case (r1, s2) of
             (Inl e, s2) \<Rightarrow> (Inl e, s2)
           | (Inr (acc, loss), s2) \<Rightarrow>
               (Inr \<lparr>train_loss = avg loss, train_acc = avg acc\<rparr>,
                emit [Print (TrainingLoss (avg loss) (avg acc)), Print Blank] s2))"
    using False lp by (simp add: train_def scheduler_step_def Let_def s1_def stepped_def)
  show ?thesis
  proof (cases r1)
    case (Inl err)
    with unf assms have "r = Inl err" "s' = s2" by auto
    with L s1 False Inl show ?thesis
      unfolding train_effect_def validation_effect_def
      apply (intro disjI2 conjI, simp)
      apply (rule exI[of _ new], rule exI[of _ ps], rule exI[of _ "[]"])
      apply simp
      done
  next
    case (Inr al)
    obtain a' l' where al: "al = (a', l')" by (cases al)
    with unf assms Inr have r: "r = Inr \<lparr>train_loss = avg l', train_acc = avg a'\<rparr>"
       and s': "s' = emit [Print (TrainingLoss (avg l') (avg a')), Print Blank] s2" by auto
    with L s1 False Inr al show ?thesis
      unfolding train_effect_def validation_effect_def
      apply (intro disjI2 conjI, simp)
      apply (rule exI[of _ new], rule exI[of _ ps], rule exI[of _ "[Print (TrainingLoss (avg l') (avg a')), Print Blank]"])
      apply (simp add: emit_def)
      done
  qed
qed

lemma validation_spec:
  assumes "validation T bs lg e s = (r, s')"
  shows "(print_freq lg = 0 \<and> r = Inl ZeroDivisionError \<and> s' = s) \<or>
     (print_freq lg \<noteq> 0 \<and> (\<exists>new ps fin. validation_effect T bs lg s r s' new ps fin))"
proof (cases "print_freq lg = 0")
  case True
  with assms show ?thesis by (simp add: validation_def)
next
  case False
  define s1 where "s1 = emit [ModelEval] (s\<lparr>training := False\<rparr>)"
  obtain r1 s2 where lp: "validation_loop T lg e (int (length bs) div print_freq lg) 0 bs MetricTracker MetricTracker s1 = (r1, s2)"
    by (metis prod.exhaust)
  have s1: "trace s1 = trace s @ [ModelEval]" "fs s1 = fs s"
    "training s1 = False" "sched s1 = sched s" "opt s1 = opt s" "weights s1 = weights s" "grads s1 = grads s"
    by (simp_all add: s1_def emit_def)
  from validation_loop_spec[OF lp] obtain new ps where
    L: "trace s2 = trace s1 @ new" "length ps \<le> length bs"
       "filter is_compute new = concat (map2 (val_block T (training s1)) bs ps)"
       "\<forall>ev \<in> set new. is_compute ev \<or> is_summary ev"
       "fs s2 = fs s1" "training s2 = training s1" "sched s2 = sched s1"
       "opt s2 = opt s1" "weights s2 = weights s1" "grads s2 = grads s1"
       "(case r1 of
             Inr (a', l') \<Rightarrow> length ps = length bs \<and> (bs \<noteq> [] \<longrightarrow> int (length bs) div print_freq lg \<noteq> 0)
                \<and> a' = tracked MetricTracker (dice_updates T bs) \<and> l' = tracked MetricTracker (loss_updates T bs ps)
           | Inl err \<Rightarrow> err = ZeroDivisionError \<and> int (length bs) div print_freq lg = 0 \<and> length ps = 1)"
       "forward_outputs T (training s1) bs ps"
    by blast
  have unf: "validation T bs lg e s = (case (r1, s2) of
             (Inl e, s2) \<Rightarrow> (Inl e, s2)
           | (Inr (acc, loss), s2) \<Rightarrow>
               (Inr \<lparr>valid_loss = avg loss, valid_acc = avg acc\<rparr>,
                emit [Print (ValidationLoss (avg loss) (avg acc)), Print Blank] s2))"
    using False lp by (simp add: validation_def Let_def s1_def)
  show ?thesis
  proof (cases r1)
    case (Inl err)
    with unf assms have "r = Inl err" "s' = s2" by auto
    with L s1 False Inl show ?thesis
      unfolding train_effect_def validation_effect_def
      apply (intro disjI2 conjI, simp)
      apply (rule exI[of _ new], rule exI[of _ ps], rule exI[of _ "[]"])
      apply simp
      done
  next
    case (Inr al)
    obtain a' l' where al: "al = (a', l')" by (cases al)
    with unf assms Inr have r: "r = Inr \<lparr>valid_loss = avg l', valid_acc = avg a'\<rparr>"
       and s': "s' = emit [Print (ValidationLoss (avg l') (avg a')), Print Blank] s2" by auto
    with L s1 False Inr al show ?thesis
      unfolding train_effect_def validation_effect_def
      apply (intro disjI2 conjI, simp)
      apply (rule exI[of _ new], rule exI[of _ ps], rule exI[of _ "[Print (ValidationLoss (avg l') (avg a')), Print Blank]"])
      apply (simp add: emit_def)
      done
  qed
qed

lemma obs_append [simp]:
  "val_losses (xs @ ys) = val_losses xs @ val_losses ys"
  "saved (xs @ ys) = saved xs @ saved ys"
  "sched_lrs (xs @ ys) = sched_lrs xs @ sched_lrs ys"
  "forward_modes (xs @ ys) = forward_modes xs @ forward_modes ys"
  by (simp_all add: val_losses_def saved_def sched_lrs_def forward_modes_def)

lemma obs_Nil [simp]:
  "val_losses [] = []" "saved [] = []" "sched_lrs [] = []" "forward_modes [] = []"
  by (simp_all add: val_losses_def saved_def sched_lrs_def forward_modes_def)

lemma obs_Cons:
  "val_losses (ev # xs) = val_loss_of ev @ val_losses xs"
  "saved (ev # xs) = saved_of ev @ saved xs"
  "sched_lrs (ev # xs) = sched_lr_of ev @ sched_lrs xs"
  "forward_modes (ev # xs) = forward_mode_of ev @ forward_modes xs"
  by (simp_all add: val_losses_def saved_def sched_lrs_def forward_modes_def)

lemma pass_events_obs:
  assumes "\<forall>ev \<in> set new. is_compute ev \<or> is_summary ev"
  shows "val_losses new = []" "saved new = []" "sched_lrs new = []" "filter is_file_write new = []"
    "ModelEval \<notin> set new"
  using assms
  by (induction new) (auto simp: obs_Cons elim: is_compute.elims is_summary.elims)

lemma forward_modes_compute: "forward_modes (filter is_compute new) = forward_modes new"
proof (induction new)
  case Nil
  then show ?case by simp
next
  case (Cons ev new)
  then show ?case by (cases ev) (simp_all add: obs_Cons)
qed

lemma train_obs:
  assumes "train T bs lg e s = (r, s')"
  shows "\<exists>new. trace s' = trace s @ new \<and> val_losses new = [] \<and> saved new = []
           \<and> filter is_file_write new = [] \<and> ModelEval \<notin> set new
           \<and> fs s' = fs s \<and> training s' = training s
           \<and> set (forward_modes new) \<subseteq> {training s}
           \<and> (\<forall>m. r = Inr m \<longrightarrow>
                 sched_lrs new = [get_lr (stepped (sched s))] \<and> sched s' = stepped (sched s))"
proof -
  from train_spec[OF assms] show ?thesis
  proof
    assume "print_freq lg = 0 \<and> r = Inl ZeroDivisionError \<and> s' = s"
    then show ?thesis by (intro exI[of _ "[]"]) simp
  next
    assume "print_freq lg \<noteq> 0 \<and> (\<exists>new ps fin. train_effect T bs lg s r s' new ps fin)"
    then obtain new ps fin where E: "train_effect T bs lg s r s' new ps fin" by blast
    then have A: "trace s' = trace s @ SchedulerStep (get_lr (stepped (sched s))) # new @ fin"
         "filter is_compute new = concat (map2 (batch_calls T (training s)) bs ps)"
         "\<forall>ev \<in> set new. is_compute ev \<or> is_summary ev"
         "fs s' = fs s" "training s' = training s" "sched s' = stepped (sched s)"
      by (simp_all add: train_effect_def)
    have fin: "val_losses fin = []" "saved fin = []" "filter is_file_write fin = []"
      "ModelEval \<notin> set fin" "sched_lrs fin = []" "forward_modes fin = []"
      using E by (cases r; simp add: train_effect_def obs_Cons)+
    note o = pass_events_obs[OF A(3)]
    have "forward_modes new = forward_modes (concat (map2 (batch_calls T (training s)) bs ps))"
      using A(2) forward_modes_compute[of new] by simp
    also have "set \<dots> \<subseteq> {training s}"
      by (induction bs ps rule: list_induct2')
         (auto simp: batch_calls_def train_block_def cut_block_def obs_Cons)
    finally have fm: "set (forward_modes new) \<subseteq> {training s}" .
    let ?new = "SchedulerStep (get_lr (stepped (sched s))) # new @ fin"
    have "val_losses ?new = []" "saved ?new = []" "filter is_file_write ?new = []" "ModelEval \<notin> set ?new"
      "sched_lrs ?new = [get_lr (stepped (sched s))]" "set (forward_modes ?new) \<subseteq> {training s}"
      using o fin fm by (simp_all add: obs_Cons)
    with A(1,4,5,6) show ?thesis by (intro exI[of _ ?new]) simp
  qed
qed

lemma validation_obs:
  assumes "validation T bs lg e s = (r, s')"
  shows "\<exists>new. trace s' = trace s @ new \<and> saved new = [] \<and> filter is_file_write new = []
           \<and> sched_lrs new = [] \<and> fs s' = fs s \<and> sched s' = sched s \<and> opt s' = opt s
           \<and> weights s' = weights s \<and> grads s' = grads s
           \<and> (\<forall>m. r = Inr m \<longrightarrow> val_losses new = [valid_loss m] \<and> training s' = False)
           \<and> (\<forall>err. r = Inl err \<longrightarrow> val_losses new = [])"
proof -
  from validation_spec[OF assms] show ?thesis
  proof
    assume "print_freq lg = 0 \<and> r = Inl ZeroDivisionError \<and> s' = s"
    then show ?thesis by (intro exI[of _ "[]"]) simp
  next
    assume "print_freq lg \<noteq> 0 \<and> (\<exists>new ps fin. validation_effect T bs lg s r s' new ps fin)"
    then obtain new ps fin where E: "validation_effect T bs lg s r s' new ps fin" by blast
    then have A: "trace s' = trace s @ ModelEval # new @ fin"
         "\<forall>ev \<in> set new. is_compute ev \<or> is_summary ev"
         "fs s' = fs s" "training s' = False" "sched s' = sched s"
         "opt s' = opt s" "weights s' = weights s" "grads s' = grads s"
      by (simp_all add: validation_effect_def)
    have fin: "\<forall>m. r = Inr m \<longrightarrow> fin = [Print (ValidationLoss (valid_loss m) (valid_acc m)), Print Blank]"
       "\<forall>err. r = Inl err \<longrightarrow> fin = []"
      using E by (simp_all add: validation_effect_def)
    note o = pass_events_obs[OF A(2)]
    let ?new = "ModelEval # new @ fin"
    have "saved ?new = []" "filter is_file_write ?new = []" "sched_lrs ?new = []"
      "\<forall>m. r = Inr m \<longrightarrow> val_losses ?new = [valid_loss m]"
      "\<forall>err. r = Inl err \<longrightarrow> val_losses ?new = []"
      using o fin by (cases r; auto simp: obs_Cons)+
    with A(1,3-8) show ?thesis by (intro exI[of _ ?new]) simp
  qed
qed

lemma epoch_loop_Cons:
  assumes "epoch_loop T tdl vdl lt lv N (ep # rest) best s = (r, best', s')"
  shows "(\<exists>pre. r \<noteq> None \<and> best' = best \<and> trace s' = trace s @ pre \<and> val_losses pre = []
            \<and> saved pre = [] \<and> filter is_file_write pre = [] \<and> fs s' = fs s)
       \<or> (\<exists>pre l c s5. trace s5 = trace s @ pre \<and> val_losses pre = [l] \<and> saved pre = [c]
            \<and> filter is_file_write pre
                = TorchSave checkpoint_path c # (if l < best then [CopyFile checkpoint_path best_path] else [])
            \<and> c = \<lparr>epoch = ep, arch = ''UNet'', state_dict = weights s5,
                    best_loss = min l best, optimizer = opt s5\<rparr>
            \<and> fs s5 = (if l < best
                        then (fs s)(checkpoint_path \<mapsto> CheckpointFile c, best_path \<mapsto> CheckpointFile c)
                        else (fs s)(checkpoint_path \<mapsto> CheckpointFile c))
            \<and> sched_lrs pre = [get_lr (stepped (sched s))] \<and> sched s5 = stepped (sched s)
            \<and> training s5 = False
            \<and> epoch_loop T tdl vdl lt lv N rest (min l best) s5 = (r, best', s'))"
proof -
  define s1 where "s1 = emit [Print (EpochHeader ep (N - 1)), Print Dashes] s"
  have s1: "trace s1 = trace s @ [Print (EpochHeader ep (N - 1)), Print Dashes]" "fs s1 = fs s"
    "sched s1 = sched s"
    by (simp_all add: s1_def emit_def)
  obtain rt s2 where tr: "train T (tdl ep) lt ep s1 = (rt, s2)" by (metis prod.exhaust)
  from train_obs[OF tr] obtain tnew where
    T: "trace s2 = trace s1 @ tnew" "val_losses tnew = []" "saved tnew = []"
       "filter is_file_write tnew = []" "fs s2 = fs s1"
       "\<forall>m. rt = Inr m \<longrightarrow> sched_lrs tnew = [get_lr (stepped (sched s1))] \<and> sched s2 = stepped (sched s1)"
    by blast
  show ?thesis
  proof (cases rt)
    case (Inl err)
    with assms tr have "r = Some err" "best' = best" "s' = s2"
      by (simp_all add: s1_def Let_def)
    with T s1 show ?thesis
      by (intro disjI1 exI[of _ "[Print (EpochHeader ep (N - 1)), Print Dashes] @ tnew"])
         (simp add: obs_Cons)
  next
    case (Inr tm)
    obtain rv s3 where va: "validation T vdl lv ep s2 = (rv, s3)" by (metis prod.exhaust)
    from validation_obs[OF va] obtain vnew where
      V: "trace s3 = trace s2 @ vnew" "saved vnew = []" "filter is_file_write vnew = []"
         "sched_lrs vnew = []" "fs s3 = fs s2" "sched s3 = sched s2"
         "\<forall>m. rv = Inr m \<longrightarrow> val_losses vnew = [valid_loss m] \<and> training s3 = False"
         "\<forall>err. rv = Inl err \<longrightarrow> val_losses vnew = []"
      by blast
    show ?thesis
    proof (cases rv)
      case (Inl err)
      with assms tr va Inr have "r = Some err" "best' = best" "s' = s3"
        by (simp_all add: s1_def Let_def)
      with T V s1 Inl show ?thesis
        by (intro disjI1 exI[of _ "[Print (EpochHeader ep (N - 1)), Print Dashes] @ tnew @ vnew"])
           (simp add: obs_Cons)
    next
      case vm: (Inr vm)
      let ?l = "valid_loss vm"
      let ?c = "\<lparr>epoch = ep, arch = ''UNet'', state_dict = weights s3,
                 best_loss = min ?l best, optimizer = opt s3\<rparr>"
      define s5 where "s5 = emit [Print CurrentElapsed] (save_checkpoint ?c (?l < best) s3)"
      have rec: "epoch_loop T tdl vdl lt lv N rest (min ?l best) s5 = (r, best', s')"
        using assms tr va Inr vm by (simp add: s1_def s5_def Let_def)
      let ?io = "TorchSave checkpoint_path ?c # (if ?l < best then [CopyFile checkpoint_path best_path] else [])"
      have s5: "trace s5 = trace s3 @ ?io @ [Print CurrentElapsed]"
        "weights s5 = weights s3" "opt s5 = opt s3" "sched s5 = sched s3" "training s5 = training s3"
        "fs s5 = (if ?l < best
                        then (fs s3)(checkpoint_path \<mapsto> CheckpointFile ?c, best_path \<mapsto> CheckpointFile ?c)
                        else (fs s3)(checkpoint_path \<mapsto> CheckpointFile ?c))"
        by (simp_all add: s5_def save_checkpoint_def emit_def Let_def copyfile_def)
      let ?pre = "[Print (EpochHeader ep (N - 1)), Print Dashes] @ tnew @ vnew @ ?io @ [Print CurrentElapsed]"
      show ?thesis
        apply (rule disjI2)
        apply (rule exI[of _ ?pre], rule exI[of _ ?l], rule exI[of _ ?c], rule exI[of _ s5])
        using s5 T V s1 Inr vm rec
        apply (simp add: obs_Cons)
        done
    qed
  qed
qed

lemma running_best_simps:
  "running_best seed ls 0 = seed"
  "running_best seed (l # ls) (Suc k) = running_best (min l seed) ls k"
  by (simp_all add: running_best_def)

lemma improved_simps:
  "improved seed (l # ls) 0 \<longleftrightarrow> l < seed"
  "improved seed (l # ls) (Suc k) \<longleftrightarrow> improved (min l seed) ls k"
  by (simp_all add: improved_def running_best_simps)

lemma improved_flags_Cons:
  "map (improved seed (l # ls)) [0..<Suc (length ls)]
     = (l < seed) # map (improved (min l seed) ls) [0..<length ls]"
proof -
  have "[0..<Suc (length ls)] = 0 # map Suc [0..<length ls]"
    by (simp add: upt_conv_Cons map_Suc_upt del: upt_Suc)
  then show ?thesis by (simp add: improved_simps comp_def del: upt_Suc)
qed

lemma paths_differ: "checkpoint_path \<noteq> best_path"
  by (simp add: checkpoint_path_def best_path_def)

lemma epochs_effect_stop: "epochs_effect es best f (Some e) best f [] [] []"
  by (simp add: epochs_effect_def checkpoint_io_def running_best_simps)

lemma epochs_effect_Nil: "epochs_effect [] best f r best f [] [] []"
  by (simp add: epochs_effect_def checkpoint_io_def running_best_simps)

lemma epochs_effect_Cons:
  assumes E: "epochs_effect rest (min l best) f5 r best' f' ls cs io"
    and f5: "f5 = (if l < best
                   then f(checkpoint_path \<mapsto> CheckpointFile c, best_path \<mapsto> CheckpointFile c)
                   else f(checkpoint_path \<mapsto> CheckpointFile c))"
    and c: "epoch c = ep" "arch c = ''UNet''" "best_loss c = min l best"
  shows "epochs_effect (ep # rest) best f r best' f' (l # ls) (c # cs)
           (TorchSave checkpoint_path c #
              (if l < best then [CopyFile checkpoint_path best_path] else []) @ io)"
proof -
  note E' = E[unfolded epochs_effect_def]
  have len: "length cs = length ls" "length ls \<le> length rest" "r = None \<longrightarrow> length ls = length rest"
    using E' by simp_all
  have ep: "map epoch (c # cs) = take (length (l # ls)) (ep # rest)"
    using E' c by simp
  have ar: "\<forall>c' \<in> set (c # cs). arch c' = ''UNet''"
    using E' c by simp
  have bl: "\<forall>k < length (l # ls). best_loss ((c # cs) ! k) = running_best best (l # ls) (Suc k)"
  proof (intro allI impI)
    fix k assume "k < length (l # ls)"
    then show "best_loss ((c # cs) ! k) = running_best best (l # ls) (Suc k)"
      using E' c by (cases k) (simp_all add: running_best_simps)
  qed
  have io: "TorchSave checkpoint_path c # (if l < best then [CopyFile checkpoint_path best_path] else []) @ io
      = checkpoint_io (c # cs) (map (improved best (l # ls)) [0..<length (l # ls)])"
    using E' by (simp add: improved_flags_Cons checkpoint_io_def del: upt_Suc)
  have b': "best' = running_best best (l # ls) (length (l # ls))"
    using E' by (simp add: running_best_simps)
  have f5c: "f5 checkpoint_path = Some (CheckpointFile c)"
    using f5 paths_differ by simp
  have latest: "f' checkpoint_path = (if c # cs = [] then f checkpoint_path else Some (CheckpointFile (last (c # cs))))"
    using E' f5c by simp
  have other: "\<forall>p. p \<noteq> checkpoint_path \<and> p \<noteq> best_path \<longrightarrow> f' p = f p"
    using E' f5 by simp
  have best_some: "\<forall>k < length (l # ls). improved best (l # ls) k
         \<and> (\<forall>j. k < j \<and> j < length (l # ls) \<longrightarrow> \<not> improved best (l # ls) j)
            \<longrightarrow> f' best_path = Some (CheckpointFile ((c # cs) ! k))"
  proof (intro allI impI)
    fix k assume k: "k < length (l # ls)"
      and h: "improved best (l # ls) k \<and> (\<forall>j. k < j \<and> j < length (l # ls) \<longrightarrow> \<not> improved best (l # ls) j)"
    show "f' best_path = Some (CheckpointFile ((c # cs) ! k))"
    proof (cases k)
      case 0
      with h have lt: "l < best" by (simp add: improved_simps)
      have "\<forall>j < length ls. \<not> improved (min l best) ls j"
      proof (intro allI impI)
        fix j assume "j < length ls"
        with h 0 have "\<not> improved best (l # ls) (Suc j)" by simp
        then show "\<not> improved (min l best) ls j" by (simp add: improved_simps)
      qed
      with E' have "f' best_path = f5 best_path" by simp
      with lt f5 0 show ?thesis by simp
    next
      case (Suc k')
      with k have k': "k' < length ls" by simp
      from h Suc have i: "improved (min l best) ls k'" by (simp add: improved_simps)
      have "\<forall>j. k' < j \<and> j < length ls \<longrightarrow> \<not> improved (min l best) ls j"
      proof (intro allI impI)
        fix j assume "k' < j \<and> j < length ls"
        with h Suc have "\<not> improved best (l # ls) (Suc j)" by simp
        then show "\<not> improved (min l best) ls j" by (simp add: improved_simps)
      qed
      with E' k' i have "f' best_path = Some (CheckpointFile (cs ! k'))" by blast
      with Suc show ?thesis by simp
    qed
  qed
  have best_none: "(\<forall>k < length (l # ls). \<not> improved best (l # ls) k) \<longrightarrow> f' best_path = f best_path"
  proof
    assume h: "\<forall>k < length (l # ls). \<not> improved best (l # ls) k"
    then have "\<not> improved best (l # ls) 0" by simp
    then have nlt: "\<not> l < best" by (simp add: improved_simps)
    have "\<forall>j < length ls. \<not> improved (min l best) ls j"
    proof (intro allI impI)
      fix j assume "j < length ls"
      with h have "\<not> improved best (l # ls) (Suc j)" by simp
      then show "\<not> improved (min l best) ls j" by (simp add: improved_simps)
    qed
    with E' have "f' best_path = f5 best_path" by simp
    with nlt f5 paths_differ show "f' best_path = f best_path" by simp
  qed
  show ?thesis
    unfolding epochs_effect_def
    using len ep ar bl io b' latest other best_some best_none
    by (intro conjI) simp_all
qed

lemma map_upt_Suc_shift: "map f [0..<Suc n] = f 0 # map (\<lambda>j. f (Suc j)) [0..<n]"
proof -
  have "[0..<Suc n] = 0 # map Suc [0..<n]"
    by (simp add: upt_conv_Cons map_Suc_upt del: upt_Suc)
  then show ?thesis by (simp add: comp_def del: upt_Suc)
qed

lemma epoch_loop_ck:
  "epoch_loop T tdl vdl lt lv N es best s = (r, best', s') \<Longrightarrow>
     \<exists>new. trace s' = trace s @ new
       \<and> epochs_effect es best (fs s) r best' (fs s') (val_losses new) (saved new)
            (filter is_file_write new)
       \<and> (r = None \<and> es \<noteq> [] \<longrightarrow>
             state_dict (last (saved new)) = weights s' \<and> optimizer (last (saved new)) = opt s'
             \<and> training s' = False)
       \<and> (r = None \<longrightarrow>
             sched_lrs new = map (\<lambda>j. get_lr ((sched s)\<lparr>last_epoch := last_epoch (sched s) + 1 + int j\<rparr>))
                               [0..<length es]
             \<and> sched s' = (sched s)\<lparr>last_epoch := last_epoch (sched s) + int (length es)\<rparr>)"
proof (induction es arbitrary: best s)
  case Nil
  then show ?case by (intro exI[of _ "[]"]) (simp add: epochs_effect_Nil)
next
  case (Cons ep rest)
  from epoch_loop_Cons[OF Cons.prems] show ?case
  proof (elim disjE exE conjE)
    fix pre
    assume "r \<noteq> None" "best' = best" "trace s' = trace s @ pre" "val_losses pre = []"
      "saved pre = []" "filter is_file_write pre = []" "fs s' = fs s"
    then show ?thesis
      by (intro exI[of _ pre]) (auto simp: epochs_effect_stop)
  next
    fix pre l c s5
    assume pre: "trace s5 = trace s @ pre" "val_losses pre = [l]" "saved pre = [c]"
      "filter is_file_write pre
         = TorchSave checkpoint_path c # (if l < best then [CopyFile checkpoint_path best_path] else [])"
      and c: "c = \<lparr>epoch = ep, arch = ''UNet'', state_dict = weights s5,
                    best_loss = min l best, optimizer = opt s5\<rparr>"
      and f5: "fs s5 = (if l < best
                        then (fs s)(checkpoint_path \<mapsto> CheckpointFile c, best_path \<mapsto> CheckpointFile c)
                        else (fs s)(checkpoint_path \<mapsto> CheckpointFile c))"
      and sch: "sched_lrs pre = [get_lr (stepped (sched s))]" "sched s5 = stepped (sched s)"
      and mode: "training s5 = False"
      and rec: "epoch_loop T tdl vdl lt lv N rest (min l best) s5 = (r, best', s')"
    from Cons.IH[OF rec] obtain new where
      IH: "trace s' = trace s5 @ new"
        "epochs_effect rest (min l best) (fs s5) r best' (fs s') (val_losses new) (saved new)
            (filter is_file_write new)"
        "r = None \<and> rest \<noteq> [] \<longrightarrow>
             state_dict (last (saved new)) = weights s' \<and> optimizer (last (saved new)) = opt s'
             \<and> training s' = False"
        "r = None \<longrightarrow>
             sched_lrs new = map (\<lambda>j. get_lr ((sched s5)\<lparr>last_epoch := last_epoch (sched s5) + 1 + int j\<rparr>))
                               [0..<length rest]
             \<and> sched s' = (sched s5)\<lparr>last_epoch := last_epoch (sched s5) + int (length rest)\<rparr>"
      by blast
    have cf: "epoch c = ep" "arch c = ''UNet''" "best_loss c = min l best"
      using c by simp_all
    have 1: "trace s' = trace s @ (pre @ new)" using IH(1) pre(1) by simp
    have 2: "epochs_effect (ep # rest) best (fs s) r best' (fs s') (val_losses (pre @ new))
               (saved (pre @ new)) (filter is_file_write (pre @ new))"
      using epochs_effect_Cons[OF IH(2) f5 cf] pre by simp
    have 3: "r = None \<and> ep # rest \<noteq> [] \<longrightarrow>
             state_dict (last (saved (pre @ new))) = weights s' \<and> optimizer (last (saved (pre @ new))) = opt s'
             \<and> training s' = False"
    proof (cases rest)
      case Nil
      with rec have "s' = s5" "new = []" using IH(1) by simp_all
      with pre c mode show ?thesis by simp
    next
      case (Cons a list)
      show ?thesis
      proof
        assume h: "r = None \<and> ep # rest \<noteq> []"
        with IH(2) Cons have "saved new \<noteq> []" by (auto simp: epochs_effect_def)
        with IH(3) h Cons pre show "state_dict (last (saved (pre @ new))) = weights s'
            \<and> optimizer (last (saved (pre @ new))) = opt s' \<and> training s' = False"
          by simp
      qed
    qed
    have 4: "r = None \<longrightarrow>
             sched_lrs (pre @ new) = map (\<lambda>j. get_lr ((sched s)\<lparr>last_epoch := last_epoch (sched s) + 1 + int j\<rparr>))
                               [0..<length (ep # rest)]
             \<and> sched s' = (sched s)\<lparr>last_epoch := last_epoch (sched s) + int (length (ep # rest))\<rparr>"
    proof
      assume "r = None"
      with IH(4) sch show "sched_lrs (pre @ new) = map (\<lambda>j. get_lr ((sched s)\<lparr>last_epoch := last_epoch (sched s) + 1 + int j\<rparr>))
                               [0..<length (ep # rest)]
             \<and> sched s' = (sched s)\<lparr>last_epoch := last_epoch (sched s) + int (length (ep # rest))\<rparr>"
        by (simp add: map_upt_Suc_shift stepped_def add.commute add.left_commute del: upt_Suc)
    qed
    from 1 2 3 4 show ?thesis by (intro exI[of _ "pre @ new"]) blast
  qed
qed

lemma train_loop_total:
  "li \<noteq> 0 \<Longrightarrow> loss_has_grad T \<Longrightarrow>
     \<exists>a' l' s'. train_loop T lg e li i bs a l s = (Inr (a', l'), s')"
proof (induction bs arbitrary: i a l s)
  case Nil
  then show ?case by simp
next
  case (Cons b bs)
  obtain r1 s1 where tb: "train_batch T b a l s = (r1, s1)" by (metis prod.exhaust)
  from train_batch_facts(7)[OF tb Cons.prems(2)] obtain a1 l1 where r1: "r1 = Inr (a1, l1)"
    by blast
  show ?case
  proof (cases "i mod li = 0")
    case True
    with Cons.IH[OF Cons.prems, of "i + 1" a1 l1 "train_log lg e li i a1 l1 s1"] tb r1 Cons.prems
    show ?thesis by simp
  next
    case False
    with Cons.IH[OF Cons.prems, of "i + 1" a1 l1 s1] tb r1 Cons.prems
    show ?thesis by simp
  qed
qed

lemma validation_loop_total:
  "li \<noteq> 0 \<Longrightarrow> \<exists>a' l' s'. validation_loop T lg e li i bs a l s = (Inr (a', l'), s')"
proof (induction bs arbitrary: i a l s)
  case Nil
  then show ?case by simp
next
  case (Cons b bs)
  obtain a1 l1 s1 where tb: "validation_batch T b a l s = (a1, l1, s1)" by (metis prod_cases3)
  show ?case
  proof (cases "i mod li = 0")
    case True
    with Cons.IH[OF Cons.prems, of "i + 1" a1 l1 "validation_log lg e li i a1 l1 s1"] tb Cons.prems
    show ?thesis by simp
  next
    case False
    with Cons.IH[OF Cons.prems, of "i + 1" a1 l1 s1] tb Cons.prems
    show ?thesis by simp
  qed
qed

lemma train_total:
  assumes "loader_ok (print_freq lg) bs" and "bs = [] \<or> loss_has_grad T"
  shows "\<exists>m s'. train T bs lg e s = (Inr m, s')"
proof (cases bs)
  case Nil
  with assms show ?thesis
    by (simp add: train_def loader_ok_def Let_def split: prod.splits)
next
  case (Cons b rest)
  with assms have li: "int (length bs) div print_freq lg \<noteq> 0" and pf: "print_freq lg \<noteq> 0"
    and g: "loss_has_grad T"
    by (simp_all add: loader_ok_def)
  obtain sch' opt' where st: "scheduler_step (sched s) (opt s) = (sch', opt')" by (metis prod.exhaust)
  from train_loop_total[OF li g] obtain a' l' s2 where
    "train_loop T lg e (int (length bs) div print_freq lg) 0 bs MetricTracker MetricTracker
       (emit [SchedulerStep (lr opt')] (s\<lparr>sched := sch', opt := opt'\<rparr>)) = (Inr (a', l'), s2)"
    by blast
  with pf st show ?thesis by (simp add: train_def Let_def)
qed

lemma validation_total:
  assumes "loader_ok (print_freq lg) bs"
  shows "\<exists>m s'. validation T bs lg e s = (Inr m, s')"
proof (cases bs)
  case Nil
  with assms show ?thesis
    by (simp add: validation_def loader_ok_def Let_def split: prod.splits)
next
  case (Cons b rest)
  with assms have li: "int (length bs) div print_freq lg \<noteq> 0" and pf: "print_freq lg \<noteq> 0"
    by (simp_all add: loader_ok_def)
  from validation_loop_total[OF li] obtain a' l' s2 where
    "validation_loop T lg e (int (length bs) div print_freq lg) 0 bs MetricTracker MetricTracker
       (emit [ModelEval] (s\<lparr>training := False\<rparr>)) = (Inr (a', l'), s2)"
    by blast
  with pf show ?thesis by (simp add: validation_def Let_def)
qed

lemma epoch_loop_total:
  assumes "\<forall>ep \<in> set es. loader_ok (print_freq lt) (tdl ep)" "loader_ok (print_freq lv) vdl"
    and "loss_has_grad T \<or> (\<forall>ep. tdl ep = [])"
  shows "fst (epoch_loop T tdl vdl lt lv N es best s) = None"
  using assms(1)
proof (induction es arbitrary: best s)
  case Nil
  then show ?case by simp
next
  case (Cons ep rest)
  let ?s1 = "emit [Print (EpochHeader ep (N - 1)), Print Dashes] s"
  from Cons.prems have ok: "loader_ok (print_freq lt) (tdl ep)" by simp
  from assms(3) have "tdl ep = [] \<or> loss_has_grad T" by blast
  from train_total[OF ok this] obtain tm s2 where tr: "train T (tdl ep) lt ep ?s1 = (Inr tm, s2)" by blast
  from validation_total[OF assms(2)] obtain vm s3 where va: "validation T vdl lv ep s2 = (Inr vm, s3)" by blast
  from Cons.prems have "\<forall>ep \<in> set rest. loader_ok (print_freq lt) (tdl ep)" by simp
  from Cons.IH[OF this] tr va show ?case by (simp add: Let_def)
qed

lemma fresh_run_simps:
  "weights (fresh_run T lr0 mom f) = init_weights T"
  "grads (fresh_run T lr0 mom f) = init_grads T"
  "opt (fresh_run T lr0 mom f) = \<lparr>lr = lr0, momentum = mom, buffers = init_buffers T\<rparr>"
  "training (fresh_run T lr0 mom f) = True"
  "sched (fresh_run T lr0 mom f) = \<lparr>base_lr = lr0, step_size = 15, gamma = 1 / 10, last_epoch = - 1\<rparr>"
  "fs (fresh_run T lr0 mom f) = f"
  "trace (fresh_run T lr0 mom f) = []"
  by (simp_all add: fresh_run_def StepLR_def get_lr_def py_pow_def Let_def)

lemma resume_from_cases:
  "resume = [] \<Longrightarrow> resume_from args resume s = (Inr (0, 999), s)"
  "resume \<noteq> [] \<Longrightarrow> fs s resume = Some (CheckpointFile c) \<Longrightarrow>
     resume_from args resume s
       = (Inr (epoch c, best_loss c),
          emit [Print (LoadingCheckpoint resume), TorchLoad resume,
                Print (LoadedCheckpoint resume (epoch c))]
            (s\<lparr>weights := state_dict c, opt := optimizer c\<rparr>))"
  "resume \<noteq> [] \<Longrightarrow> fs s resume = Some OtherFile \<Longrightarrow>
     resume_from args resume s
       = (Inl UnpicklingError, emit [Print (LoadingCheckpoint resume), TorchLoad resume] s)"
  "resume \<noteq> [] \<Longrightarrow> fs s resume = None \<Longrightarrow>
     resume_from (Some a) resume s = (Inr (0, 999), emit [Print (NoCheckpointFound a)] s)"
  "resume \<noteq> [] \<Longrightarrow> fs s resume = None \<Longrightarrow> resume_from None resume s = (Inl NameError, s)"
  by (simp_all add: resume_from_def Let_def)

lemma main_unfold:
  assumes "resume_from args resume (fresh_run T lr0 mom f) = (Inr (st, bst), s0)"
    and "epoch_loop T tdl vdl (fst (loggers rid pfreq)) (snd (loggers rid pfreq)) N
           (py_range st N) bst s0 = (r, b', s')"
  shows "main T args N lr0 mom pfreq rid resume tdl vdl f
           = (r, if r = None then emit [Print TrainingComplete] s' else s')"
  using assms by (cases r) (simp_all add: main_def)

lemma main_total:
  assumes "\<forall>ep. loader_ok pfreq (tdl ep)" "loader_ok pfreq vdl"
    and "resume = [] \<or> (\<exists>c. f resume = Some (CheckpointFile c)) \<or> (f resume = None \<and> args \<noteq> None)"
    and "loss_has_grad T \<or> (\<forall>ep. tdl ep = [])"
  shows "fst (main T args N lr0 mom pfreq rid resume tdl vdl f) = None"
proof -
  have "\<exists>st bst s0. resume_from args resume (fresh_run T lr0 mom f) = (Inr (st, bst), s0)"
  proof (cases "resume = []")
    case True
    then show ?thesis by (simp add: resume_from_cases)
  next
    case False
    with assms(3) show ?thesis
      by (auto simp: resume_from_cases fresh_run_simps)
  qed
  then obtain st bst s0 where r: "resume_from args resume (fresh_run T lr0 mom f) = (Inr (st, bst), s0)"
    by blast
  obtain r' b' s' where e: "epoch_loop T tdl vdl (fst (loggers rid pfreq)) (snd (loggers rid pfreq)) N
               (py_range st N) bst s0 = (r', b', s')" by (metis prod_cases3)
  have "fst (epoch_loop T tdl vdl (fst (loggers rid pfreq)) (snd (loggers rid pfreq)) N
               (py_range st N) bst s0) = None"
    using assms(1,2,4) by (intro epoch_loop_total) (simp_all add: loggers_def)
  with e have "r' = None" by simp
  with main_unfold[OF r e] show ?thesis by simp
qed

lemma resume_from_obs:
  assumes "resume_from args resume s = (Inr (st, seed), s0)"
  shows "fs s0 = fs s" "sched s0 = sched s" "training s0 = training s" "grads s0 = grads s"
    "\<exists>pre. trace s0 = trace s @ pre \<and> val_losses pre = [] \<and> saved pre = [] \<and> sched_lrs pre = []
        \<and> filter is_file_write pre = [] \<and> forward_modes pre = []"
  using assms
  by (auto simp: resume_from_def Let_def emit_def obs_Cons
           split: if_splits option.splits stored.splits)

lemma fresh_get_lr:
  "get_lr (\<lparr>base_lr = lr0, step_size = 15, gamma = 1 / 10, last_epoch = - 1\<rparr>
             \<lparr>last_epoch := - 1 + 1 + int j\<rparr>) = lr0 * (1 / 10) ^ (j div 15)"
proof -
  have "int j div 15 = int (j div 15)" by (simp add: zdiv_int)
  then show ?thesis by (simp add: get_lr_def py_pow_def)
qed

lemma length_py_range: "length (py_range a b) = nat (b - a)"
  by (simp add: py_range_def)

lemma py_range_Nil: "py_range a b = [] \<longleftrightarrow> b \<le> a"
  by (auto simp: py_range_def)

lemma main_run:
  assumes m: "main T args N lr0 mom pfreq rid resume tdl vdl f = (r, s)"
    and rf: "resume_from args resume (fresh_run T lr0 mom f) = (Inr (st, seed), s0)"
  shows "epochs_effect (py_range st N) seed f r
           (running_best seed (val_losses (trace s)) (length (val_losses (trace s)))) (fs s)
           (val_losses (trace s)) (saved (trace s)) (filter is_file_write (trace s))"
    and "r = None \<and> st < N \<longrightarrow>
           state_dict (last (saved (trace s))) = weights s \<and> optimizer (last (saved (trace s))) = opt s
           \<and> training s = False"
    and "r = None \<longrightarrow> sched_lrs (trace s) = map (\<lambda>j. lr0 * (1 / 10) ^ (j div 15)) [0..<nat (N - st)]"
proof -
  obtain r' b' s' where e: "epoch_loop T tdl vdl (fst (loggers rid pfreq)) (snd (loggers rid pfreq)) N
               (py_range st N) seed s0 = (r', b', s')" by (metis prod_cases3)
  from main_unfold[OF rf e] m have r: "r' = r"
    and s: "s = (if r = None then emit [Print TrainingComplete] s' else s')" by simp_all
  note o = resume_from_obs[OF rf]
  from o(5) obtain pre where pre: "trace s0 = pre" "val_losses pre = []" "saved pre = []"
    "sched_lrs pre = []" "filter is_file_write pre = []"
    by (auto simp: fresh_run_simps)
  from epoch_loop_ck[OF e] obtain new where
    E: "trace s' = trace s0 @ new"
       "epochs_effect (py_range st N) seed (fs s0) r' b' (fs s') (val_losses new) (saved new)
            (filter is_file_write new)"
       "r' = None \<and> py_range st N \<noteq> [] \<longrightarrow>
             state_dict (last (saved new)) = weights s' \<and> optimizer (last (saved new)) = opt s'
             \<and> training s' = False"
       "r' = None \<longrightarrow>
             sched_lrs new = map (\<lambda>j. get_lr ((sched s0)\<lparr>last_epoch := last_epoch (sched s0) + 1 + int j\<rparr>))
                               [0..<length (py_range st N)]"
    by blast
  have tr: "\<exists>fin. trace s = pre @ new @ fin \<and> val_losses fin = [] \<and> saved fin = []
        \<and> sched_lrs fin = [] \<and> filter is_file_write fin = []"
  proof (cases "r = None")
    case True
    with s E(1) pre(1) show ?thesis
      by (intro exI[of _ "[Print TrainingComplete]"]) (simp add: emit_def obs_Cons)
  next
    case False
    with s E(1) pre(1) show ?thesis by (intro exI[of _ "[]"]) simp
  qed
  then obtain fin where fin: "trace s = pre @ new @ fin" "val_losses fin = []" "saved fin = []"
        "sched_lrs fin = []" "filter is_file_write fin = []" by blast
  have obs: "val_losses (trace s) = val_losses new" "saved (trace s) = saved new"
    "sched_lrs (trace s) = sched_lrs new" "filter is_file_write (trace s) = filter is_file_write new"
    using fin pre by simp_all
  have st: "fs s = fs s'" "weights s = weights s'" "opt s = opt s'" "training s = training s'"
    using s by (simp_all add: emit_def)
  have b': "b' = running_best seed (val_losses new) (length (val_losses new))"
    using E(2) by (simp add: epochs_effect_def)
  show "epochs_effect (py_range st N) seed f r
           (running_best seed (val_losses (trace s)) (length (val_losses (trace s)))) (fs s)
           (val_losses (trace s)) (saved (trace s)) (filter is_file_write (trace s))"
    using E(2) o(1) r st b' obs by (simp add: fresh_run_simps)
  show "r = None \<and> st < N \<longrightarrow>
           state_dict (last (saved (trace s))) = weights s \<and> optimizer (last (saved (trace s))) = opt s
           \<and> training s = False"
    using E(3) r st obs by (simp add: py_range_Nil)
  show "r = None \<longrightarrow> sched_lrs (trace s) = map (\<lambda>j. lr0 * (1 / 10) ^ (j div 15)) [0..<nat (N - st)]"
    using E(4) r obs o(2) fresh_get_lr[where ?lr0.0 = lr0]
    by (simp add: fresh_run_simps length_py_range)
qed

lemma with_prefix_simps [simp]:
  "weights (with_prefix p s) = weights s" "grads (with_prefix p s) = grads s"
  "opt (with_prefix p s) = opt s" "training (with_prefix p s) = training s"
  "sched (with_prefix p s) = sched s" "fs (with_prefix p s) = fs s"
  "trace (with_prefix p s) = p @ trace s"
  by (simp_all add: with_prefix_def)

lemma emit_prefix: "emit es (with_prefix p s) = with_prefix p (emit es s)"
  by (simp add: emit_def with_prefix_def)

lemma update_prefix:
  "(with_prefix p s)\<lparr>grads := g\<rparr> = with_prefix p (s\<lparr>grads := g\<rparr>)"
  "(with_prefix p s)\<lparr>weights := w, opt := ob\<rparr> = with_prefix p (s\<lparr>weights := w, opt := ob\<rparr>)"
  "(with_prefix p s)\<lparr>sched := sc, opt := ob\<rparr> = with_prefix p (s\<lparr>sched := sc, opt := ob\<rparr>)"
  "(with_prefix p s)\<lparr>training := m\<rparr> = with_prefix p (s\<lparr>training := m\<rparr>)"
  "(with_prefix p s)\<lparr>fs := f\<rparr> = with_prefix p (s\<lparr>fs := f\<rparr>)"
  by (simp_all add: with_prefix_def)

lemma train_batch_prefix:
  "train_batch T b a l (with_prefix p s) = apsnd (with_prefix p) (train_batch T b a l s)"
  by (simp add: train_batch_def Let_def emit_prefix update_prefix split: prod.splits)

lemma validation_batch_prefix:
  "validation_batch T b a l (with_prefix p s) = apsnd (apsnd (with_prefix p)) (validation_batch T b a l s)"
  by (simp add: validation_batch_def Let_def emit_prefix update_prefix split: prod.splits)

lemma log_prefix:
  "train_log lg e li i a l (with_prefix p s) = with_prefix p (train_log lg e li i a l s)"
  "validation_log lg e li i a l (with_prefix p s) = with_prefix p (validation_log lg e li i a l s)"
  by (simp_all add: train_log_def validation_log_def Let_def emit_prefix)

lemma train_loop_prefix:
  "train_loop T lg e li i bs a l (with_prefix p s) = apsnd (with_prefix p) (train_loop T lg e li i bs a l s)"
proof (induction bs arbitrary: i a l s)
  case Nil
  then show ?case by simp
next
  case (Cons b bs)
  obtain r1 s1 where tb: "train_batch T b a l s = (r1, s1)" by (metis prod.exhaust)
  then have "train_batch T b a l (with_prefix p s) = (r1, with_prefix p s1)"
    by (simp add: train_batch_prefix)
  with tb Cons.IH show ?case by (cases r1) (auto simp: log_prefix)
qed

lemma validation_loop_prefix:
  "validation_loop T lg e li i bs a l (with_prefix p s) = apsnd (with_prefix p) (validation_loop T lg e li i bs a l s)"
proof (induction bs arbitrary: i a l s)
  case Nil
  then show ?case by simp
next
  case (Cons b bs)
  obtain a1 l1 s1 where tb: "validation_batch T b a l s = (a1, l1, s1)" by (metis prod_cases3)
  then have "validation_batch T b a l (with_prefix p s) = (a1, l1, with_prefix p s1)"
    by (simp add: validation_batch_prefix)
  with tb Cons.IH show ?case by (simp add: log_prefix)
qed

lemma train_prefix:
  "train T bs lg e (with_prefix p s) = apsnd (with_prefix p) (train T bs lg e s)"
  by (simp add: train_def Let_def emit_prefix update_prefix train_loop_prefix
           split: prod.splits sum.splits)

lemma validation_prefix:
  "validation T bs lg e (with_prefix p s) = apsnd (with_prefix p) (validation T bs lg e s)"
  by (simp add: validation_def Let_def emit_prefix update_prefix validation_loop_prefix
           split: prod.splits sum.splits)

lemma save_checkpoint_prefix:
  "save_checkpoint c b (with_prefix p s) = with_prefix p (save_checkpoint c b s)"
  by (simp add: save_checkpoint_def Let_def emit_prefix update_prefix)

lemma epoch_loop_prefix:
  "epoch_loop T tdl vdl lt lv N es best (with_prefix p s)
     = apsnd (apsnd (with_prefix p)) (epoch_loop T tdl vdl lt lv N es best s)"
proof (induction es arbitrary: best s)
  case Nil
  then show ?case by simp
next
  case (Cons ep rest)
  show ?case
    by (simp add: Let_def emit_prefix train_prefix validation_prefix save_checkpoint_prefix Cons.IH
             split: prod.splits sum.splits)
qed

lemma py_range_rec: "a < b \<Longrightarrow> py_range a b = a # py_range (a + 1) b"
  by (simp add: py_range_def upto_rec1)

lemma loader_ok_Nil: "pfreq \<noteq> 0 \<Longrightarrow> loader_ok pfreq []"
  by (simp add: loader_ok_def)

lemma filter_compute_count:
  assumes "\<And>ev. P ev \<Longrightarrow> is_compute ev"
  shows "filter P new = filter P (filter is_compute new)"
  using assms by (induction new) auto

lemma train_effect_blocks:
  assumes "train_effect T bs lg s r s' new ps fin" and "r \<noteq> Inl RuntimeError"
  shows "filter is_compute new = concat (map2 (train_block T (training s)) bs ps)"
proof (cases "loss_has_grad T")
  case True
  then have "batch_calls T (training s) = train_block T (training s)"
    by (intro ext) (simp add: batch_calls_def)
  with assms(1) show ?thesis by (simp add: train_effect_def)
next
  case False
  have "ps = []"
  proof (cases r)
    case (Inl err)
    with assms False show ?thesis by (simp add: train_effect_def)
  next
    case (Inr m)
    with assms(1) False have "bs = []" "length ps \<le> length bs"
      by (auto simp: train_effect_def)
    then show ?thesis by simp
  qed
  with assms(1) show ?thesis by (simp add: train_effect_def)
qed

lemma cut_blocks_members:
  "OptimizerStep \<notin> set (cut_block T m b p)" "Backward l \<notin> set (cut_block T m b p)"
  "length (filter (\<lambda>ev. ev = ZeroGrad) (cut_block T m b p)) = 1"
  by (simp_all add: cut_block_def)

lemma batch_calls_count:
  "length ps \<le> length bs \<Longrightarrow>
     length (filter (\<lambda>ev. ev = ZeroGrad) (concat (map2 (batch_calls T m) bs ps))) = length ps
     \<and> (loss_has_grad T \<longrightarrow>
          length (filter (\<lambda>ev. ev = OptimizerStep) (concat (map2 (batch_calls T m) bs ps)))
            = length ps)"
  by (induction bs ps rule: list_induct2')
     (simp_all add: batch_calls_def train_block_def cut_block_def)

lemma train_blocks_count:
  "length ps \<le> length bs \<Longrightarrow>
     length (filter (\<lambda>ev. ev = OptimizerStep) (concat (map2 (train_block T m) bs ps))) = length ps
     \<and> length (filter (\<lambda>ev. ev = ZeroGrad) (concat (map2 (train_block T m) bs ps))) = length ps"
  by (induction bs ps rule: list_induct2') (simp_all add: train_block_def)

lemma since_append: "trace s' = trace s @ new \<Longrightarrow> since s s' = new"
  by (simp add: since_def)

lemma tracked_sums:
  "tracked t us = \<lparr>msum = msum t + (\<Sum>(v, n)\<leftarrow>us. v * real n),
                   mcount = mcount t + (\<Sum>(v, n)\<leftarrow>us. n)\<rparr>"
  by (induction us arbitrary: t) (auto simp: tracked_def update_def)

lemma val_blocks_members:
  "ZeroGrad \<notin> set (concat (map2 (val_block T m) bs ps))"
  "OptimizerStep \<notin> set (concat (map2 (val_block T m) bs ps))"
  "Backward l \<notin> set (concat (map2 (val_block T m) bs ps))"
  by (induction bs ps rule: list_induct2'; simp add: val_block_def)+

lemma compute_member:
  "is_compute ev \<Longrightarrow> ev \<in> set new \<longleftrightarrow> ev \<in> set (filter is_compute new)"
  by simp

lemma toy_simps:
  "init_weights (toy tab) = 0" "init_grads (toy tab) = ()" "init_buffers (toy tab) = ()"
  "forward (toy tab) w m x = [replicate w 1]"
  "criterion (toy tab) out y = tab (length (concat out))"
  "dice_coeff (toy tab) x y = 0" "zero_grad (toy tab) g = g"
  "backward (toy tab) w m x out y g = g"
  "sgd_step (toy tab) ob w g = (Suc w, ())"
  by (simp_all add: toy_def)

lemma toy_has_grad [simp]: "loss_has_grad (toy tab)"
  by (simp add: loss_has_grad_def toy_def)

lemma plain_toy_simps:
  "\<not> loss_has_grad (plain_toy tab)"
  "init_weights (plain_toy tab) = 0"
  "forward (plain_toy tab) w m x = [replicate w 1]"
  "criterion (plain_toy tab) out y = tab (length (concat out))"
  by (simp_all add: loss_has_grad_def plain_toy_def toy_def)

lemma threshold_ones: "threshold [replicate w 1] = [replicate w 1]"
  by (simp add: threshold_def)

lemma toy_train_batch:
  "train_batch (toy tab) b a l
     \<lparr>weights = w, grads = g, opt = ob, training = m, sched = sc, fs = f, trace = tr\<rparr>
   = (Inr (update a 0 (size0 (sat_img b)), update l (tab w) (size0 (sat_img b))),
      \<lparr>weights = Suc w, grads = g, opt = ob\<lparr>buffers := ()\<rparr>, training = m, sched = sc, fs = f,
       trace = tr @ [ZeroGrad, Forward m (sat_img b) [replicate w 1],
          Criterion [replicate w 1] (map_img b) (tab w), Backward (tab w), OptimizerStep]\<rparr>)"
  by (simp add: train_batch_def toy_simps emit_def threshold_ones Let_def)

lemma toy_validation_batch:
  "validation_batch (toy tab) b a l
     \<lparr>weights = w, grads = g, opt = ob, training = m, sched = sc, fs = f, trace = tr\<rparr>
   = (update a 0 (size0 (sat_img b)), update l (tab w) (size0 (sat_img b)),
      \<lparr>weights = w, grads = g, opt = ob, training = m, sched = sc, fs = f,
       trace = tr @ [Forward m (sat_img b) [replicate w 1],
          Criterion [replicate w 1] (map_img b) (tab w)]\<rparr>)"
  by (simp add: validation_batch_def toy_simps emit_def threshold_ones Let_def)

lemma toy_train:
  "train (toy tab) one_batch \<lparr>log_dir = d, print_freq = 1\<rparr> e
     \<lparr>weights = w, grads = g, opt = ob, training = m, sched = sc, fs = f, trace = tr\<rparr>
   = (Inr \<lparr>train_loss = tab w, train_acc = 0\<rparr>,
      \<lparr>weights = Suc w, grads = g,
       opt = ob\<lparr>lr := get_lr (stepped sc), buffers := ()\<rparr>,
       training = m, sched = stepped sc, fs = f,
       trace = tr @ [SchedulerStep (get_lr (stepped sc)),
          ZeroGrad, Forward m [[0]] [replicate w 1],
          Criterion [replicate w 1] [[0]] (tab w), Backward (tab w), OptimizerStep,
          ScalarSummary d ''loss'' (tab w) (real_of_int e),
          ScalarSummary d ''accuracy'' 0 (real_of_int e),
          HistoSummaries d (real_of_int e),
          ImageSummary d ''target_images'' (real_of_int e),
          ImageSummary d ''pred_images'' (real_of_int e),
          Print (TrainingLoss (tab w) 0), Print Blank]\<rparr>)"
  by (simp add: train_def one_batch_def scheduler_step_def stepped_def Let_def emit_def
        toy_train_batch train_log_def MetricTracker_def update_def avg_def size0_def)

lemma toy_validation:
  "validation (toy tab) one_batch \<lparr>log_dir = d, print_freq = 1\<rparr> e
     \<lparr>weights = w, grads = g, opt = ob, training = m, sched = sc, fs = f, trace = tr\<rparr>
   = (Inr \<lparr>valid_loss = tab w, valid_acc = 0\<rparr>,
      \<lparr>weights = w, grads = g, opt = ob, training = False, sched = sc, fs = f,
       trace = tr @ [ModelEval, Forward False [[0]] [replicate w 1],
          Criterion [replicate w 1] [[0]] (tab w),
          ScalarSummary d ''loss'' (tab w) (real_of_int e),
          ScalarSummary d ''accuracy'' 0 (real_of_int e),
          ImageSummary d ''target_images'' (real_of_int e),
          ImageSummary d ''pred_images'' (real_of_int e),
          Print (ValidationLoss (tab w) 0), Print Blank]\<rparr>)"
  by (simp add: validation_def one_batch_def Let_def emit_def
        toy_validation_batch validation_log_def MetricTracker_def update_def avg_def size0_def)

lemma toy_epoch:
  "epoch_loop (toy tab) (\<lambda>ep. one_batch) one_batch \<lparr>log_dir = d1, print_freq = 1\<rparr>
      \<lparr>log_dir = d2, print_freq = 1\<rparr> N (ep # rest) best
      \<lparr>weights = w, grads = g, opt = ob, training = m, sched = sc, fs = f, trace = tr\<rparr>
   = epoch_loop (toy tab) (\<lambda>ep. one_batch) one_batch \<lparr>log_dir = d1, print_freq = 1\<rparr>
      \<lparr>log_dir = d2, print_freq = 1\<rparr> N rest (min (tab (Suc w)) best)
      (emit [Print CurrentElapsed]
        (save_checkpoint
           \<lparr>epoch = ep, arch = ''UNet'', state_dict = Suc w, best_loss = min (tab (Suc w)) best,
            optimizer = ob\<lparr>lr := get_lr (stepped sc), buffers := ()\<rparr>\<rparr>
           (tab (Suc w) < best)
           \<lparr>weights = Suc w, grads = g, opt = ob\<lparr>lr := get_lr (stepped sc), buffers := ()\<rparr>,
            training = False, sched = stepped sc, fs = f,
            trace = tr @ [Print (EpochHeader ep (N - 1)), Print Dashes,
              SchedulerStep (get_lr (stepped sc)),
              ZeroGrad, Forward m [[0]] [replicate w 1],
              Criterion [replicate w 1] [[0]] (tab w), Backward (tab w), OptimizerStep,
              ScalarSummary d1 ''loss'' (tab w) (real_of_int ep),
              ScalarSummary d1 ''accuracy'' 0 (real_of_int ep),
              HistoSummaries d1 (real_of_int ep),
              ImageSummary d1 ''target_images'' (real_of_int ep),
              ImageSummary d1 ''pred_images'' (real_of_int ep),
              Print (TrainingLoss (tab w) 0), Print Blank,
              ModelEval, Forward False [[0]] [replicate (Suc w) 1],
              Criterion [replicate (Suc w) 1] [[0]] (tab (Suc w)),
              ScalarSummary d2 ''loss'' (tab (Suc w)) (real_of_int ep),
              ScalarSummary d2 ''accuracy'' 0 (real_of_int ep),
              ImageSummary d2 ''target_images'' (real_of_int ep),
              ImageSummary d2 ''pred_images'' (real_of_int ep),
              Print (ValidationLoss (tab (Suc w)) 0), Print Blank]\<rparr>))"
  by (simp add: toy_train toy_validation emit_def Let_def)

lemma fresh_run_toy:
  "fresh_run (toy tab) lr0 mom f
     = \<lparr>weights = 0, grads = (), opt = \<lparr>lr = lr0, momentum = mom, buffers = ()\<rparr>,
        training = True,
        sched = \<lparr>base_lr = lr0, step_size = 15, gamma = 1 / 10, last_epoch = - 1\<rparr>,
        fs = f, trace = []\<rparr>"
  by (simp add: fresh_run_def StepLR_def get_lr_def py_pow_def Let_def toy_simps)

lemmas toy_run_simps = main_def resume_from_cases fresh_run_toy loggers_def toy_epoch
  save_checkpoint_def emit_def copyfile_def obs_Cons stepped_def get_lr_def py_pow_def

lemma py_range_4: "py_range 0 4 = [0, 1, 2, 3]"
  by (simp add: py_range_def upto_rec1)

lemma example_run_losses:
  "val_losses (trace (snd (main (toy example_losses) None 4 (1 / 100) (9 / 10) 1 ''0'' []
       (\<lambda>ep. one_batch) one_batch no_files))) = [1 / 2, 3 / 10, 2 / 5, 1 / 5]"
  by (simp add: toy_run_simps py_range_4 example_losses_def del: epoch_loop.simps(2))

lemma running_best_le_seed: "running_best seed ls k \<le> seed"
proof (induction ls arbitrary: seed k)
  case Nil
  then show ?case by (simp add: running_best_def)
next
  case (Cons l ls)
  show ?case
  proof (cases k)
    case 0
    then show ?thesis by (simp add: running_best_simps)
  next
    case (Suc k')
    have "running_best (min l seed) ls k' \<le> min l seed" by (rule Cons.IH)
    with Suc show ?thesis by (simp add: running_best_simps)
  qed
qed

lemma checkpoint_io_no_copy:
  assumes "\<forall>b \<in> set flags. \<not> b"
  shows "CopyFile a b \<notin> set (checkpoint_io cs flags)"
  using assms unfolding checkpoint_io_def
  by (induction cs flags rule: list_induct2') auto

lemma file_write_member:
  "CopyFile a b \<in> set tr \<longleftrightarrow> CopyFile a b \<in> set (filter is_file_write tr)"
  by simp

lemma empty_epoch:
  "pf \<noteq> 0 \<Longrightarrow>
   epoch_loop T (\<lambda>ep. []) [] \<lparr>log_dir = d1, print_freq = pf\<rparr>
      \<lparr>log_dir = d2, print_freq = pf\<rparr> N (ep # rest) best
      \<lparr>weights = w, grads = g, opt = ob, training = m, sched = sc, fs = f, trace = tr\<rparr>
   = epoch_loop T (\<lambda>ep. []) [] \<lparr>log_dir = d1, print_freq = pf\<rparr>
      \<lparr>log_dir = d2, print_freq = pf\<rparr> N rest (min 0 best)
      (emit [Print CurrentElapsed]
        (save_checkpoint
           \<lparr>epoch = ep, arch = ''UNet'', state_dict = w, best_loss = min 0 best,
            optimizer = ob\<lparr>lr := get_lr (stepped sc)\<rparr>\<rparr>
           (0 < best)
           \<lparr>weights = w, grads = g, opt = ob\<lparr>lr := get_lr (stepped sc)\<rparr>,
            training = False, sched = stepped sc, fs = f,
            trace = tr @ [Print (EpochHeader ep (N - 1)), Print Dashes,
              SchedulerStep (get_lr (stepped sc)),
              Print (TrainingLoss 0 0), Print Blank,
              ModelEval,
              Print (ValidationLoss 0 0), Print Blank]\<rparr>))"
  by (simp add: train_def validation_def scheduler_step_def stepped_def emit_def Let_def
        avg_def MetricTracker_def)

lemma py_range_16: "py_range 0 16 = [0, 1, 2, 3, 4, 5, 6, 7, 8, 9, 10, 11, 12, 13, 14, 15]"
  by (simp add: py_range_def upto_rec1)

lemmas empty_run_simps = main_def resume_from_cases fresh_run_toy loggers_def empty_epoch
  save_checkpoint_def emit_def copyfile_def obs_Cons stepped_def get_lr_def py_pow_def

lemma long_run_checkpoint:
  "fs (snd (main (toy example_losses) None 16 (1 / 100) (9 / 10) 1 ''0'' [] (\<lambda>ep. []) []
         no_files)) checkpoint_path
     = Some (CheckpointFile \<lparr>epoch = 15, arch = ''UNet'', state_dict = 0, best_loss = 0,
          optimizer = \<lparr>lr = 1 / 1000, momentum = 9 / 10, buffers = ()\<rparr>\<rparr>)"
  by (simp add: empty_run_simps py_range_16 checkpoint_path_def best_path_def
        del: epoch_loop.simps(2))

lemma long_run_sched:
  "last_epoch (sched (snd (main (toy example_losses) None 16 (1 / 100) (9 / 10) 1 ''0'' []
         (\<lambda>ep. []) [] no_files))) = 15"
  by (simp add: empty_run_simps py_range_16 del: epoch_loop.simps(2))

lemma last_py_range: "a < b \<Longrightarrow> last (py_range a b) = b - 1"
  by (simp add: py_range_def upto_rec2)

section \<open>The claims\<close>

subsection \<open>C1\<close>

text \<open>
  Claim C1, amended in what the loss is compared with. A run that completes has, for each
  of its epochs in order, written one checkpoint to the fixed location, and the file there
  is the checkpoint of the last epoch, which holds the final weights and optimizer state.
  The copy to the best location follows the save of epoch \<open>k\<close> exactly when the
  validation loss of that epoch is strictly below the best loss the loop holds: the
  smallest of the value it started from (999, or the best loss of the checkpoint resumed
  from) and the validation losses of the earlier epochs of the run. So the best location
  holds the checkpoint of the last epoch that improved in this sense, and what it held
  before the run when no epoch did. For the validation losses 0.5, 0.3, 0.4, 0.2 of a run
  started from 999 that is the checkpoint saved in the fourth epoch.
\<close>

theorem best_checkpoint_rule:
  assumes "main T args N lr0 mom pfreq rid resume tdl vdl f = (None, s)"
    and "resume_from args resume (fresh_run T lr0 mom f) = (Inr (start, seed), s0)"
  shows "length (saved (trace s)) = nat (N - start)
       \<and> length (val_losses (trace s)) = nat (N - start)
       \<and> map epoch (saved (trace s)) = py_range start N
       \<and> filter is_file_write (trace s)
           = checkpoint_io (saved (trace s))
               (map (improved seed (val_losses (trace s))) [0..<nat (N - start)])
       \<and> (start < N \<longrightarrow>
             fs s checkpoint_path = Some (CheckpointFile (last (saved (trace s))))
             \<and> state_dict (last (saved (trace s))) = weights s
             \<and> optimizer (last (saved (trace s))) = opt s)
       \<and> (\<forall>k < nat (N - start).
             best_loss (saved (trace s) ! k) = running_best seed (val_losses (trace s)) (Suc k))
       \<and> (\<forall>k < nat (N - start).
             improved seed (val_losses (trace s)) k
             \<and> (\<forall>j. k < j \<and> j < nat (N - start) \<longrightarrow> \<not> improved seed (val_losses (trace s)) j)
             \<longrightarrow> fs s best_path = Some (CheckpointFile (saved (trace s) ! k)))
       \<and> ((\<forall>k < nat (N - start). \<not> improved seed (val_losses (trace s)) k)
             \<longrightarrow> fs s best_path = f best_path)
       \<and> (seed = 999 \<and> val_losses (trace s) = [1 / 2, 3 / 10, 2 / 5, 1 / 5] \<longrightarrow>
             fs s best_path = Some (CheckpointFile (saved (trace s) ! 3))
             \<and> epoch (saved (trace s) ! 3) = start + 3)"
proof -
  let ?ls = "val_losses (trace s)"
  let ?cs = "saved (trace s)"
  note E = main_run(1)[OF assms, unfolded epochs_effect_def]
  note F = main_run(2)[OF assms]
  have len: "length ?ls = nat (N - start)" "length ?cs = nat (N - start)"
    using E by (simp_all add: length_py_range)
  have eps: "map epoch ?cs = py_range start N" using E by simp
  have io: "filter is_file_write (trace s)
           = checkpoint_io ?cs (map (improved seed ?ls) [0..<nat (N - start)])"
    using E len by simp
  have latest: "start < N \<longrightarrow>
             fs s checkpoint_path = Some (CheckpointFile (last ?cs))
             \<and> state_dict (last ?cs) = weights s \<and> optimizer (last ?cs) = opt s"
  proof
    assume lt: "start < N"
    with len have "?cs \<noteq> []" by auto
    with E F lt show "fs s checkpoint_path = Some (CheckpointFile (last ?cs))
             \<and> state_dict (last ?cs) = weights s \<and> optimizer (last ?cs) = opt s" by simp
  qed
  have bl: "\<forall>k < nat (N - start). best_loss (?cs ! k) = running_best seed ?ls (Suc k)"
    using E len by simp
  have some: "\<forall>k < nat (N - start).
             improved seed ?ls k \<and> (\<forall>j. k < j \<and> j < nat (N - start) \<longrightarrow> \<not> improved seed ?ls j)
             \<longrightarrow> fs s best_path = Some (CheckpointFile (?cs ! k))"
    using E len by simp
  have none: "(\<forall>k < nat (N - start). \<not> improved seed ?ls k) \<longrightarrow> fs s best_path = f best_path"
    using E len by simp
  have ex: "seed = 999 \<and> ?ls = [1 / 2, 3 / 10, 2 / 5, 1 / 5] \<longrightarrow>
             fs s best_path = Some (CheckpointFile (?cs ! 3)) \<and> epoch (?cs ! 3) = start + 3"
  proof
    assume h: "seed = 999 \<and> ?ls = [1 / 2, 3 / 10, 2 / 5, 1 / 5]"
    with len have n: "nat (N - start) = 4" by simp
    have i3: "improved seed ?ls 3"
      using h by (simp add: improved_def running_best_def)
    have later: "\<forall>j. 3 < j \<and> j < nat (N - start) \<longrightarrow> \<not> improved seed ?ls j"
      using n by auto
    from some n i3 later have b: "fs s best_path = Some (CheckpointFile (?cs ! 3))" by simp
    from n have "py_range start N ! 3 = start + 3" by (simp add: py_range_def)
    moreover have "map epoch ?cs ! 3 = epoch (?cs ! 3)"
      using len n by (intro nth_map) simp
    ultimately have "epoch (?cs ! 3) = start + 3" using eps by simp
    with b show "fs s best_path = Some (CheckpointFile (?cs ! 3)) \<and> epoch (?cs ! 3) = start + 3"
      by simp
  qed
  from len eps io latest bl some none ex show ?thesis by blast
qed

text \<open>The run of four epochs with the validation losses 0.5, 0.3, 0.4 and 0.2.\<close>

theorem best_checkpoint_rule_witness:
  "fst (main (toy example_losses) None 4 (1 / 100) (9 / 10) 1 ''0'' []
          (\<lambda>ep. one_batch) one_batch no_files) = None
   \<and> val_losses (trace (snd (main (toy example_losses) None 4 (1 / 100) (9 / 10) 1 ''0'' []
          (\<lambda>ep. one_batch) one_batch no_files))) = [1 / 2, 3 / 10, 2 / 5, 1 / 5]
   \<and> fs (snd (main (toy example_losses) None 4 (1 / 100) (9 / 10) 1 ''0'' []
          (\<lambda>ep. one_batch) one_batch no_files)) best_path
       = Some (CheckpointFile (saved (trace (snd (main (toy example_losses) None 4 (1 / 100)
          (9 / 10) 1 ''0'' [] (\<lambda>ep. one_batch) one_batch no_files))) ! 3))
   \<and> saved (trace (snd (main (toy example_losses) None 4 (1 / 100) (9 / 10) 1 ''0'' []
          (\<lambda>ep. one_batch) one_batch no_files))) ! 3
       = \<lparr>epoch = 3, arch = ''UNet'', state_dict = 4, best_loss = 1 / 5,
          optimizer = \<lparr>lr = 1 / 100, momentum = 9 / 10, buffers = ()\<rparr>\<rparr>"
proof -
  let ?m = "main (toy example_losses) None 4 (1 / 100) (9 / 10) 1 ''0'' []
          (\<lambda>ep. one_batch) one_batch no_files"
  have ok: "loader_ok 1 one_batch" by (simp add: loader_ok_def one_batch_def)
  have n: "fst ?m = None" using ok by (intro main_total) simp_all
  then have m: "?m = (None, snd ?m)" by (simp add: prod_eq_iff)
  have rf: "resume_from None [] (fresh_run (toy example_losses) (1 / 100) (9 / 10) no_files)
              = (Inr (0, 999), fresh_run (toy example_losses) (1 / 100) (9 / 10) no_files)"
    by (simp add: resume_from_cases)
  have c3: "saved (trace (snd ?m)) ! 3
       = \<lparr>epoch = 3, arch = ''UNet'', state_dict = 4, best_loss = 1 / 5,
          optimizer = \<lparr>lr = 1 / 100, momentum = 9 / 10, buffers = ()\<rparr>\<rparr>"
    by (simp add: toy_run_simps py_range_4 example_losses_def del: epoch_loop.simps(2))
  from best_checkpoint_rule[OF m rf] example_run_losses n c3 show ?thesis by simp
qed

text \<open>
  Claim C1 as stated fails in the first epoch of a run that loads no checkpoint: a
  validation loss of 1000 is lower than the loss of every earlier epoch, there being none,
  and is saved but not copied to the best location.
\<close>

theorem first_epoch_counterexample:
  "val_losses (trace (snd (main (toy (\<lambda>n. 1000)) None 1 (1 / 100) (9 / 10) 1 ''0'' []
       (\<lambda>ep. one_batch) one_batch no_files))) = [1000]
   \<and> improves_on_all_prior [1000] 0
   \<and> filter is_file_write (trace (snd (main (toy (\<lambda>n. 1000)) None 1 (1 / 100) (9 / 10) 1 ''0'' []
       (\<lambda>ep. one_batch) one_batch no_files)))
       = [TorchSave checkpoint_path
            \<lparr>epoch = 0, arch = ''UNet'', state_dict = 1, best_loss = 999,
             optimizer = \<lparr>lr = 1 / 100, momentum = 9 / 10, buffers = ()\<rparr>\<rparr>]
   \<and> fs (snd (main (toy (\<lambda>n. 1000)) None 1 (1 / 100) (9 / 10) 1 ''0'' []
       (\<lambda>ep. one_batch) one_batch no_files)) best_path = None"
proof -
  have r: "py_range 0 1 = [0]" by (simp add: py_range_def upto_rec1)
  show ?thesis
    by (simp add: toy_run_simps r improves_on_all_prior_def no_files_def
          checkpoint_path_def best_path_def del: epoch_loop.simps(2))
qed

subsection \<open>C2\<close>

text \<open>
  Claim C2. When the resume path names a checkpoint file, lines 55 to 64 take the epoch
  counter, the best loss, the model weights and the optimizer state from it unchanged,
  and the epoch loop runs over \<open>range(loaded_epoch, num_epochs)\<close>: its first epoch is the
  loaded one, not the one after it, and a run that completes has saved one checkpoint for
  each of these epochs, the loaded one included.
\<close>

theorem resume_restores_and_reruns:
  assumes "resume \<noteq> []" and "f resume = Some (CheckpointFile c)"
  shows "\<exists>restored.
           resume_from args resume (fresh_run T lr0 mom f)
             = (Inr (epoch c, best_loss c), restored)
           \<and> weights restored = state_dict c \<and> opt restored = optimizer c
           \<and> fst (main T args N lr0 mom pfreq rid resume tdl vdl f)
               = fst (epoch_loop T tdl vdl (fst (loggers rid pfreq)) (snd (loggers rid pfreq)) N
                        (py_range (epoch c) N) (best_loss c) restored)
           \<and> (epoch c < N \<longrightarrow> py_range (epoch c) N = epoch c # py_range (epoch c + 1) N)
           \<and> (fst (main T args N lr0 mom pfreq rid resume tdl vdl f) = None \<longrightarrow>
                 map epoch (saved (trace (snd (main T args N lr0 mom pfreq rid resume tdl vdl f))))
                   = py_range (epoch c) N)"
proof -
  let ?restored = "emit [Print (LoadingCheckpoint resume), TorchLoad resume,
                Print (LoadedCheckpoint resume (epoch c))]
            ((fresh_run T lr0 mom f)\<lparr>weights := state_dict c, opt := optimizer c\<rparr>)"
  let ?m = "main T args N lr0 mom pfreq rid resume tdl vdl f"
  have rf: "resume_from args resume (fresh_run T lr0 mom f) = (Inr (epoch c, best_loss c), ?restored)"
    using assms by (simp add: resume_from_cases fresh_run_simps)
  have w: "weights ?restored = state_dict c" "opt ?restored = optimizer c"
    by (simp_all add: emit_def)
  obtain r b' s' where e: "epoch_loop T tdl vdl (fst (loggers rid pfreq)) (snd (loggers rid pfreq)) N
                        (py_range (epoch c) N) (best_loss c) ?restored = (r, b', s')"
    by (metis prod_cases3)
  have m: "fst ?m = fst (epoch_loop T tdl vdl (fst (loggers rid pfreq)) (snd (loggers rid pfreq)) N
                        (py_range (epoch c) N) (best_loss c) ?restored)"
    using main_unfold[OF rf e] e by simp
  have eps: "fst ?m = None \<longrightarrow> map epoch (saved (trace (snd ?m))) = py_range (epoch c) N"
  proof
    assume n: "fst ?m = None"
    then have "?m = (None, snd ?m)" by (simp add: prod_eq_iff)
    from main_run(1)[OF this rf] show "map epoch (saved (trace (snd ?m))) = py_range (epoch c) N"
      by (simp add: epochs_effect_def)
  qed
  from rf w m eps show ?thesis
    by (intro exI[of _ ?restored]) (simp add: py_range_rec)
qed

text \<open>Resuming at epoch 15 of 17 runs the epochs 15 and 16.\<close>

theorem resume_restores_and_reruns_witness:
  "''run.pth.tar'' \<noteq> [] \<and> one_file ''run.pth.tar'' = Some (CheckpointFile sample_checkpoint)
   \<and> epoch sample_checkpoint < 17
   \<and> fst (main (toy example_losses) None 17 (1 / 100) (9 / 10) 1 ''0'' ''run.pth.tar''
             (\<lambda>ep. []) [] one_file) = None
   \<and> map epoch (saved (trace (snd (main (toy example_losses) None 17 (1 / 100) (9 / 10) 1 ''0''
             ''run.pth.tar'' (\<lambda>ep. []) [] one_file)))) = [15, 16]"
proof -
  have h1: "''run.pth.tar'' \<noteq> []" by simp
  have h2: "one_file ''run.pth.tar'' = Some (CheckpointFile sample_checkpoint)"
    by (simp add: one_file_def)
  have h3: "epoch sample_checkpoint < 17" by (simp add: sample_checkpoint_def)
  have h4: "fst (main (toy example_losses) None 17 (1 / 100) (9 / 10) 1 ''0'' ''run.pth.tar''
             (\<lambda>ep. []) [] one_file) = None"
    using h2 by (intro main_total) (simp_all add: loader_ok_Nil)
  have r: "py_range (epoch sample_checkpoint) 17 = [15, 16]"
    by (simp add: py_range_def sample_checkpoint_def)
  from resume_restores_and_reruns[where resume = "''run.pth.tar''" and f = one_file
      and c = sample_checkpoint and args = None and T = "toy example_losses" and ?lr0.0 = "1 / 100"
      and mom = "9 / 10" and N = 17 and tdl = "\<lambda>ep. []" and vdl = "[]" and pfreq = 1
      and rid = "''0''", OF h1 h2] h1 h2 h3 h4 r
  show ?thesis by auto
qed

subsection \<open>C3\<close>

text \<open>
  Claim C3 against the code. Whatever way a training pass ends, the framework calls it
  made are, batch after batch in loader order: zero the gradients; run the model forward
  on the batch's inputs; threshold the returned probability map at 0.3 into zeros and
  ones and compute the loss of that thresholded map against the labels; then, where that
  loss carries a gradient history, backpropagate that very loss and take one optimizer
  step. Neither the thresholded map nor the labels carry a gradient history, so the loss
  has one only if the criterion brings it. Where it does, a pass that returns has zeroed
  the gradients and stepped the optimizer once for every batch of the loader. Where it
  does not, as for a loss computed from prediction and target alone,
  \<^verbatim>\<open>loss.backward()\<close> raises in the first batch: the pass over a loader with at least
  one batch ends there in \<^verbatim>\<open>RuntimeError\<close>, has backpropagated nothing, has taken no
  optimizer step and has left the parameters as they were. The backpropagation and the
  optimizer step per batch that the claim states are what lines 159 and 160 attempt and
  what the thresholding of line 154 prevents.
\<close>

theorem training_batch_protocol:
  assumes "train T bs lg e s = (r, s')"
  shows "\<exists>new ps. trace s' = trace s @ new
           \<and> length ps \<le> length bs \<and> (\<forall>m. r = Inr m \<longrightarrow> length ps = length bs)
           \<and> forward_outputs T (training s) bs ps
           \<and> filter is_compute new
               = concat (map2 (\<lambda>b p.
                   [ZeroGrad,
                    Forward (training s) (sat_img b) p,
                    Criterion (threshold p) (map_img b) (criterion T (threshold p) (map_img b))]
                   @ (if loss_requires_grad T False False
                      then [Backward (criterion T (threshold p) (map_img b)), OptimizerStep]
                      else [])) bs ps)
           \<and> (\<forall>p. threshold p = map (map (\<lambda>v. if 3 / 10 < v then 1 else 0)) p)
           \<and> length (filter (\<lambda>ev. ev = ZeroGrad) new) = length ps
           \<and> (loss_requires_grad T False False \<longrightarrow>
                length (filter (\<lambda>ev. ev = OptimizerStep) new) = length ps)
           \<and> (\<not> loss_requires_grad T False False \<and> bs \<noteq> [] \<and> print_freq lg \<noteq> 0 \<longrightarrow>
                r = Inl RuntimeError \<and> length ps = 1 \<and> OptimizerStep \<notin> set new
                \<and> (\<forall>l. Backward l \<notin> set new) \<and> weights s' = weights s)"
proof -
  from train_spec[OF assms] show ?thesis
  proof
    assume "print_freq lg = 0 \<and> r = Inl ZeroDivisionError \<and> s' = s"
    then show ?thesis
      by (intro exI[of _ "[]"]) (simp add: forward_outputs_def threshold_def)
  next
    assume pe: "print_freq lg \<noteq> 0 \<and> (\<exists>new ps fin. train_effect T bs lg s r s' new ps fin)"
    then obtain new ps fin where E: "train_effect T bs lg s r s' new ps fin" by blast
    let ?new = "SchedulerStep (get_lr (stepped (sched s))) # new @ fin"
    let ?blk = "\<lambda>b p.
                   [ZeroGrad,
                    Forward (training s) (sat_img b) p,
                    Criterion (threshold p) (map_img b) (criterion T (threshold p) (map_img b))]
                   @ (if loss_requires_grad T False False
                      then [Backward (criterion T (threshold p) (map_img b)), OptimizerStep]
                      else [])"
    have blk: "batch_calls T (training s) = ?blk"
      by (intro ext) (simp add: batch_calls_def train_block_def cut_block_def loss_has_grad_def)
    have fin: "filter is_compute fin = []"
      using E by (cases r) (simp_all add: train_effect_def)
    have c: "filter is_compute ?new = concat (map2 (batch_calls T (training s)) bs ps)"
      using E fin by (simp add: train_effect_def)
    have len: "length ps \<le> length bs" using E by (simp add: train_effect_def)
    have cnt: "length (filter (\<lambda>ev. ev = ZeroGrad) ?new) = length ps
        \<and> (loss_requires_grad T False False \<longrightarrow>
             length (filter (\<lambda>ev. ev = OptimizerStep) ?new) = length ps)"
      using batch_calls_count[OF len, where T = T and m = "training s"] c
        filter_compute_count[of "\<lambda>ev. ev = ZeroGrad" ?new]
        filter_compute_count[of "\<lambda>ev. ev = OptimizerStep" ?new]
      by (simp add: loss_has_grad_def)
    have bug: "r = Inl RuntimeError \<and> length ps = 1 \<and> OptimizerStep \<notin> set ?new
                \<and> (\<forall>l. Backward l \<notin> set ?new) \<and> weights s' = weights s"
      if ng: "\<not> loss_requires_grad T False False" and ne: "bs \<noteq> []"
    proof -
      from ng have g: "\<not> loss_has_grad T" by (simp add: loss_has_grad_def)
      have "\<not> (\<exists>m. r = Inr m)" using E g ne by (auto simp: train_effect_def)
      then obtain err where r: "r = Inl err" by (cases r) auto
      with E g have e: "err = RuntimeError" "length ps = 1" "weights s' = weights s"
        by (simp_all add: train_effect_def)
      then obtain p where ps: "ps = [p]" by (cases ps) auto
      from ne obtain b rest where bs: "bs = b # rest" by (cases bs) auto
      from c ps bs g have f: "filter is_compute ?new = cut_block T (training s) b p"
        by (simp add: batch_calls_def)
      have "OptimizerStep \<notin> set ?new" "Backward l \<notin> set ?new" for l
        using f compute_member[of OptimizerStep ?new] compute_member[of "Backward l" ?new]
          cut_blocks_members(1,2)[where T = T and m = "training s" and b = b and p = p]
        by simp_all
      with r e show ?thesis by blast
    qed
    have tr: "trace s' = trace s @ ?new" using E by (simp add: train_effect_def)
    have ret: "\<forall>m. r = Inr m \<longrightarrow> length ps = length bs"
      using E by (simp add: train_effect_def)
    have fo: "forward_outputs T (training s) bs ps" using E by (simp add: train_effect_def)
    have th: "\<forall>p. threshold p = map (map (\<lambda>v. if 3 / 10 < v then 1 else 0)) p"
      by (simp add: threshold_def)
    have c': "filter is_compute ?new = concat (map2 ?blk bs ps)"
      using c blk by simp
    from tr len ret fo c' th cnt bug pe show ?thesis
      by (intro exI[of _ ?new] exI[of _ ps]) blast
  qed
qed

text \<open>
  A training pass over one batch with a loss computed from its two arguments alone, and
  one over two batches with a loss that brings a gradient history.
\<close>

theorem training_batch_protocol_witness:
  "fst (train (plain_toy example_losses) one_batch (plain_logger 1) 0
          (fresh_run (plain_toy example_losses) (1 / 100) (9 / 10) no_files)) = Inl RuntimeError
   \<and> length (filter (\<lambda>ev. ev = ZeroGrad)
         (trace (snd (train (plain_toy example_losses) one_batch (plain_logger 1) 0
                  (fresh_run (plain_toy example_losses) (1 / 100) (9 / 10) no_files))))) = 1
   \<and> OptimizerStep \<notin> set
         (trace (snd (train (plain_toy example_losses) one_batch (plain_logger 1) 0
                  (fresh_run (plain_toy example_losses) (1 / 100) (9 / 10) no_files))))
   \<and> weights (snd (train (plain_toy example_losses) one_batch (plain_logger 1) 0
                  (fresh_run (plain_toy example_losses) (1 / 100) (9 / 10) no_files))) = 0
   \<and> (\<exists>m. fst (train (toy example_losses) two_batches (plain_logger 1) 0
              (fresh_run (toy example_losses) (1 / 100) (9 / 10) no_files)) = Inr m)
   \<and> (\<exists>new. trace (snd (train (toy example_losses) two_batches (plain_logger 1) 0
                  (fresh_run (toy example_losses) (1 / 100) (9 / 10) no_files)))
               = trace (fresh_run (toy example_losses) (1 / 100) (9 / 10) no_files) @ new
            \<and> length (filter (\<lambda>ev. ev = ZeroGrad) new) = 2
            \<and> length (filter (\<lambda>ev. ev = OptimizerStep) new) = 2)"
proof -
  let ?T = "toy example_losses"
  let ?s = "fresh_run ?T (1 / 100) (9 / 10) no_files"
  let ?P = "plain_toy example_losses"
  let ?u = "fresh_run ?P (1 / 100) (9 / 10) no_files"
  let ?tp = "train ?P one_batch (plain_logger 1) 0 ?u"
  have "loader_ok (print_freq (plain_logger 1)) two_batches"
    by (simp add: loader_ok_def plain_logger_def two_batches_def)
  from train_total[OF this disjI2[OF toy_has_grad]] obtain m s' where
    t: "train ?T two_batches (plain_logger 1) 0 ?s = (Inr m, s')" by blast
  have g: "loss_requires_grad ?T False False"
    using toy_has_grad[of example_losses] by (simp add: loss_has_grad_def)
  have tp: "?tp = (fst ?tp, snd ?tp)" by simp
  have ng: "\<not> loss_requires_grad ?P False False"
    using plain_toy_simps(1)[of example_losses] by (simp add: loss_has_grad_def)
  have h: "one_batch \<noteq> []" "print_freq (plain_logger 1) \<noteq> 0"
    by (simp_all add: one_batch_def plain_logger_def)
  have u: "trace ?u = []" "weights ?u = 0"
    by (simp_all add: fresh_run_simps plain_toy_simps)
  from training_batch_protocol[OF tp] ng h u
  have 1: "fst ?tp = Inl RuntimeError
     \<and> length (filter (\<lambda>ev. ev = ZeroGrad) (trace (snd ?tp))) = 1
     \<and> OptimizerStep \<notin> set (trace (snd ?tp))
     \<and> weights (snd ?tp) = 0"
    by auto
  from training_batch_protocol[OF t] t g
  have 2: "(\<exists>m. fst (train ?T two_batches (plain_logger 1) 0 ?s) = Inr m)
     \<and> (\<exists>new. trace (snd (train ?T two_batches (plain_logger 1) 0 ?s)) = trace ?s @ new
            \<and> length (filter (\<lambda>ev. ev = ZeroGrad) new) = 2
            \<and> length (filter (\<lambda>ev. ev = OptimizerStep) new) = 2)"
    by (auto simp: two_batches_def)
  from 1 2 show ?thesis by blast
qed

subsection \<open>C4\<close>

text \<open>
  Claim C4. A training pass and a validation pass that return have updated the accuracy
  tracker once for every batch, in loader order, with the Dice coefficient of the batch's
  input tensor and its label tensor, and the loss tracker once for every batch with the
  loss the criterion returned for that batch, each update weighted by the number of
  samples of the batch; the metrics returned are the averages of these trackers. A
  tracker that has received the updates \<open>us\<close> holds the weighted sum and the total
  weight.
\<close>

theorem trackers_updated_per_batch:
  "(train T bs lg e s = (Inr m, s') \<longrightarrow>
      (\<exists>new ps. trace s' = trace s @ new \<and> length ps = length bs
         \<and> forward_outputs T (training s) bs ps
         \<and> filter is_compute new = concat (map2 (train_block T (training s)) bs ps)
         \<and> train_acc m = avg (tracked MetricTracker
              (map (\<lambda>b. (dice_coeff T (sat_img b) (map_img b), size0 (sat_img b))) bs))
         \<and> train_loss m = avg (tracked MetricTracker
              (map2 (\<lambda>b p. (criterion T (threshold p) (map_img b), size0 (sat_img b))) bs ps))))
   \<and> (validation T vbs lv e' u = (Inr vm, u') \<longrightarrow>
      (\<exists>new ps. trace u' = trace u @ new \<and> length ps = length vbs
         \<and> forward_outputs T False vbs ps
         \<and> filter is_compute new = concat (map2 (val_block T False) vbs ps)
         \<and> valid_acc vm = avg (tracked MetricTracker
              (map (\<lambda>b. (dice_coeff T (sat_img b) (map_img b), size0 (sat_img b))) vbs))
         \<and> valid_loss vm = avg (tracked MetricTracker
              (map2 (\<lambda>b p. (criterion T (threshold p) (map_img b), size0 (sat_img b))) vbs ps))))
   \<and> (\<forall>us. tracked MetricTracker us
              = \<lparr>msum = (\<Sum>(v, n)\<leftarrow>us. v * real n), mcount = (\<Sum>(v, n)\<leftarrow>us. n)\<rparr>)"
proof (intro conjI impI allI)
  assume a: "train T bs lg e s = (Inr m, s')"
  from train_spec[OF a] obtain new ps fin where E: "train_effect T bs lg s (Inr m) s' new ps fin"
    by auto
  let ?new = "SchedulerStep (get_lr (stepped (sched s))) # new @ fin"
  have fc: "filter is_compute new = concat (map2 (train_block T (training s)) bs ps)"
    using train_effect_blocks[OF E] by simp
  from E fc show "\<exists>new ps. trace s' = trace s @ new \<and> length ps = length bs
         \<and> forward_outputs T (training s) bs ps
         \<and> filter is_compute new = concat (map2 (train_block T (training s)) bs ps)
         \<and> train_acc m = avg (tracked MetricTracker
              (map (\<lambda>b. (dice_coeff T (sat_img b) (map_img b), size0 (sat_img b))) bs))
         \<and> train_loss m = avg (tracked MetricTracker
              (map2 (\<lambda>b p. (criterion T (threshold p) (map_img b), size0 (sat_img b))) bs ps))"
    by (intro exI[of _ ?new] exI[of _ ps])
       (simp add: train_effect_def dice_updates_def loss_updates_def)
next
  assume a: "validation T vbs lv e' u = (Inr vm, u')"
  from validation_spec[OF a] obtain new ps fin where
    E: "validation_effect T vbs lv u (Inr vm) u' new ps fin"
    by auto
  let ?new = "ModelEval # new @ fin"
  from E show "\<exists>new ps. trace u' = trace u @ new \<and> length ps = length vbs
         \<and> forward_outputs T False vbs ps
         \<and> filter is_compute new = concat (map2 (val_block T False) vbs ps)
         \<and> valid_acc vm = avg (tracked MetricTracker
              (map (\<lambda>b. (dice_coeff T (sat_img b) (map_img b), size0 (sat_img b))) vbs))
         \<and> valid_loss vm = avg (tracked MetricTracker
              (map2 (\<lambda>b p. (criterion T (threshold p) (map_img b), size0 (sat_img b))) vbs ps))"
    by (intro exI[of _ ?new] exI[of _ ps])
       (simp add: validation_effect_def dice_updates_def loss_updates_def)
next
  fix us :: "(real \<times> nat) list"
  show "tracked MetricTracker us
          = \<lparr>msum = (\<Sum>(v, n)\<leftarrow>us. v * real n), mcount = (\<Sum>(v, n)\<leftarrow>us. n)\<rparr>"
    by (simp add: tracked_sums MetricTracker_def)
qed

text \<open>Both passes over two batches of two and one samples, with a Dice coefficient of zero.\<close>

theorem trackers_updated_per_batch_witness:
  "(\<exists>m s'. train (toy example_losses) two_batches (plain_logger 1) 0
              (fresh_run (toy example_losses) (1 / 100) (9 / 10) no_files) = (Inr m, s')
        \<and> train_acc m = avg (tracked MetricTracker [(0, 2), (0, 1)]))
   \<and> (\<exists>vm u'. validation (toy example_losses) two_batches (plain_logger 1) 0
              (fresh_run (toy example_losses) (1 / 100) (9 / 10) no_files) = (Inr vm, u')
        \<and> valid_acc vm = avg (tracked MetricTracker [(0, 2), (0, 1)]))"
proof -
  let ?T = "toy example_losses"
  let ?s = "fresh_run ?T (1 / 100) (9 / 10) no_files"
  have ok: "loader_ok (print_freq (plain_logger 1)) two_batches"
    by (simp add: loader_ok_def plain_logger_def two_batches_def)
  from train_total[OF ok disjI2[OF toy_has_grad]] obtain m s' where
    t: "train ?T two_batches (plain_logger 1) 0 ?s = (Inr m, s')" by blast
  from validation_total[OF ok] obtain vm u' where
    v: "validation ?T two_batches (plain_logger 1) 0 ?s = (Inr vm, u')" by blast
  have d: "map (\<lambda>b. (dice_coeff ?T (sat_img b) (map_img b), size0 (sat_img b))) two_batches
             = [(0, 2), (0, 1)]"
    by (simp add: two_batches_def toy_def size0_def)
  from trackers_updated_per_batch[of ?T two_batches "plain_logger 1" 0 ?s m s'
      two_batches "plain_logger 1" 0 ?s vm u'] t v d
  show ?thesis by auto
qed

subsection \<open>C5\<close>

text \<open>
  Claim C5. A training pass whose logger has a non-zero \<open>print_freq\<close> steps the schedule
  as its first action and not again, and the optimizer's rate after the pass is the one
  that step has set; a validation pass does not step it. In a completed run the rates
  set by the successive steps, one per epoch, are \<open>initial_rate * 0.1 ^ (j div 15)\<close>
  for the \<open>j\<close>-th epoch the run executes. In a run that starts at epoch 0 the \<open>j\<close>-th
  epoch executed is epoch \<open>j\<close>: the rate is the initial rate in epoch 0 and a tenth of
  it in epoch 15.
\<close>

theorem step_decay_schedule:
  "(train T bs lg e s1 = (r, s2) \<and> print_freq lg \<noteq> 0 \<longrightarrow>
      (\<exists>rest. since s1 s2 = SchedulerStep (lr (opt s2)) # rest \<and> sched_lrs rest = []
         \<and> lr (opt s2) = get_lr ((sched s1)\<lparr>last_epoch := last_epoch (sched s1) + 1\<rparr>)))
   \<and> (validation T vbs lv e' u = (rv, u') \<longrightarrow> sched_lrs (since u u') = [])
   \<and> (main T args N lr0 mom pfreq rid resume tdl vdl f = (None, s)
        \<and> resume_from args resume (fresh_run T lr0 mom f) = (Inr (start, seed), s0) \<longrightarrow>
        sched_lrs (trace s) = map (\<lambda>j. lr0 * (1 / 10) ^ (j div 15)) [0..<nat (N - start)]
        \<and> (start = 0 \<and> 0 < N \<longrightarrow> sched_lrs (trace s) ! 0 = lr0)
        \<and> (start = 0 \<and> 15 < N \<longrightarrow> sched_lrs (trace s) ! 15 = lr0 * (1 / 10)))"
proof (intro conjI)
  show "train T bs lg e s1 = (r, s2) \<and> print_freq lg \<noteq> 0 \<longrightarrow>
      (\<exists>rest. since s1 s2 = SchedulerStep (lr (opt s2)) # rest \<and> sched_lrs rest = []
         \<and> lr (opt s2) = get_lr ((sched s1)\<lparr>last_epoch := last_epoch (sched s1) + 1\<rparr>))"
  proof
    assume a: "train T bs lg e s1 = (r, s2) \<and> print_freq lg \<noteq> 0"
    with train_spec[of T bs lg e s1 r s2] obtain new ps fin where
      E: "train_effect T bs lg s1 r s2 new ps fin" by auto
    have fin: "sched_lrs fin = []"
      using E by (cases r) (simp_all add: train_effect_def obs_Cons)
    have new: "sched_lrs new = []"
      using E pass_events_obs(3)[of new] by (simp add: train_effect_def)
    have "since s1 s2 = SchedulerStep (get_lr (stepped (sched s1))) # new @ fin"
      using E by (intro since_append) (simp add: train_effect_def)
    with E fin new
    show "\<exists>rest. since s1 s2 = SchedulerStep (lr (opt s2)) # rest \<and> sched_lrs rest = []
         \<and> lr (opt s2) = get_lr ((sched s1)\<lparr>last_epoch := last_epoch (sched s1) + 1\<rparr>)"
      by (intro exI[of _ "new @ fin"]) (simp add: train_effect_def stepped_def)
  qed
  show "validation T vbs lv e' u = (rv, u') \<longrightarrow> sched_lrs (since u u') = []"
  proof
    assume a: "validation T vbs lv e' u = (rv, u')"
    from validation_obs[OF a] obtain new where "trace u' = trace u @ new" "sched_lrs new = []"
      by blast
    then show "sched_lrs (since u u') = []" by (simp add: since_def)
  qed
  show "main T args N lr0 mom pfreq rid resume tdl vdl f = (None, s)
        \<and> resume_from args resume (fresh_run T lr0 mom f) = (Inr (start, seed), s0) \<longrightarrow>
        sched_lrs (trace s) = map (\<lambda>j. lr0 * (1 / 10) ^ (j div 15)) [0..<nat (N - start)]
        \<and> (start = 0 \<and> 0 < N \<longrightarrow> sched_lrs (trace s) ! 0 = lr0)
        \<and> (start = 0 \<and> 15 < N \<longrightarrow> sched_lrs (trace s) ! 15 = lr0 * (1 / 10))"
  proof
    assume a: "main T args N lr0 mom pfreq rid resume tdl vdl f = (None, s)
        \<and> resume_from args resume (fresh_run T lr0 mom f) = (Inr (start, seed), s0)"
    then have m: "main T args N lr0 mom pfreq rid resume tdl vdl f = (None, s)"
      and rf: "resume_from args resume (fresh_run T lr0 mom f) = (Inr (start, seed), s0)"
      by simp_all
    from main_run(3)[OF m rf]
    have l: "sched_lrs (trace s) = map (\<lambda>j. lr0 * (1 / 10) ^ (j div 15)) [0..<nat (N - start)]"
      by simp
    have l0: "start = 0 \<and> 0 < N \<longrightarrow> sched_lrs (trace s) ! 0 = lr0"
      using l by simp
    have l15: "start = 0 \<and> 15 < N \<longrightarrow> sched_lrs (trace s) ! 15 = lr0 * (1 / 10)"
    proof
      assume h: "start = 0 \<and> 15 < N"
      then have "(15::nat) < nat (N - start)" by arith
      then have "map (\<lambda>j. lr0 * (1 / 10) ^ (j div 15)) [0..<nat (N - start)] ! 15
                   = lr0 * (1 / 10) ^ (15 div 15)"
        by (simp del: upt_Suc)
      with l show "sched_lrs (trace s) ! 15 = lr0 * (1 / 10)" by simp
    qed
    from l l0 l15
    show "sched_lrs (trace s) = map (\<lambda>j. lr0 * (1 / 10) ^ (j div 15)) [0..<nat (N - start)]
        \<and> (start = 0 \<and> 0 < N \<longrightarrow> sched_lrs (trace s) ! 0 = lr0)
        \<and> (start = 0 \<and> 15 < N \<longrightarrow> sched_lrs (trace s) ! 15 = lr0 * (1 / 10))"
      by blast
  qed
qed

text \<open>A run of 16 epochs at the initial rate 0.01.\<close>

theorem step_decay_schedule_witness:
  "fst (main (toy example_losses) None 16 (1 / 100) (9 / 10) 1 ''0'' [] (\<lambda>ep. []) [] no_files)
     = None
   \<and> sched_lrs (trace (snd (main (toy example_losses) None 16 (1 / 100) (9 / 10) 1 ''0'' []
         (\<lambda>ep. []) [] no_files))) ! 0 = 1 / 100
   \<and> sched_lrs (trace (snd (main (toy example_losses) None 16 (1 / 100) (9 / 10) 1 ''0'' []
         (\<lambda>ep. []) [] no_files))) ! 15 = 1 / 100 * (1 / 10)
   \<and> print_freq (plain_logger 1) \<noteq> 0
   \<and> (\<exists>rest. since (fresh_run (toy example_losses) (1 / 100) (9 / 10) no_files)
               (snd (train (toy example_losses) one_batch (plain_logger 1) 0
                  (fresh_run (toy example_losses) (1 / 100) (9 / 10) no_files)))
             = SchedulerStep (1 / 100) # rest \<and> sched_lrs rest = [])
   \<and> sched_lrs (since (fresh_run (toy example_losses) (1 / 100) (9 / 10) no_files)
               (snd (validation (toy example_losses) one_batch (plain_logger 1) 0
                  (fresh_run (toy example_losses) (1 / 100) (9 / 10) no_files)))) = []"
proof -
  let ?T = "toy example_losses"
  let ?f = "fresh_run ?T (1 / 100) (9 / 10) no_files"
  let ?m = "main ?T None 16 (1 / 100) (9 / 10) 1 ''0'' [] (\<lambda>ep. []) [] no_files"
  let ?t = "train ?T one_batch (plain_logger 1) 0 ?f"
  let ?v = "validation ?T one_batch (plain_logger 1) 0 ?f"
  have n: "fst ?m = None" by (intro main_total) (simp_all add: loader_ok_Nil)
  then have m: "?m = (None, snd ?m)" by (simp add: prod_eq_iff)
  have pf: "print_freq (plain_logger 1) \<noteq> 0" by (simp add: plain_logger_def)
  have t: "?t = (fst ?t, snd ?t)" and v: "?v = (fst ?v, snd ?v)" by simp_all
  have l: "get_lr ((sched ?f)\<lparr>last_epoch := last_epoch (sched ?f) + 1\<rparr>) = 1 / 100"
    by (simp add: fresh_run_simps get_lr_def py_pow_def)
  have rf: "resume_from None [] ?f = (Inr (0, 999), ?f)" by (simp add: resume_from_cases)
  from step_decay_schedule[where T = ?T and bs = one_batch and lg = "plain_logger 1" and e = 0
      and ?s1.0 = ?f and r = "fst ?t" and ?s2.0 = "snd ?t"
      and vbs = one_batch and lv = "plain_logger 1" and e' = 0 and u = ?f and rv = "fst ?v"
      and u' = "snd ?v"
      and args = None and N = 16 and ?lr0.0 = "1 / 100" and mom = "9 / 10" and pfreq = 1
      and rid = "''0''" and resume = "[]" and tdl = "\<lambda>ep. []" and vdl = "[]" and f = no_files
      and s = "snd ?m" and start = 0 and seed = 999 and ?s0.0 = ?f]
    m n pf t v l rf
  show ?thesis by auto
qed

subsection \<open>C6\<close>

text \<open>
  Claim C6. A validation pass that returns has left the model parameters, the stored
  gradients and the optimizer state as they were, and has zeroed no gradient,
  backpropagated nothing and taken no optimizer step; it has put the model into
  evaluation mode and run its forward calls in that mode. The switch back to training
  mode that the claim expects before the next training pass is not in the code: the
  training pass has no statement that changes the mode, so the pass that follows a
  validation pass runs every forward call in evaluation mode and leaves the model in
  evaluation mode.
\<close>

theorem validation_frame_and_mode:
  assumes "validation T vbs lv e s = (Inr vm, s1)" and "train T tbs lt e' s1 = (r, s2)"
  shows "weights s1 = weights s \<and> grads s1 = grads s \<and> opt s1 = opt s
         \<and> ZeroGrad \<notin> set (since s s1) \<and> OptimizerStep \<notin> set (since s s1)
         \<and> (\<forall>l. Backward l \<notin> set (since s s1))
         \<and> ModelEval \<in> set (since s s1) \<and> training s1 = False
         \<and> set (forward_modes (since s s1)) \<subseteq> {False}
         \<and> training s2 = False
         \<and> set (forward_modes (since s1 s2)) \<subseteq> {False}"
proof -
  from validation_spec[OF assms(1)] obtain new ps fin where
    E: "validation_effect T vbs lv s (Inr vm) s1 new ps fin" by auto
  then have si: "since s s1 = ModelEval # new @ fin"
    by (intro since_append) (simp add: validation_effect_def)
  have fin: "fin = [Print (ValidationLoss (valid_loss vm) (valid_acc vm)), Print Blank]"
    using E by (simp add: validation_effect_def)
  have c: "filter is_compute new = concat (map2 (val_block T False) vbs ps)"
    using E by (simp add: validation_effect_def)
  have m: "ZeroGrad \<notin> set new" "OptimizerStep \<notin> set new" "\<And>l. Backward l \<notin> set new"
    using val_blocks_members[where T = T and m = False and bs = vbs and ps = ps] c
      compute_member[of ZeroGrad new] compute_member[of OptimizerStep new]
      compute_member[of "Backward l" new for l]
    by simp_all
  have "forward_modes new = forward_modes (concat (map2 (val_block T False) vbs ps))"
    using c forward_modes_compute[of new] by simp
  also have "set \<dots> \<subseteq> {False}"
    by (induction vbs ps rule: list_induct2') (auto simp: val_block_def obs_Cons)
  finally have fm: "set (forward_modes new) \<subseteq> {False}" .
  from train_obs[OF assms(2)] obtain tnew where
    T: "trace s2 = trace s1 @ tnew" "training s2 = training s1"
       "set (forward_modes tnew) \<subseteq> {training s1}" by blast
  then have st: "since s1 s2 = tnew" by (intro since_append)
  from E m fm T st si fin show ?thesis
    by (simp add: validation_effect_def obs_Cons)
qed

text \<open>The validation pass of an epoch followed by the training pass of the next.\<close>

theorem validation_frame_and_mode_witness:
  "(\<exists>vm s1. validation (toy example_losses) one_batch (plain_logger 1) 0
               (fresh_run (toy example_losses) (1 / 100) (9 / 10) no_files) = (Inr vm, s1)
        \<and> training (fresh_run (toy example_losses) (1 / 100) (9 / 10) no_files) = True
        \<and> training s1 = False
        \<and> training (snd (train (toy example_losses) one_batch (plain_logger 1) 1 s1)) = False
        \<and> forward_modes (since s1 (snd (train (toy example_losses) one_batch (plain_logger 1) 1 s1)))
            = [False])"
proof -
  let ?T = "toy example_losses"
  let ?s = "fresh_run ?T (1 / 100) (9 / 10) no_files"
  have ok: "loader_ok (print_freq (plain_logger 1)) one_batch"
    by (simp add: loader_ok_def plain_logger_def one_batch_def)
  from validation_total[OF ok] obtain vm s1 where
    v: "validation ?T one_batch (plain_logger 1) 0 ?s = (Inr vm, s1)" by blast
  obtain r s2 where t: "train ?T one_batch (plain_logger 1) 1 s1 = (r, s2)" by (metis prod.exhaust)
  from train_total[OF ok disjI2[OF toy_has_grad]] t obtain m where r: "r = Inr m"
    by (metis fst_conv)
  have pf: "print_freq (plain_logger 1) \<noteq> 0" by (simp add: plain_logger_def)
  from train_spec[OF t] pf obtain new ps fin where
    E: "train_effect ?T one_batch (plain_logger 1) s1 r s2 new ps fin" by auto
  let ?new = "SchedulerStep (get_lr (stepped (sched s1))) # new @ fin"
  have n: "trace s2 = trace s1 @ ?new" "length ps = length one_batch"
    "filter is_compute new = concat (map2 (train_block ?T (training s1)) one_batch ps)"
    "fin = [Print (TrainingLoss (train_loss m) (train_acc m)), Print Blank]"
    using E r train_effect_blocks[OF E] by (simp_all add: train_effect_def)
  from n(2) obtain p where ps: "ps = [p]" by (cases ps) (auto simp: one_batch_def)
  have "forward_modes new = forward_modes (filter is_compute new)"
    by (simp add: forward_modes_compute)
  with n(3) ps have "forward_modes new = [training s1]"
    by (simp add: one_batch_def obs_Cons train_block_def)
  with n(4) have fm: "forward_modes ?new = [training s1]"
    by (simp add: obs_Cons)
  from validation_frame_and_mode[OF v t] v t fm n(1)
  show ?thesis by (auto simp: fresh_run_simps since_def)
qed

subsection \<open>C7\<close>

text \<open>
  Claim C7. Run as a script with a resume path at which there is no file, the program
  raises nothing at lines 55 to 66: it prints the message of line 66 and enters the
  epoch loop at epoch 0 with best loss 999 and the freshly built model, optimizer and
  schedule. Result and final state are those of the run without a resume path, with that
  one message in front of the trace.
\<close>

theorem missing_checkpoint_starts_fresh:
  assumes "resume \<noteq> []" and "f resume = None"
  shows "resume_from (Some resume) resume (fresh_run T lr0 mom f)
           = (Inr (0, 999), emit [Print (NoCheckpointFound resume)] (fresh_run T lr0 mom f))
         \<and> script T N lr0 mom pfreq rid resume tdl vdl f
             = apsnd (with_prefix [Print (NoCheckpointFound resume)])
                 (script T N lr0 mom pfreq rid [] tdl vdl f)
         \<and> fst (script T N lr0 mom pfreq rid [] tdl vdl f)
             = fst (epoch_loop T tdl vdl (fst (loggers rid pfreq)) (snd (loggers rid pfreq)) N
                      (py_range 0 N) 999 (fresh_run T lr0 mom f))
         \<and> weights (fresh_run T lr0 mom f) = init_weights T
         \<and> opt (fresh_run T lr0 mom f) = \<lparr>lr = lr0, momentum = mom, buffers = init_buffers T\<rparr>"
proof -
  let ?fresh = "fresh_run T lr0 mom f"
  let ?msg = "[Print (NoCheckpointFound resume)]"
  have rf: "resume_from (Some resume) resume ?fresh = (Inr (0, 999), emit ?msg ?fresh)"
    using assms by (simp add: resume_from_cases fresh_run_simps)
  have rf0: "resume_from (Some []) [] ?fresh = (Inr (0, 999), ?fresh)"
    by (simp add: resume_from_cases)
  have pre: "emit ?msg ?fresh = with_prefix ?msg ?fresh"
    by (simp add: emit_def with_prefix_def fresh_run_simps)
  obtain r b' s' where e: "epoch_loop T tdl vdl (fst (loggers rid pfreq)) (snd (loggers rid pfreq)) N
                        (py_range 0 N) 999 ?fresh = (r, b', s')"
    by (metis prod_cases3)
  then have e': "epoch_loop T tdl vdl (fst (loggers rid pfreq)) (snd (loggers rid pfreq)) N
                        (py_range 0 N) 999 (emit ?msg ?fresh) = (r, b', with_prefix ?msg s')"
    by (simp add: pre epoch_loop_prefix)
  have m0: "script T N lr0 mom pfreq rid [] tdl vdl f
           = (r, if r = None then emit [Print TrainingComplete] s' else s')"
    unfolding script_def by (rule main_unfold[OF rf0 e])
  have m1: "script T N lr0 mom pfreq rid resume tdl vdl f
           = (r, if r = None then emit [Print TrainingComplete] (with_prefix ?msg s')
                 else with_prefix ?msg s')"
    unfolding script_def by (rule main_unfold[OF rf e'])
  from rf m0 m1 e show ?thesis
    by (simp add: emit_prefix fresh_run_simps)
qed

text \<open>A two-epoch run with a resume path that does not exist.\<close>

theorem missing_checkpoint_starts_fresh_witness:
  "''missing.pth.tar'' \<noteq> [] \<and> no_files ''missing.pth.tar'' = None
   \<and> script (toy example_losses) 2 (1 / 100) (9 / 10) 1 ''0'' ''missing.pth.tar''
        (\<lambda>ep. one_batch) one_batch no_files
      = apsnd (with_prefix [Print (NoCheckpointFound ''missing.pth.tar'')])
          (script (toy example_losses) 2 (1 / 100) (9 / 10) 1 ''0'' [] (\<lambda>ep. one_batch) one_batch
             no_files)"
proof -
  have h1: "''missing.pth.tar'' \<noteq> []" by simp
  have h2: "no_files ''missing.pth.tar'' = None" by (simp add: no_files_def)
  from missing_checkpoint_starts_fresh[where resume = "''missing.pth.tar''" and f = no_files,
      OF h1 h2] h1 h2 show ?thesis by blast
qed

subsection \<open>C8\<close>

text \<open>
  Claim C8, amended. The record persisted in an epoch has the five fields epoch number,
  architecture name, model parameters, best loss and optimizer state, and no field for
  the learning-rate schedule; when a run completes, the file at the fixed location holds
  the number of the last epoch, the final parameters, best loss and optimizer state. On
  resume the epoch counter, best loss, parameters and optimizer state are those of the
  record, while the schedule is the freshly constructed one: it starts from the rate
  given on the command line and counts from the resumed epoch as if it were epoch 0.
\<close>

theorem checkpoint_record_contents:
  "(main T args N lr0 mom pfreq rid resume tdl vdl f = (None, s)
      \<and> resume_from args resume (fresh_run T lr0 mom f) = (Inr (start, seed), s0)
      \<and> start < N \<longrightarrow>
        fs s checkpoint_path
          = Some (CheckpointFile
              \<lparr>epoch = N - 1, arch = ''UNet'', state_dict = weights s,
               best_loss = running_best seed (val_losses (trace s)) (nat (N - start)),
               optimizer = opt s\<rparr>))
   \<and> (resume' \<noteq> [] \<and> f' resume' = Some (CheckpointFile c) \<longrightarrow>
        (\<exists>restored.
            resume_from args' resume' (fresh_run T lr0' mom' f')
              = (Inr (epoch c, best_loss c), restored)
            \<and> weights restored = state_dict c \<and> opt restored = optimizer c
            \<and> sched restored
                = \<lparr>base_lr = lr0', step_size = 15, gamma = 1 / 10, last_epoch = - 1\<rparr>)
        \<and> (main T args' N' lr0' mom' pfreq' rid' resume' tdl' vdl' f' = (None, s') \<longrightarrow>
             sched_lrs (trace s')
               = map (\<lambda>j. lr0' * (1 / 10) ^ (j div 15)) [0..<nat (N' - epoch c)]))"
proof (intro conjI)
  show "main T args N lr0 mom pfreq rid resume tdl vdl f = (None, s)
      \<and> resume_from args resume (fresh_run T lr0 mom f) = (Inr (start, seed), s0)
      \<and> start < N \<longrightarrow>
        fs s checkpoint_path
          = Some (CheckpointFile
              \<lparr>epoch = N - 1, arch = ''UNet'', state_dict = weights s,
               best_loss = running_best seed (val_losses (trace s)) (nat (N - start)),
               optimizer = opt s\<rparr>)"
  proof
    assume a: "main T args N lr0 mom pfreq rid resume tdl vdl f = (None, s)
      \<and> resume_from args resume (fresh_run T lr0 mom f) = (Inr (start, seed), s0)
      \<and> start < N"
    then have m: "main T args N lr0 mom pfreq rid resume tdl vdl f = (None, s)"
      and rf: "resume_from args resume (fresh_run T lr0 mom f) = (Inr (start, seed), s0)"
      and lt: "start < N" by simp_all
    let ?ls = "val_losses (trace s)"
    let ?cs = "saved (trace s)"
    note E = main_run(1)[OF m rf, unfolded epochs_effect_def]
    note F = main_run(2)[OF m rf]
    have len: "length ?ls = nat (N - start)" "length ?cs = nat (N - start)"
      using E by (simp_all add: length_py_range)
    with lt have ne: "?cs \<noteq> []" by auto
    have "epoch (last ?cs) = last (map epoch ?cs)" using ne by (simp add: last_map)
    also have "\<dots> = N - 1" using E lt by (simp add: last_py_range)
    finally have 1: "epoch (last ?cs) = N - 1" .
    have 2: "arch (last ?cs) = ''UNet''" using E ne by simp
    have "last ?cs = ?cs ! (nat (N - start) - 1)" using ne len by (simp add: last_conv_nth)
    moreover have "best_loss (?cs ! (nat (N - start) - 1))
        = running_best seed ?ls (Suc (nat (N - start) - 1))"
    proof -
      have "\<forall>k < length ?ls. best_loss (?cs ! k) = running_best seed ?ls (Suc k)"
        using E by blast
      moreover have "nat (N - start) - 1 < length ?ls" using len lt by simp
      ultimately show ?thesis by blast
    qed
    ultimately have 3: "best_loss (last ?cs) = running_best seed ?ls (nat (N - start))"
      using lt by simp
    have 4: "state_dict (last ?cs) = weights s" "optimizer (last ?cs) = opt s"
      using F lt by simp_all
    have "last ?cs = \<lparr>epoch = N - 1, arch = ''UNet'', state_dict = weights s,
               best_loss = running_best seed ?ls (nat (N - start)), optimizer = opt s\<rparr>"
      using 1 2 3 4 by (intro checkpoint.equality) simp_all
    with E ne show "fs s checkpoint_path
          = Some (CheckpointFile
              \<lparr>epoch = N - 1, arch = ''UNet'', state_dict = weights s,
               best_loss = running_best seed ?ls (nat (N - start)), optimizer = opt s\<rparr>)"
      by simp
  qed
  show "resume' \<noteq> [] \<and> f' resume' = Some (CheckpointFile c) \<longrightarrow>
        (\<exists>restored.
            resume_from args' resume' (fresh_run T lr0' mom' f')
              = (Inr (epoch c, best_loss c), restored)
            \<and> weights restored = state_dict c \<and> opt restored = optimizer c
            \<and> sched restored
                = \<lparr>base_lr = lr0', step_size = 15, gamma = 1 / 10, last_epoch = - 1\<rparr>)
        \<and> (main T args' N' lr0' mom' pfreq' rid' resume' tdl' vdl' f' = (None, s') \<longrightarrow>
             sched_lrs (trace s')
               = map (\<lambda>j. lr0' * (1 / 10) ^ (j div 15)) [0..<nat (N' - epoch c)])"
  proof
    assume a: "resume' \<noteq> [] \<and> f' resume' = Some (CheckpointFile c)"
    let ?restored = "emit [Print (LoadingCheckpoint resume'), TorchLoad resume',
                Print (LoadedCheckpoint resume' (epoch c))]
            ((fresh_run T lr0' mom' f')\<lparr>weights := state_dict c, opt := optimizer c\<rparr>)"
    have rf: "resume_from args' resume' (fresh_run T lr0' mom' f')
                = (Inr (epoch c, best_loss c), ?restored)"
      using a by (simp add: resume_from_cases fresh_run_simps)
    have r: "weights ?restored = state_dict c" "opt ?restored = optimizer c"
      "sched ?restored = \<lparr>base_lr = lr0', step_size = 15, gamma = 1 / 10, last_epoch = - 1\<rparr>"
      by (simp_all add: emit_def fresh_run_simps)
    have s: "main T args' N' lr0' mom' pfreq' rid' resume' tdl' vdl' f' = (None, s') \<longrightarrow>
             sched_lrs (trace s')
               = map (\<lambda>j. lr0' * (1 / 10) ^ (j div 15)) [0..<nat (N' - epoch c)]"
    proof
      assume m: "main T args' N' lr0' mom' pfreq' rid' resume' tdl' vdl' f' = (None, s')"
      from main_run(3)[OF m rf]
      show "sched_lrs (trace s')
               = map (\<lambda>j. lr0' * (1 / 10) ^ (j div 15)) [0..<nat (N' - epoch c)]" by simp
    qed
    from rf r s show "(\<exists>restored.
            resume_from args' resume' (fresh_run T lr0' mom' f')
              = (Inr (epoch c, best_loss c), restored)
            \<and> weights restored = state_dict c \<and> opt restored = optimizer c
            \<and> sched restored
                = \<lparr>base_lr = lr0', step_size = 15, gamma = 1 / 10, last_epoch = - 1\<rparr>)
        \<and> (main T args' N' lr0' mom' pfreq' rid' resume' tdl' vdl' f' = (None, s') \<longrightarrow>
             sched_lrs (trace s')
               = map (\<lambda>j. lr0' * (1 / 10) ^ (j div 15)) [0..<nat (N' - epoch c)])"
      by blast
  qed
qed

text \<open>The run of 16 epochs, and the run of 17 epochs resumed from a checkpoint of epoch 15.\<close>

theorem checkpoint_record_contents_witness:
  "fst (main (toy example_losses) None 16 (1 / 100) (9 / 10) 1 ''0'' [] (\<lambda>ep. []) [] no_files)
     = None
   \<and> fs (snd (main (toy example_losses) None 16 (1 / 100) (9 / 10) 1 ''0'' [] (\<lambda>ep. []) []
         no_files)) checkpoint_path
     = Some (CheckpointFile \<lparr>epoch = 15, arch = ''UNet'', state_dict = 0, best_loss = 0,
          optimizer = \<lparr>lr = 1 / 1000, momentum = 9 / 10, buffers = ()\<rparr>\<rparr>)
   \<and> ''run.pth.tar'' \<noteq> [] \<and> one_file ''run.pth.tar'' = Some (CheckpointFile sample_checkpoint)
   \<and> fst (main (toy example_losses) None 17 (1 / 100) (9 / 10) 1 ''0'' ''run.pth.tar''
             (\<lambda>ep. []) [] one_file) = None
   \<and> sched_lrs (trace (snd (main (toy example_losses) None 17 (1 / 100) (9 / 10) 1 ''0''
             ''run.pth.tar'' (\<lambda>ep. []) [] one_file))) = [1 / 100, 1 / 100]"
proof -
  let ?T = "toy example_losses"
  let ?m = "main ?T None 16 (1 / 100) (9 / 10) 1 ''0'' [] (\<lambda>ep. []) [] no_files"
  let ?m2 = "main ?T None 17 (1 / 100) (9 / 10) 1 ''0'' ''run.pth.tar'' (\<lambda>ep. []) [] one_file"
  have n: "fst ?m = None" by (intro main_total) (simp_all add: loader_ok_Nil)
  then have m: "?m = (None, snd ?m)" by (simp add: prod_eq_iff)
  have rf: "resume_from None [] (fresh_run ?T (1 / 100) (9 / 10) no_files)
              = (Inr (0, 999), fresh_run ?T (1 / 100) (9 / 10) no_files)"
    by (simp add: resume_from_cases)
  have h1: "''run.pth.tar'' \<noteq> []" by simp
  have h2: "one_file ''run.pth.tar'' = Some (CheckpointFile sample_checkpoint)"
    by (simp add: one_file_def)
  have n2: "fst ?m2 = None" using h2 by (intro main_total) (simp_all add: loader_ok_Nil)
  then have m2: "?m2 = (None, snd ?m2)" by (simp add: prod_eq_iff)
  have e: "nat (17 - epoch sample_checkpoint) = 2" by (simp add: sample_checkpoint_def)
  from checkpoint_record_contents[where T = ?T and args = None and N = 16 and ?lr0.0 = "1 / 100"
      and mom = "9 / 10" and pfreq = 1 and rid = "''0''" and resume = "[]" and tdl = "\<lambda>ep. []"
      and vdl = "[]" and f = no_files and s = "snd ?m" and start = 0 and seed = 999
      and ?s0.0 = "fresh_run ?T (1 / 100) (9 / 10) no_files"
      and resume' = "''run.pth.tar''" and f' = one_file and c = sample_checkpoint
      and args' = None and ?lr0' = "1 / 100" and mom' = "9 / 10" and N' = 17 and pfreq' = 1
      and rid' = "''0''" and tdl' = "\<lambda>ep. []" and vdl' = "[]" and s' = "snd ?m2"]
    m rf h1 h2 m2 n n2 e long_run_checkpoint
  show ?thesis by (simp add: numeral_2_eq_2)
qed

text \<open>
  Claim C8 as stated fails: a run of 16 epochs at the initial rate 0.01 trains its
  epoch 15 at the rate 0.001, with the schedule's counter at 15, and saves the checkpoint
  of that epoch; the run resumed from this checkpoint starts with the counter at -1 and
  trains the same epoch 15 at the rate 0.01.
\<close>

theorem schedule_not_restored_counterexample:
  "fs (snd (main (toy example_losses) None 16 (1 / 100) (9 / 10) 1 ''0'' [] (\<lambda>ep. []) []
         no_files)) checkpoint_path
     = Some (CheckpointFile \<lparr>epoch = 15, arch = ''UNet'', state_dict = 0, best_loss = 0,
          optimizer = \<lparr>lr = 1 / 1000, momentum = 9 / 10, buffers = ()\<rparr>\<rparr>)
   \<and> last_epoch (sched (snd (main (toy example_losses) None 16 (1 / 100) (9 / 10) 1 ''0'' []
         (\<lambda>ep. []) [] no_files))) = 15
   \<and> sched_lrs (trace (snd (main (toy example_losses) None 16 (1 / 100) (9 / 10) 1 ''0'' []
         (\<lambda>ep. []) [] no_files))) ! 15 = 1 / 1000
   \<and> last_epoch (sched (snd (resume_from None checkpoint_path
         (fresh_run (toy example_losses) (1 / 100) (9 / 10)
            (fs (snd (main (toy example_losses) None 16 (1 / 100) (9 / 10) 1 ''0'' []
               (\<lambda>ep. []) [] no_files))))))) = - 1
   \<and> fst (main (toy example_losses) None 16 (1 / 100) (9 / 10) 1 ''0'' checkpoint_path
         (\<lambda>ep. []) []
         (fs (snd (main (toy example_losses) None 16 (1 / 100) (9 / 10) 1 ''0'' []
            (\<lambda>ep. []) [] no_files)))) = None
   \<and> sched_lrs (trace (snd (main (toy example_losses) None 16 (1 / 100) (9 / 10) 1 ''0''
         checkpoint_path (\<lambda>ep. []) []
         (fs (snd (main (toy example_losses) None 16 (1 / 100) (9 / 10) 1 ''0'' []
            (\<lambda>ep. []) [] no_files)))))) = [1 / 100]"
proof -
  let ?T = "toy example_losses"
  let ?m = "main ?T None 16 (1 / 100) (9 / 10) 1 ''0'' [] (\<lambda>ep. []) [] no_files"
  let ?c = "\<lparr>epoch = 15, arch = ''UNet'', state_dict = 0, best_loss = 0,
          optimizer = \<lparr>lr = 1 / 1000, momentum = 9 / 10, buffers = ()\<rparr>\<rparr> :: (nat, unit) checkpoint"
  let ?f = "fs (snd ?m)"
  let ?m2 = "main ?T None 16 (1 / 100) (9 / 10) 1 ''0'' checkpoint_path (\<lambda>ep. []) [] ?f"
  have 3: "sched_lrs (trace (snd ?m)) ! 15 = 1 / 1000"
    by (simp add: empty_run_simps py_range_16 del: epoch_loop.simps(2))
  have ne: "checkpoint_path \<noteq> []" by (simp add: checkpoint_path_def)
  let ?restored = "emit [Print (LoadingCheckpoint checkpoint_path), TorchLoad checkpoint_path,
                Print (LoadedCheckpoint checkpoint_path (epoch ?c))]
            ((fresh_run ?T (1 / 100) (9 / 10) ?f)\<lparr>weights := state_dict ?c, opt := optimizer ?c\<rparr>)"
  have rf: "resume_from None checkpoint_path (fresh_run ?T (1 / 100) (9 / 10) ?f)
              = (Inr (epoch ?c, best_loss ?c), ?restored)"
    using ne long_run_checkpoint by (simp add: resume_from_cases(2) fresh_run_simps)
  have 4: "last_epoch (sched (snd (resume_from None checkpoint_path
              (fresh_run ?T (1 / 100) (9 / 10) ?f)))) = - 1"
    by (simp add: rf emit_def fresh_run_simps)
  have 5: "fst ?m2 = None"
    using long_run_checkpoint by (intro main_total) (simp_all add: loader_ok_Nil)
  then have m2: "?m2 = (None, snd ?m2)" by (simp add: prod_eq_iff)
  from main_run(3)[OF m2 rf] have 6: "sched_lrs (trace (snd ?m2)) = [1 / 100]" by simp
  from long_run_checkpoint long_run_sched 3 4 5 6 show ?thesis by simp
qed

subsection \<open>C9\<close>

text \<open>
  Claim C9. On a run that loads no checkpoint the best loss starts at 999. The copy to the
  best location follows the save of epoch \<open>k\<close> exactly when the validation loss of that
  epoch is below the smallest of 999 and the losses of the earlier epochs; such a loss is
  below 999. When every validation loss of the run is at least 999, the run copies
  nothing and the best location holds what it held before the run.
\<close>

theorem best_loss_seed_999:
  assumes "main T args N lr0 mom pfreq rid resume tdl vdl f = (r, s)"
    and "resume = [] \<or> f resume = None"
  shows "filter is_file_write (trace s)
           = checkpoint_io (saved (trace s))
               (map (improved 999 (val_losses (trace s))) [0..<length (val_losses (trace s))])
       \<and> (\<forall>k < length (val_losses (trace s)).
             improved 999 (val_losses (trace s)) k \<longrightarrow> val_losses (trace s) ! k < 999)
       \<and> ((\<forall>l \<in> set (val_losses (trace s)). 999 \<le> l) \<longrightarrow>
             (\<forall>a b. CopyFile a b \<notin> set (trace s)) \<and> fs s best_path = f best_path)"
proof -
  let ?ls = "val_losses (trace s)"
  have imp: "\<forall>k < length ?ls. improved 999 ?ls k \<longrightarrow> ?ls ! k < 999"
  proof (intro allI impI)
    fix k assume "improved 999 ?ls k"
    then have "?ls ! k < running_best 999 ?ls k" by (simp add: improved_def)
    also have "\<dots> \<le> 999" by (rule running_best_le_seed)
    finally show "?ls ! k < 999" .
  qed
  have "(\<exists>s0. resume_from args resume (fresh_run T lr0 mom f) = (Inr (0, 999), s0))
        \<or> (\<exists>s0. resume_from args resume (fresh_run T lr0 mom f) = (Inl NameError, s0))"
    using assms(2)
    by (cases "resume = []"; cases args) (auto simp: resume_from_cases fresh_run_simps)
  then show ?thesis
  proof (elim disjE exE)
    fix s0 assume rf: "resume_from args resume (fresh_run T lr0 mom f) = (Inr (0, 999), s0)"
    note E = main_run(1)[OF assms(1) rf, unfolded epochs_effect_def]
    have io: "filter is_file_write (trace s)
           = checkpoint_io (saved (trace s)) (map (improved 999 ?ls) [0..<length ?ls])"
      using E by simp
    have none: "(\<forall>a b. CopyFile a b \<notin> set (trace s)) \<and> fs s best_path = f best_path"
      if h: "\<forall>l \<in> set ?ls. 999 \<le> l"
    proof -
      have ni: "\<forall>k < length ?ls. \<not> improved 999 ?ls k"
      proof (intro allI impI notI)
        fix k assume k: "k < length ?ls" and i: "improved 999 ?ls k"
        from imp k i have "?ls ! k < 999" by blast
        moreover from h k have "999 \<le> ?ls ! k" by simp
        ultimately show False by simp
      qed
      then have fl: "\<forall>b \<in> set (map (improved 999 ?ls) [0..<length ?ls]). \<not> b" by auto
      have "CopyFile a b \<notin> set (trace s)" for a b
      proof -
        have "CopyFile a b \<notin> set (checkpoint_io (saved (trace s))
                (map (improved 999 ?ls) [0..<length ?ls]))"
          using fl by (rule checkpoint_io_no_copy)
        with io show ?thesis using file_write_member[of a b "trace s"] by simp
      qed
      then have "\<forall>a b. CopyFile a b \<notin> set (trace s)" by blast
      moreover from E ni have "fs s best_path = f best_path" by simp
      ultimately show ?thesis by simp
    qed
    from io imp none show ?thesis by blast
  next
    fix s0 assume rf: "resume_from args resume (fresh_run T lr0 mom f) = (Inl NameError, s0)"
    then have "s0 = fresh_run T lr0 mom f"
      by (auto simp: resume_from_def Let_def emit_def split: if_splits option.splits stored.splits)
    with rf assms(1) have "s = fresh_run T lr0 mom f" by (simp add: main_def)
    then show ?thesis by (simp add: fresh_run_simps checkpoint_io_def)
  qed
qed

text \<open>A run of two epochs whose validation loss is 1000 in both.\<close>

theorem best_loss_seed_999_witness:
  "val_losses (trace (snd (main (toy (\<lambda>n. 1000)) None 2 (1 / 100) (9 / 10) 1 ''0'' []
       (\<lambda>ep. one_batch) one_batch no_files))) = [1000, 1000]
   \<and> fs (snd (main (toy (\<lambda>n. 1000)) None 2 (1 / 100) (9 / 10) 1 ''0'' []
       (\<lambda>ep. one_batch) one_batch no_files)) best_path = None
   \<and> CopyFile checkpoint_path best_path \<notin> set (trace (snd (main (toy (\<lambda>n. 1000)) None 2 (1 / 100)
       (9 / 10) 1 ''0'' [] (\<lambda>ep. one_batch) one_batch no_files)))"
proof -
  let ?m = "main (toy (\<lambda>n. 1000)) None 2 (1 / 100) (9 / 10) 1 ''0'' []
       (\<lambda>ep. one_batch) one_batch no_files"
  have r: "py_range 0 2 = [0, 1]" by (simp add: py_range_def upto_rec1)
  have ls: "val_losses (trace (snd ?m)) = [1000, 1000]"
    by (simp add: toy_run_simps r del: epoch_loop.simps(2))
  have m: "?m = (fst ?m, snd ?m)" by simp
  from best_loss_seed_999[OF m] ls show ?thesis by (simp add: no_files_def)
qed

subsection \<open>C10\<close>

text \<open>
  Claim C10, amended to loaders that yield at least one batch. The cadence is
  \<open>len(loader) // print_freq\<close>. When \<open>print_freq\<close> exceeds the number of batches,
  the cadence is 0 and neither pass returns: the validation pass raises
  \<open>ZeroDivisionError\<close> at the modulo of the first batch, after the forward pass of that
  batch and of no other, and so does the training pass whose first batch gets as far as
  the modulo, after the optimizer step of that batch and of no other. A pass over such a
  loader that returns has \<open>print_freq \<le> len(loader)\<close>.
\<close>

theorem log_cadence_zero_division:
  assumes "bs \<noteq> []"
  shows "(int (length bs) < print_freq lg \<longrightarrow>
            int (length bs) div print_freq lg = 0
            \<and> (\<exists>err. fst (train T bs lg e s) = Inl err)
            \<and> (loss_has_grad T \<longrightarrow>
                 fst (train T bs lg e s) = Inl ZeroDivisionError
                 \<and> (\<exists>p. filter is_compute (since s (snd (train T bs lg e s)))
                          = train_block T (training s) (hd bs) p))
            \<and> fst (validation T bs lg e s) = Inl ZeroDivisionError
            \<and> (\<exists>p. filter is_compute (since s (snd (validation T bs lg e s)))
                     = val_block T False (hd bs) p))
         \<and> ((\<exists>m. fst (train T bs lg e s) = Inr m) \<longrightarrow> print_freq lg \<le> int (length bs))
         \<and> ((\<exists>m. fst (validation T bs lg e s) = Inr m) \<longrightarrow> print_freq lg \<le> int (length bs))"
proof -
  obtain b rest where bs: "bs = b # rest" using assms by (cases bs) auto
  obtain r s' where t: "train T bs lg e s = (r, s')" by (metis prod.exhaust)
  obtain rv u' where v: "validation T bs lg e s = (rv, u')" by (metis prod.exhaust)
  have div0: "int (length bs) < print_freq lg \<Longrightarrow> int (length bs) div print_freq lg = 0"
    by simp
  have tr_ok: "print_freq lg \<le> int (length bs)" if "r = Inr m" for m
  proof (rule ccontr)
    assume "\<not> print_freq lg \<le> int (length bs)"
    then have lt: "int (length bs) < print_freq lg" by simp
    then have pf: "print_freq lg \<noteq> 0" by auto
    from train_spec[OF t] pf obtain new ps fin where "train_effect T bs lg s r s' new ps fin"
      by auto
    with that assms have "int (length bs) div print_freq lg \<noteq> 0"
      by (simp add: train_effect_def)
    with div0[OF lt] show False by simp
  qed
  have va_ok: "print_freq lg \<le> int (length bs)" if "rv = Inr m" for m
  proof (rule ccontr)
    assume "\<not> print_freq lg \<le> int (length bs)"
    then have lt: "int (length bs) < print_freq lg" by simp
    then have pf: "print_freq lg \<noteq> 0" by auto
    from validation_spec[OF v] pf obtain new ps fin where
      "validation_effect T bs lg s rv u' new ps fin" by auto
    with that assms have "int (length bs) div print_freq lg \<noteq> 0"
      by (simp add: validation_effect_def)
    with div0[OF lt] show False by simp
  qed
  have tr_err: "\<exists>err. r = Inl err" if lt: "int (length bs) < print_freq lg"
  proof (cases r)
    case (Inl err)
    then show ?thesis by blast
  next
    case (Inr m)
    from tr_ok[OF Inr] lt show ?thesis by simp
  qed
  have tr_fail: "r = Inl ZeroDivisionError
        \<and> (\<exists>p. filter is_compute (since s s') = train_block T (training s) (hd bs) p)"
    if lt: "int (length bs) < print_freq lg" and g: "loss_has_grad T"
  proof -
    from lt have pf: "print_freq lg \<noteq> 0" by auto
    from train_spec[OF t] pf obtain new ps fin where E: "train_effect T bs lg s r s' new ps fin"
      by auto
    from tr_err[OF lt] obtain err where r: "r = Inl err" by blast
    with E g have e: "err = ZeroDivisionError" "length ps = 1" "fin = []"
      by (simp_all add: train_effect_def)
    then obtain p where ps: "ps = [p]" by (cases ps) auto
    have "since s s' = SchedulerStep (get_lr (stepped (sched s))) # new @ fin"
      using E by (intro since_append) (simp add: train_effect_def)
    with E e ps bs g have "filter is_compute (since s s') = train_block T (training s) (hd bs) p"
      by (simp add: train_effect_def batch_calls_def)
    with r e show ?thesis by blast
  qed
  have va_fail: "rv = Inl ZeroDivisionError
        \<and> (\<exists>p. filter is_compute (since s u') = val_block T False (hd bs) p)"
    if lt: "int (length bs) < print_freq lg"
  proof -
    from lt have pf: "print_freq lg \<noteq> 0" by auto
    from validation_spec[OF v] pf obtain new ps fin where
      E: "validation_effect T bs lg s rv u' new ps fin" by auto
    have nr: "\<not> (\<exists>m. rv = Inr m)" using va_ok lt by force
    then obtain err where r: "rv = Inl err" by (cases rv) auto
    with E have e: "err = ZeroDivisionError" "length ps = 1" "fin = []"
      by (simp_all add: validation_effect_def)
    then obtain p where ps: "ps = [p]" by (cases ps) auto
    have "since s u' = ModelEval # new @ fin"
      using E by (intro since_append) (simp add: validation_effect_def)
    with E e ps bs have "filter is_compute (since s u') = val_block T False (hd bs) p"
      by (simp add: validation_effect_def)
    with r e show ?thesis by blast
  qed
  from div0 tr_ok va_ok tr_err tr_fail va_fail t v show ?thesis by auto
qed

text \<open>A loader of two batches and \<open>print_freq = 4\<close>.\<close>

theorem log_cadence_zero_division_witness:
  "two_batches \<noteq> [] \<and> int (length two_batches) < print_freq (plain_logger 4)
   \<and> int (length two_batches) div print_freq (plain_logger 4) = 0
   \<and> fst (train (toy example_losses) two_batches (plain_logger 4) 0
            (fresh_run (toy example_losses) (1 / 100) (9 / 10) no_files)) = Inl ZeroDivisionError
   \<and> fst (validation (toy example_losses) two_batches (plain_logger 4) 0
            (fresh_run (toy example_losses) (1 / 100) (9 / 10) no_files)) = Inl ZeroDivisionError"
proof -
  have h1: "two_batches \<noteq> []" by (simp add: two_batches_def)
  have h2: "int (length two_batches) < print_freq (plain_logger 4)"
    by (simp add: two_batches_def plain_logger_def)
  from log_cadence_zero_division[OF h1, where lg = "plain_logger 4" and T = "toy example_losses"
      and e = 0 and s = "fresh_run (toy example_losses) (1 / 100) (9 / 10) no_files"] h1 h2
    toy_has_grad[of example_losses]
  show ?thesis by blast
qed

text \<open>
  Claim C10 as stated fails for a loader without batches: no modulo is evaluated, and
  the pass returns although \<open>print_freq\<close> exceeds the number of batches.
\<close>

theorem empty_loader_counterexample:
  "int (length ([] :: batch list)) < print_freq (plain_logger 4)
   \<and> fst (validation (toy example_losses) [] (plain_logger 4) 0
            (fresh_run (toy example_losses) (1 / 100) (9 / 10) no_files))
       = Inr \<lparr>valid_loss = 0, valid_acc = 0\<rparr>
   \<and> fst (train (toy example_losses) [] (plain_logger 4) 0
            (fresh_run (toy example_losses) (1 / 100) (9 / 10) no_files))
       = Inr \<lparr>train_loss = 0, train_acc = 0\<rparr>"
  by (simp add: validation_def train_def plain_logger_def Let_def avg_def MetricTracker_def
        split: prod.splits)

end
